theory Spec2Isabelle
  imports Complex_Main "HOL-Library.Sublist"
begin

section \<open>Python strings\<close>

text \<open>
  A Python \<^verbatim>\<open>str\<close> is a sequence of Unicode code points, so it is modelled as a list of
  natural numbers. ASCII literals of the source are written \<open>py ''...''\<close>; any other
  character is given by its code point (\<open>0xC1\<close> is the capital A with acute accent of
  the third and fourth resumption sentinels, written precomposed in the source file).
\<close>

type_synonym codepoint = nat
type_synonym pystr = "codepoint list"

abbreviation py :: "string \<Rightarrow> pystr" where
  "py s \<equiv> map of_char s"

text \<open>\<^verbatim>\<open>sub in s\<close> on strings: \<open>sub\<close> occurs in \<open>s\<close> as a contiguous block.\<close>

fun str_contains :: "pystr \<Rightarrow> pystr \<Rightarrow> bool" where
  "str_contains sub [] = (sub = [])"
| "str_contains sub (c # cs) = (prefix sub (c # cs) \<or> str_contains sub cs)"

text \<open>
  \<^verbatim>\<open>s.replace(old, "")\<close>: one pass from the left; where \<open>old\<close> starts it is skipped
  whole, otherwise one character is kept. With an empty \<open>old\<close> and an empty replacement
  Python returns \<open>s\<close>.
\<close>

function str_remove :: "pystr \<Rightarrow> pystr \<Rightarrow> pystr" where
  "str_remove old [] = []"
| "str_remove old (c # cs) =
     (if old \<noteq> [] \<and> prefix old (c # cs)
      then str_remove old (drop (length old) (c # cs))
      else c # str_remove old cs)"
  by pat_completeness auto
termination
  by (relation "measure (\<lambda>(old, s). length s)") (auto simp: neq_Nil_conv)

text \<open>
  \<^verbatim>\<open>str.strip()\<close> without argument removes leading and trailing whitespace, which for
  CPython's \<^verbatim>\<open>str\<close> is this fixed set of code points.
\<close>

definition py_isspace :: "codepoint \<Rightarrow> bool" where
  "py_isspace c \<longleftrightarrow>
     (0x09 \<le> c \<and> c \<le> 0x0D) \<or> (0x1C \<le> c \<and> c \<le> 0x20) \<or> c = 0x85 \<or> c = 0xA0 \<or>
     c = 0x1680 \<or> (0x2000 \<le> c \<and> c \<le> 0x200A) \<or> c = 0x2028 \<or> c = 0x2029 \<or>
     c = 0x202F \<or> c = 0x205F \<or> c = 0x3000"

definition str_strip :: "pystr \<Rightarrow> pystr" where
  "str_strip s = rev (dropWhile py_isspace (rev (dropWhile py_isspace s)))"

text \<open>\<^verbatim>\<open>str(n)\<close> for a non-negative integer.\<close>

fun str_of_nat :: "nat \<Rightarrow> pystr" where
  "str_of_nat n = (if n < 10 then [48 + n] else str_of_nat (n div 10) @ [48 + n mod 10])"

declare str_of_nat.simps [simp del]

section \<open>The crisis overlay (\<^verbatim>\<open>CrisisManager\<close>, utils/safety.py)\<close>

datatype role = User | Assistant

text \<open>
  The fields of a \<^verbatim>\<open>CrisisManager\<close>. History entries carry a timestamp in the source;
  no decision reads it, so it is left out. The safety score is an \<^verbatim>\<open>int\<close> or a
  \<^verbatim>\<open>float\<close> in the source (the step is 0.5, exact in binary floating point); it is a
  real number here.
\<close>

record CrisisManager =
  crisis_history :: "(role \<times> pystr) list"
  crisis_type :: "pystr option"
  safety_score :: real
  interaction_count :: nat

text \<open>
  A row of table \<^verbatim>\<open>crisis_state\<close> for the participant. Closed episodes stay in the table
  with \<open>row_active = False\<close> and a resolution reason.
\<close>

datatype resolution = ResetQuestionnaire | ReadyToResume nat

record crisis_row =
  row_history :: "(role \<times> pystr) list"
  row_type :: "pystr option"
  row_score :: real
  row_count :: nat
  row_active :: bool
  row_resolution :: "resolution option"

definition new_crisis_manager :: CrisisManager where
  "new_crisis_manager =
     \<lparr>crisis_history = [], crisis_type = None, safety_score = 0, interaction_count = 0\<rparr>"

text \<open>
  \<^verbatim>\<open>save_crisis_state\<close>: an upsert on the participant's active row. If an active row
  exists it is overwritten, otherwise a new active row is inserted.
\<close>

definition row_of :: "CrisisManager \<Rightarrow> crisis_row" where
  "row_of cm =
     \<lparr>row_history = crisis_history cm, row_type = crisis_type cm,
      row_score = safety_score cm, row_count = interaction_count cm,
      row_active = True, row_resolution = None\<rparr>"

definition save_crisis_state :: "CrisisManager \<Rightarrow> crisis_row list \<Rightarrow> crisis_row list" where
  "save_crisis_state cm rows =
     (if \<exists>r \<in> set rows. row_active r
      then map (\<lambda>r. if row_active r
                     then r\<lparr>row_history := crisis_history cm, row_type := crisis_type cm,
                            row_score := safety_score cm, row_count := interaction_count cm\<rparr>
                     else r) rows
      else rows @ [row_of cm])"

text \<open>\<^verbatim>\<open>end_crisis\<close>: every active row of the participant becomes inactive.\<close>

definition end_crisis :: "resolution \<Rightarrow> crisis_row list \<Rightarrow> crisis_row list" where
  "end_crisis reason rows =
     map (\<lambda>r. if row_active r
               then r\<lparr>row_active := False, row_resolution := Some reason\<rparr> else r) rows"

text \<open>\<^verbatim>\<open>load_crisis_state\<close>, as called by the constructor with \<^verbatim>\<open>load_existing=True\<close>:
  the active row if there is one (a missing type is corrected to \<^verbatim>\<open>'unknown'\<close>, also in
  the table), the constructor's defaults otherwise.\<close>

definition load_crisis_state :: "crisis_row list \<Rightarrow> CrisisManager \<times> crisis_row list" where
  "load_crisis_state rows =
     (case filter row_active rows of
        [] \<Rightarrow> (new_crisis_manager, rows)
      | r # _ \<Rightarrow>
          (if row_type r = None \<or> row_type r = Some []
           then (\<lparr>crisis_history = row_history r, crisis_type = Some (py ''unknown''),
                  safety_score = row_score r, interaction_count = row_count r\<rparr>,
                 map (\<lambda>r. if row_active r then r\<lparr>row_type := Some (py ''unknown'')\<rparr> else r) rows)
           else (\<lparr>crisis_history = row_history r, crisis_type = row_type r,
                  safety_score = row_score r, interaction_count = row_count r\<rparr>, rows)))"

subsection \<open>Resumption sentinels\<close>

definition resume_signals :: "pystr list" where
  "resume_signals =
     [py ''[RETOMAR_QUESTIONARIO]'',
      py ''[RETOMAR QUESTIONARIO]'',
      py ''[RETOMAR_QUESTION'' @ [0xC1] @ py ''RIO]'',
      py ''[RETOMAR QUESTION'' @ [0xC1] @ py ''RIO]'']"

text \<open>The default acknowledgement, "Que bom que voce esta se sentindo melhor! Vamos retomar
  o questionario de onde paramos." with its accents (U+00EA, U+00E1).\<close>

definition default_ack :: pystr where
  "default_ack =
     py ''Que bom que voc'' @ [0xEA] @ py '' est'' @ [0xE1] @
     py '' se sentindo melhor! Vamos retomar o question'' @ [0xE1] @
     py ''rio de onde paramos.''"

text \<open>
  The loop over \<^verbatim>\<open>resume_signals\<close>: the first signal (in list order) that occurs in the
  reply sets \<^verbatim>\<open>can_resume\<close>, is deleted from the reply with \<^verbatim>\<open>replace\<close>, the reply is
  stripped and, if nothing is left, replaced by the default acknowledgement; then the
  loop is left (\<^verbatim>\<open>break\<close>). The result is \<open>(can_resume, assistant_response)\<close>.
\<close>

fun scan_resume_signals :: "pystr list \<Rightarrow> pystr \<Rightarrow> bool \<times> pystr" where
  "scan_resume_signals [] response = (False, response)"
| "scan_resume_signals (signal # signals) response =
     (if str_contains signal response
      then (let stripped = str_strip (str_remove signal response)
            in (True, if stripped = [] then default_ack else stripped))
      else scan_resume_signals signals response)"

subsection \<open>One crisis turn\<close>

text \<open>The fixed replies and notes of a crisis turn, with the accents and emoji of the
  source given by code point.\<close>

definition crisis_fallback_reply :: pystr where
  "crisis_fallback_reply =
     py ''Estou aqui para te apoiar. Como voc'' @ [0xEA] @ py '' est'' @ [0xE1] @
     py '' se sentindo agora? Lembre-se que h'' @ [0xE1] @ py '' ajuda dispon'' @ [0xED] @
     py ''vel: CVV 188 (24h) | SAMU 192''"

definition many_turns_note :: "nat \<Rightarrow> pystr" where
  "many_turns_note n =
     [10, 10, 0x1F4A1] @ py '' Nota: J'' @ [0xE1] @ py '' conversamos bastante ('' @
     str_of_nat n @ py '' mensagens). Se voc'' @ [0xEA] @
     py '' se sente melhor e quer continuar o question'' @ [0xE1] @
     py ''rio, me avise diretamente.''"

definition resources_note :: pystr where
  "resources_note = [10, 10, 0x1F4DE] @ py '' Lembre-se: CVV 188 (24h) | SAMU 192''"

text \<open>
  \<^verbatim>\<open>handle_crisis_conversation\<close>. The dialogue generator is an external service: its reply
  for this turn is the argument \<open>llm\<close>, \<open>None\<close> when the call raises or returns no text
  (either way the \<^verbatim>\<open>except\<close> branch answers with the fixed fallback, after the counter
  and the history have been updated and before anything is saved). The result is the
  visible reply, \<^verbatim>\<open>can_resume\<close>, the manager and the table. The metadata dictionary only
  feeds the interaction log and is left out.
\<close>

definition handle_crisis_conversation ::
  "pystr option \<Rightarrow> pystr \<Rightarrow> CrisisManager \<Rightarrow> crisis_row list \<Rightarrow>
     (pystr \<times> bool) \<times> CrisisManager \<times> crisis_row list" where
  "handle_crisis_conversation llm user_message cm rows =
     (let cm1 = cm\<lparr>interaction_count := interaction_count cm + 1,
                    crisis_history := crisis_history cm @ [(User, user_message)]\<rparr>
      in case llm of
           None \<Rightarrow> ((crisis_fallback_reply, False), cm1, rows)
         | Some reply \<Rightarrow>
             (let cm2 = cm1\<lparr>crisis_history := crisis_history cm1 @ [(Assistant, reply)]\<rparr>;
                  (can_resume, response) = scan_resume_signals resume_signals reply;
                  rows1 = (if can_resume
                           then end_crisis (ReadyToResume (interaction_count cm2)) rows
                           else rows);
                  response1 = (if \<not> can_resume \<and> interaction_count cm2 \<ge> 10
                               then response @ many_turns_note (interaction_count cm2)
                               else response);
                  cm3 = cm2\<lparr>safety_score :=
                               (if can_resume then 8 else min (safety_score cm2 + 0.5) 6)\<rparr>;
                  rows2 = save_crisis_state cm3 rows1;
                  response2 = (if interaction_count cm3 mod 4 = 0 \<and> \<not> can_resume
                               then response1 @ resources_note
                               else response1)
              in ((response2, can_resume), cm3, rows2)))"

section \<open>Python floats\<close>

text \<open>
  A \<^verbatim>\<open>float\<close> is an IEEE 754 double: a finite value, an infinity or NaN. A finite float is
  the real number it denotes. An operation gives the exact real result rounded to the
  nearest double, a tie going to the even mantissa, and an infinity when the rounded
  magnitude reaches \<open>2 ^ 1024\<close>. The sign of a zero is not modelled: nothing below reads it.

  \<open>binade n x\<close> looks for the \<open>e\<close> with \<open>2 ^ e \<le> x < 2 ^ (e + 1)\<close> in at most \<open>n\<close> steps.
  The doubles of magnitude below \<open>2 ^ - 1022\<close> are spaced like those of that binade, and
  beyond \<open>2 ^ 1100\<close> the overflow is certain, so 1100 steps and the lower bound of
  \<open>- 1022\<close> give the spacing \<open>ulp\<close> of the doubles around every \<open>x\<close> that does not overflow.
\<close>

datatype pyfloat = Finite real | PosInf | NegInf | NaN

fun binade :: "nat \<Rightarrow> real \<Rightarrow> int" where
  "binade 0 x = 0"
| "binade (Suc n) x =
     (if 2 \<le> x then binade n (x / 2) + 1
      else if x < 1 then binade n (x * 2) - 1
      else 0)"

definition round_half_even :: "real \<Rightarrow> int" where
  "round_half_even y =
     (let n = \<lfloor>y\<rfloor>; r = y - of_int n
      in if r < 1 / 2 then n else if 1 / 2 < r then n + 1 else if even n then n else n + 1)"

definition round_double :: "real \<Rightarrow> real" where
  "round_double x =
     (if x = 0 then 0
      else (let e = max (binade 1100 \<bar>x\<bar>) (- 1022);
                ulp = 2 powi (e - 52)
            in of_int (round_half_even (x / ulp)) * ulp))"

definition to_float :: "real \<Rightarrow> pyfloat" where
  "to_float x =
     (let r = round_double x
      in if 2 ^ 1024 \<le> r then PosInf else if r \<le> - (2 ^ 1024) then NegInf else Finite r)"

text \<open>Addition of two floats.\<close>

fun float_add :: "pyfloat \<Rightarrow> pyfloat \<Rightarrow> pyfloat" where
  "float_add (Finite a) (Finite b) = to_float (a + b)"
| "float_add NaN y = NaN"
| "float_add x NaN = NaN"
| "float_add PosInf NegInf = NaN"
| "float_add NegInf PosInf = NaN"
| "float_add PosInf y = PosInf"
| "float_add x PosInf = PosInf"
| "float_add NegInf y = NegInf"
| "float_add x NegInf = NegInf"

text \<open>
  \<^verbatim>\<open>sum(xs)\<close> on a list of floats starts from the integer 0 and adds the items from left
  to right, each addition rounded (the summation of CPython before version 3.12, which
  is what the arithmetic of the assessment is checked against; later versions
  compensate the rounding errors of the partial sums).
\<close>

definition float_sum :: "pyfloat list \<Rightarrow> pyfloat" where
  "float_sum xs = foldl float_add (Finite 0) xs"

text \<open>\<^verbatim>\<open>x / n\<close> for a float and the length \<open>n > 0\<close> of a list (a length is far below
  \<open>2 ^ 53\<close>, so its conversion to float is exact).\<close>

fun float_div_len :: "pyfloat \<Rightarrow> nat \<Rightarrow> pyfloat" where
  "float_div_len (Finite a) n = to_float (a / real n)"
| "float_div_len x n = x"

text \<open>\<^verbatim>\<open>x <= c\<close> for a float and a finite constant.\<close>

fun float_le :: "pyfloat \<Rightarrow> real \<Rightarrow> bool" where
  "float_le (Finite a) c \<longleftrightarrow> a \<le> c"
| "float_le NegInf c \<longleftrightarrow> True"
| "float_le PosInf c \<longleftrightarrow> False"
| "float_le NaN c \<longleftrightarrow> False"

section \<open>The response parser (\<^verbatim>\<open>ResponseParser\<close>, agent.py)\<close>

text \<open>
  The parser calls into Python's Unicode tables and number parsers, which are not part of
  the repository. They are a parameter of the model:
  \<^item> \<open>lower_at s i\<close> is what \<^verbatim>\<open>str.lower\<close> writes for position \<open>i\<close> of \<open>s\<close> (one to three
    code points; the context is there for the Greek final sigma);
  \<^item> \<open>decomposition c\<close> is the full compatibility decomposition of \<open>c\<close>;
  \<^item> \<open>combining c\<close> is \<^verbatim>\<open>unicodedata.combining(c)\<close>, the canonical combining class;
  \<^item> \<open>is_digit c\<close> is \<^verbatim>\<open>c.isdigit()\<close>;
  \<^item> \<open>int_of_str s\<close> and \<open>float_of_str s\<close> are \<^verbatim>\<open>int(s)\<close> and \<^verbatim>\<open>float(s)\<close>, \<open>None\<close> where
    they raise \<^verbatim>\<open>ValueError\<close>; \<^verbatim>\<open>float\<close> of a string can be an infinity or NaN.
\<close>

record pylib =
  lower_at :: "pystr \<Rightarrow> nat \<Rightarrow> pystr"
  decomposition :: "codepoint \<Rightarrow> pystr"
  combining :: "codepoint \<Rightarrow> nat"
  is_digit :: "codepoint \<Rightarrow> bool"
  int_of_str :: "pystr \<Rightarrow> int option"
  float_of_str :: "pystr \<Rightarrow> pyfloat option"

definition str_lower :: "pylib \<Rightarrow> pystr \<Rightarrow> pystr" where
  "str_lower U s = concat (map (lower_at U s) [0..<length s])"

definition str_isdigit :: "pylib \<Rightarrow> pystr \<Rightarrow> bool" where
  "str_isdigit U s \<longleftrightarrow> s \<noteq> [] \<and> (\<forall>c \<in> set s. is_digit U c)"

text \<open>
  \<^verbatim>\<open>normalize\<close>: lower-case and strip, decompose (NFKD), drop the combining characters.
  NFKD is the decomposition of every character followed by the canonical reordering,
  which only permutes characters of non-zero combining class among themselves; these
  are exactly the ones dropped, so the reordering does not show in the result.
\<close>

definition normalize_str :: "pylib \<Rightarrow> pystr \<Rightarrow> pystr" where
  "normalize_str U text =
     filter (\<lambda>c. combining U c = 0)
       (concat (map (decomposition U) (str_strip (str_lower U text))))"

datatype exc = IndexError | ValueError | TypeError | OverflowError

text \<open>
  The keys of \<^verbatim>\<open>number_emoji_map\<close> are a digit followed by U+FE0F and U+20E3
  (keycap emoji).
\<close>

definition keycap :: "nat \<Rightarrow> pystr" where
  "keycap d = [48 + d, 0xFE0F, 0x20E3]"

definition number_emoji_map :: "pystr \<Rightarrow> nat option" where
  "number_emoji_map s =
     (if s = keycap 1 then Some 0 else if s = keycap 2 then Some 1
      else if s = keycap 3 then Some 2 else if s = keycap 4 then Some 3
      else if s = keycap 5 then Some 4 else if s = keycap 6 then Some 5
      else if s = keycap 7 then Some 6 else if s = keycap 8 then Some 7
      else if s = keycap 9 then Some 8 else None)"

text \<open>The loop of \<^verbatim>\<open>parse_multiple_choice\<close>: the first option that equals the normalized
  message, is contained in it or contains it.\<close>

definition option_matches :: "pylib \<Rightarrow> pystr \<Rightarrow> pystr \<Rightarrow> bool" where
  "option_matches U normalized_msg option \<longleftrightarrow>
     normalize_str U option = normalized_msg \<or>
     str_contains (normalize_str U option) normalized_msg \<or>
     str_contains normalized_msg (normalize_str U option)"

text \<open>
  \<^verbatim>\<open>parse_multiple_choice\<close>. \<open>Inr (Some v)\<close> is \<^verbatim>\<open>{'success': True, 'value': v}\<close>,
  \<open>Inr None\<close> is \<^verbatim>\<open>{'success': False}\<close>, and \<open>Inl ValueError\<close> is the exception of
  \<^verbatim>\<open>int(message)\<close> on a string of digits that are not decimal digits.
\<close>

definition match_options :: "pylib \<Rightarrow> pystr \<Rightarrow> pystr list \<Rightarrow> exc + pystr option" where
  "match_options U message options = Inr (find (option_matches U (normalize_str U message)) options)"

definition try_plain_number :: "pylib \<Rightarrow> pystr \<Rightarrow> pystr list \<Rightarrow> exc + pystr option" where
  "try_plain_number U message options =
     (if str_isdigit U message
      then (case int_of_str U message of
              None \<Rightarrow> Inl ValueError
            | Some n \<Rightarrow>
                (let idx = n - 1
                 in if 0 \<le> idx \<and> idx < int (length options)
                    then Inr (Some (options ! nat idx))
                    else match_options U message options))
      else match_options U message options)"

definition parse_multiple_choice :: "pylib \<Rightarrow> pystr \<Rightarrow> pystr list \<Rightarrow> exc + pystr option" where
  "parse_multiple_choice U message0 options =
     (let message = str_strip message0
      in case number_emoji_map message of
           Some idx \<Rightarrow>
             (if idx < length options then Inr (Some (options ! idx))
              else try_plain_number U message options)
         | None \<Rightarrow> try_plain_number U message options)"

text \<open>\<^verbatim>\<open>parse_likert\<close>: the five face emoji, the digits and the keycaps 1 to 5, then the
  keyword bands in the order of the dictionary.\<close>

definition likert_emoji_map :: "pystr \<Rightarrow> int option" where
  "likert_emoji_map s =
     (if s = [0x1F61E] \<or> s = py ''1'' \<or> s = keycap 1 then Some 1
      else if s = [0x1F641] \<or> s = py ''2'' \<or> s = keycap 2 then Some 2
      else if s = [0x1F610] \<or> s = py ''3'' \<or> s = keycap 3 then Some 3
      else if s = [0x1F642] \<or> s = py ''4'' \<or> s = keycap 4 then Some 4
      else if s = [0x1F604] \<or> s = py ''5'' \<or> s = keycap 5 then Some 5
      else None)"

definition likert_keywords :: "(int \<times> pystr) list" where
  "likert_keywords =
     [(1, py ''discordo totalmente''), (1, py ''discordo muito''), (1, py ''pessimo''),
      (1, py ''horrivel''),
      (2, py ''discordo''), (2, py ''ruim''), (2, py ''mal''),
      (3, py ''neutro''), (3, py ''medio''), (3, py ''mais ou menos''), (3, py ''talvez''),
      (4, py ''concordo''), (4, py ''bom''), (4, py ''bem''),
      (5, py ''concordo totalmente''), (5, py ''concordo muito''), (5, py ''otimo''),
      (5, py ''excelente'')]"

definition keyword_matches :: "pylib \<Rightarrow> pystr \<Rightarrow> int \<times> pystr \<Rightarrow> bool" where
  "keyword_matches U normalized keyword \<longleftrightarrow>
     str_contains (normalize_str U (snd keyword)) normalized"

definition parse_likert :: "pylib \<Rightarrow> pystr \<Rightarrow> int option" where
  "parse_likert U message0 =
     (let message = str_strip message0
      in case likert_emoji_map message of
           Some v \<Rightarrow> Some v
         | None \<Rightarrow>
             map_option fst (find (keyword_matches U (normalize_str U message)) likert_keywords))"

definition parse_text :: "pystr \<Rightarrow> pystr option" where
  "parse_text message0 =
     (let message = str_strip message0
      in if length message > 0 then Some (take 500 message) else None)"

subsection \<open>Values decoded from JSON\<close>

text \<open>
  What the interpretation service returns is parsed with \<^verbatim>\<open>json.loads\<close>, so a field can
  hold any JSON value. A JSON number with a fraction or exponent is a \<^verbatim>\<open>float\<close>:
  \<open>JNum r\<close> is the float that the decoder makes of the literal \<open>r\<close>, the double nearest to
  \<open>r\<close> (so \<open>r\<close> itself when \<open>r\<close> is a double, and an infinity for a literal like
  \<^verbatim>\<open>1e309\<close>). The conversions \<^verbatim>\<open>float(v)\<close> and \<^verbatim>\<open>int(v)\<close> round with \<open>to_float\<close> first;
  truthiness and the comparisons with a constant read \<open>r\<close>, which gives the same answer
  unless \<open>r\<close> is not a double and lies within half a spacing of zero or of the constant.
  \<open>JNaN\<close> is the literal \<^verbatim>\<open>NaN\<close>, which the decoder accepts.
\<close>

datatype jval =
    JNull
  | JBool bool
  | JInt int
  | JNum real
  | JNaN
  | JStr pystr
  | JArr "jval list"
  | JObj "(pystr \<times> jval) list"

text \<open>Python truthiness (\<^verbatim>\<open>if v:\<close>).\<close>

fun truthy :: "jval \<Rightarrow> bool" where
  "truthy JNull = False"
| "truthy (JBool b) = b"
| "truthy (JInt n) = (n \<noteq> 0)"
| "truthy (JNum r) = (r \<noteq> 0)"
| "truthy JNaN = True"
| "truthy (JStr s) = (s \<noteq> [])"
| "truthy (JArr vs) = (vs \<noteq> [])"
| "truthy (JObj kvs) = (kvs \<noteq> [])"

text \<open>The number a value compares as (\<^verbatim>\<open>v > 0.6\<close>); \<open>None\<close> where the comparison raises
  \<^verbatim>\<open>TypeError\<close>, and for NaN, which no comparison orders (see \<open>py_gt\<close> below).\<close>

fun as_number :: "jval \<Rightarrow> real option" where
  "as_number (JBool b) = Some (if b then 1 else 0)"
| "as_number (JInt n) = Some (real_of_int n)"
| "as_number (JNum r) = Some r"
| "as_number _ = None"

text \<open>\<^verbatim>\<open>int(v)\<close>: truncation towards zero on a finite float, \<^verbatim>\<open>OverflowError\<close> on an
  infinity and \<^verbatim>\<open>ValueError\<close> on NaN, the parser on a string, \<^verbatim>\<open>TypeError\<close> on the values
  that are neither numbers nor strings.\<close>

fun py_int :: "pylib \<Rightarrow> jval \<Rightarrow> exc + int" where
  "py_int U (JBool b) = Inr (if b then 1 else 0)"
| "py_int U (JInt n) = Inr n"
| "py_int U (JNum r) =
     (case to_float r of
        Finite d \<Rightarrow> Inr (if d < 0 then \<lceil>d\<rceil> else \<lfloor>d\<rfloor>)
      | NaN \<Rightarrow> Inl ValueError
      | _ \<Rightarrow> Inl OverflowError)"
| "py_int U JNaN = Inl ValueError"
| "py_int U (JStr s) = (case int_of_str U s of None \<Rightarrow> Inl ValueError | Some n \<Rightarrow> Inr n)"
| "py_int U _ = Inl TypeError"

text \<open>\<^verbatim>\<open>float(v)\<close>, \<open>None\<close> where it raises: on an integer too large for a double
  (\<^verbatim>\<open>OverflowError\<close>), on a string that does not parse, and on the values that are
  neither numbers nor strings.\<close>

fun py_float :: "pylib \<Rightarrow> jval \<Rightarrow> pyfloat option" where
  "py_float U (JBool b) = Some (Finite (if b then 1 else 0))"
| "py_float U (JInt n) =
     (case to_float (real_of_int n) of Finite d \<Rightarrow> Some (Finite d) | _ \<Rightarrow> None)"
| "py_float U (JNum r) = Some (to_float r)"
| "py_float U JNaN = Some NaN"
| "py_float U (JStr s) = float_of_str U s"
| "py_float U _ = None"

section \<open>The interpretation fallback (\<^verbatim>\<open>ResponseParser.llm_parse\<close>)\<close>

text \<open>
  The two calls to the external interpretation service are inputs of the model: the
  decoded reply of the intent analysis and the decoded reply of the type-specific
  interpretation, each \<open>None\<close> when the call or the decoding raises (the source catches
  every exception of \<^verbatim>\<open>llm_parse\<close> in one place). A field is \<open>None\<close> where the key is
  missing and the source reads it with a default; a field read without default is
  \<open>JNull\<close> when missing.
\<close>

record analysis_reply =
  a_intent :: jval
  a_confidence :: "jval option"
  a_wants_to_skip :: jval
  a_should_insist :: jval
  a_clarification_response :: "jval option"

record interp_reply =
  i_value :: jval
  i_confidence :: "jval option"

text \<open>
  The dictionary a parser returns carries exactly one of these meanings. \<open>Success v c\<close>
  is \<^verbatim>\<open>{'success': True, 'value': v}\<close>, with \<^verbatim>\<open>interpretation_confidence\<close> \<open>c\<close> when the
  value comes from the interpretation service; \<open>Failed\<close> is a dictionary with
  \<^verbatim>\<open>'success': False\<close> and none of the other flags.
\<close>

datatype parsed =
    Success jval "real option"
  | WantsToSkip
  | ClarificationLimit
  | Clarification jval
  | OffTopic
  | CouldNotInterpret
  | Failed

definition get_default :: "'a option \<Rightarrow> 'a \<Rightarrow> 'a" where
  "get_default field d = (case field of None \<Rightarrow> d | Some v \<Rightarrow> v)"

text \<open>\<^verbatim>\<open>v > c\<close> for a decoded value and a float constant; \<open>None\<close> is \<^verbatim>\<open>TypeError\<close>.\<close>

definition py_gt :: "jval \<Rightarrow> real \<Rightarrow> bool option" where
  "py_gt v c = (if v = JNaN then Some False else map_option (\<lambda>r. r > c) (as_number v))"

definition interpret_answer :: "interp_reply option \<Rightarrow> parsed" where
  "interpret_answer reply =
     (case reply of
        None \<Rightarrow> Failed
      | Some result \<Rightarrow>
          (if truthy (i_value result)
           then (case py_gt (get_default (i_confidence result) (JInt 0)) 0.7 of
                   None \<Rightarrow> Failed
                 | Some True \<Rightarrow>
                     Success (i_value result) (as_number (get_default (i_confidence result) (JInt 0)))
                 | Some False \<Rightarrow> CouldNotInterpret)
           else CouldNotInterpret))"

definition interpret_as_answer ::
  "interp_reply option \<Rightarrow> pystr \<Rightarrow> pystr \<Rightarrow> parsed" where
  "interpret_as_answer reply message qtype =
     (if qtype = py ''likert'' \<or> qtype = py ''multiple choice''
      then interpret_answer reply
      else if length (str_strip message) > 0 then Success (JStr (take 500 message)) None
      else Failed)"

definition llm_parse ::
  "analysis_reply option \<Rightarrow> interp_reply option \<Rightarrow> pystr \<Rightarrow> pystr \<Rightarrow> nat \<Rightarrow> parsed" where
  "llm_parse areply ireply message qtype clarification_count =
     (case areply of
        None \<Rightarrow> Failed
      | Some a \<Rightarrow>
          (let confidence = get_default (a_confidence a) (JInt 0)
           in if a_intent a = JStr (py ''skip_request'') \<or> truthy (a_wants_to_skip a)
              then WantsToSkip
              else case (if a_intent a = JStr (py ''question'') then py_gt confidence 0.6
                         else Some False) of
                     None \<Rightarrow> Failed
                   | Some True \<Rightarrow>
                       (if truthy (a_should_insist a) \<or> clarification_count \<ge> 2
                        then ClarificationLimit
                        else Clarification
                               (get_default (a_clarification_response a)
                                  (JStr (py ''Vou esclarecer sua d'' @ [0xFA] @ py ''vida.''))))
                   | Some False \<Rightarrow>
                       (case (if a_intent a = JStr (py ''off_topic'') then py_gt confidence 0.7
                              else Some False) of
                          None \<Rightarrow> Failed
                        | Some True \<Rightarrow> OffTopic
                        | Some False \<Rightarrow> interpret_as_answer ireply message qtype)))"

section \<open>The questionnaire state machine (\<^verbatim>\<open>QuestionnaireStateMachine\<close>, agent.py)\<close>

datatype state =
    WELCOME | CONSENT | PHASE1_QUESTIONS | ASSESSMENT | FOLLOWUP_INTRO | FOLLOWUP_QUESTIONS
  | ORIGIN_INTRO | ORIGIN_QUESTIONS | COMPLETION | EMERGENCY | RESET

text \<open>
  A question of the questionnaire file, and later of \<^verbatim>\<open>phase1_data\<close>, is a dictionary. The
  keys the code reads are the fields of this record: \<open>q_id = None\<close> and \<open>q_type = None\<close>
  stand for a missing key (the code then falls back to the cursor, and to \<^verbatim>\<open>'text'\<close> or
  \<^verbatim>\<open>''\<close>), a missing \<^verbatim>\<open>options\<close> is the empty list, a missing \<^verbatim>\<open>required\<close> or
  \<^verbatim>\<open>desconsiderada\<close> is \<open>False\<close>, a missing \<^verbatim>\<open>dimension\<close> the empty string, and a missing
  \<^verbatim>\<open>response\<close> is \<open>JNull\<close> like \<^verbatim>\<open>None\<close>.
\<close>

record question =
  q_id :: "int option"
  q_text :: pystr
  q_type :: "pystr option"
  q_options :: "pystr list"
  q_required :: bool
  q_dimension :: pystr
  q_response :: jval
  q_disregarded :: bool

text \<open>The fixed follow-up and origin questions (the lists \<^verbatim>\<open>FOLLOWUP_QUESTIONS\<close> and
  \<^verbatim>\<open>ORIGIN_QUESTIONS\<close> of the source, which share their names with two states); their
  wording only feeds the formatting of replies and is left out.\<close>

record fixed_question =
  f_id :: string
  f_type :: pystr
  f_options :: "pystr list"

definition yes_no_options :: "pystr list" where
  "yes_no_options =
     [py ''Sim'', py ''N'' @ [0xE3] @ py ''o'', py ''Prefiro n'' @ [0xE3] @ py ''o responder'']"

definition FOLLOWUP_QUESTIONS_list :: "fixed_question list" where
  "FOLLOWUP_QUESTIONS_list =
     map (\<lambda>i. \<lparr>f_id = i, f_type = py ''multiple choice'', f_options = yes_no_options\<rparr>)
       [''A1'', ''A2'', ''A3'', ''A4'', ''A5'', ''A6'']"

definition ORIGIN_QUESTIONS_list :: "fixed_question list" where
  "ORIGIN_QUESTIONS_list =
     [\<lparr>f_id = ''O1'', f_type = py ''multiple choice'',
       f_options = [py ''Do ambiente de trabalho'', py ''Da vida pessoal'', py ''Dos dois'',
                    py ''Prefiro n'' @ [0xE3] @ py ''o responder'']\<rparr>,
      \<lparr>f_id = ''O2'', f_type = py ''text'', f_options = []\<rparr>]"

text \<open>The keys of \<^verbatim>\<open>attempt_counts\<close>: \<^verbatim>\<open>q_<id>\<close>, \<^verbatim>\<open>q_<id>_clarifications\<close> and
  \<^verbatim>\<open>followup_<id>_clarifications\<close>.\<close>

datatype count_key = QAttempts int | QClarifications int | FollowupClarifications string

text \<open>What is stored in table \<^verbatim>\<open>questionnaire_state\<close> for the participant.\<close>

record session =
  state :: state
  current_question_index :: nat
  phase1_data :: "question list"
  aprofundamento :: "(fixed_question \<times> jval) list"
  origem_riscos :: "(pystr \<times> (fixed_question \<times> jval) list) list"
  trigger_dimensions :: "pystr list"
  attempt_counts :: "count_key \<rightharpoonup> nat"
  skipped_questions :: nat
  pre_crisis_state :: "state option"
  pre_crisis_question_index :: "nat option"

datatype s3_object =
    Phase1Doc "question list"
  | FollowupsDoc "(fixed_question \<times> jval) list" "(pystr \<times> (fixed_question \<times> jval) list) list"

text \<open>
  The state machine object together with the stores it reads and writes: the loaded
  questionnaire, the crisis manager, the participant's row of \<^verbatim>\<open>questionnaire_state\<close>
  (\<open>None\<close>: no row), the participant's rows of \<^verbatim>\<open>crisis_state\<close> and the objects written
  to the archive. The stores are taken to work: a failing database or archive call is
  not modelled, and neither is the interaction log.
\<close>

record machine = session +
  questionnaire :: "question list"
  crisis_manager :: "CrisisManager option"
  state_row :: "session option"
  crisis_rows :: "crisis_row list"
  archive :: "s3_object list"

definition save_state :: "machine \<Rightarrow> machine" where
  "save_state m = m\<lparr>state_row := Some (session.truncate m)\<rparr>"

definition enter_crisis_mode :: "pystr option \<Rightarrow> real \<Rightarrow> machine \<Rightarrow> machine" where
  "enter_crisis_mode ctype initial_safety_score m =
     (let cm = new_crisis_manager\<lparr>crisis_type := ctype, safety_score := initial_safety_score\<rparr>
      in save_state
           (m\<lparr>pre_crisis_state := Some (state m),
              pre_crisis_question_index := Some (current_question_index m),
              state := EMERGENCY,
              crisis_manager := Some cm,
              crisis_rows := save_crisis_state cm (crisis_rows m)\<rparr>))"

definition exit_crisis_mode :: "machine \<Rightarrow> machine" where
  "exit_crisis_mode m =
     save_state
       ((case pre_crisis_state m of
           Some st \<Rightarrow>
             m\<lparr>state := st,
                current_question_index :=
                  (case pre_crisis_question_index m of Some i \<Rightarrow> i
                   | None \<Rightarrow> current_question_index m),
                pre_crisis_state := None,
                pre_crisis_question_index := None\<rparr>
         | None \<Rightarrow> m\<lparr>state := WELCOME, current_question_index := 0\<rparr>)
        \<lparr>crisis_manager := None\<rparr>)"

definition reset :: "machine \<Rightarrow> machine" where
  "reset m =
     save_state
       (m\<lparr>state_row := None,
          crisis_rows := end_crisis ResetQuestionnaire (crisis_rows m),
          state := WELCOME,
          current_question_index := 0,
          phase1_data := [],
          aprofundamento := [],
          origem_riscos := [],
          trigger_dimensions := [],
          attempt_counts := Map.empty,
          skipped_questions := 0,
          pre_crisis_state := None,
          pre_crisis_question_index := None,
          crisis_manager := None\<rparr>)"

subsection \<open>Replies\<close>

text \<open>
  The text of a reply is kept symbolic: a message is the sequence of the parts the
  source concatenates, a fixed text (named by its opening words, without accents and
  emoji), a formatted question, or a text or number that is interpolated. Only the
  crisis dialogue, whose text is scanned for sentinels, is a real string.
\<close>

datatype piece =
    Fixed string
  | FormatQuestion question nat nat
  | FormatFollowup fixed_question nat nat
  | FormatOrigin fixed_question nat nat "pystr option"
  | OriginHeader pystr nat fixed_question
  | Quoted jval
  | Count int
  | CrisisText pystr

type_synonym message = "piece list"

text \<open>A handler answers with one string or with a list of strings, sent one by one.\<close>

datatype reply = Single message | Multi "message list"

text \<open>What a handler returns: the pair \<^verbatim>\<open>(reply, llm_used)\<close>, or in one place of the source
  the bare reply of \<^verbatim>\<open>do_assessment\<close>.\<close>

datatype handler_result = Pair reply bool | Bare reply

subsection \<open>Assessment\<close>

definition target_dimensions :: "pystr list" where
  "target_dimensions =
     [py ''Qualidade do sono e disposi'' @ [0xE7, 0xE3] @ py ''o'',
      [0xC2] @ py ''nimo e motiva'' @ [0xE7, 0xE3] @ py ''o'',
      py ''Estresse e ansiedade'',
      py ''Equil'' @ [0xED] @ py ''brio vida-trabalho'',
      py ''Exig'' @ [0xEA] @ py ''ncias de tempo no trabalho'']"

text \<open>
  The first loop of \<^verbatim>\<open>do_assessment\<close> builds \<^verbatim>\<open>dimension_scores\<close>, a dictionary from
  dimension to list of scores; a Python dictionary iterates in insertion order, so it is
  an association list with distinct keys, new keys at the end. The key is created before
  \<^verbatim>\<open>float(item['response'])\<close> is tried; a response that does not convert adds no score.
\<close>

definition is_scored :: "pylib \<Rightarrow> question \<Rightarrow> bool" where
  "is_scored U item \<longleftrightarrow>
     str_lower U (get_default (q_type item) []) = py ''likert'' \<and> \<not> q_disregarded item \<and>
     q_response item \<noteq> JNull"

fun add_score ::
  "pystr \<Rightarrow> pyfloat \<Rightarrow> (pystr \<times> pyfloat list) list \<Rightarrow> (pystr \<times> pyfloat list) list" where
  "add_score dimen x [] = []"
| "add_score dimen x ((k, v) # d) =
     (if k = dimen then (k, v @ [x]) # d else (k, v) # add_score dimen x d)"

fun collect_scores ::
  "pylib \<Rightarrow> question list \<Rightarrow> (pystr \<times> pyfloat list) list \<Rightarrow> (pystr \<times> pyfloat list) list" where
  "collect_scores U [] dimension_scores = dimension_scores"
| "collect_scores U (item # items) dimension_scores =
     collect_scores U items
       (if is_scored U item
        then (let dimen = q_dimension item;
                  scores1 = (if dimen \<notin> fst ` set dimension_scores
                             then dimension_scores @ [(dimen, [])] else dimension_scores)
              in case py_float U (q_response item) of
                   None \<Rightarrow> scores1
                 | Some x \<Rightarrow> add_score dimen x scores1)
        else dimension_scores)"

definition is_target :: "pylib \<Rightarrow> pystr \<Rightarrow> bool" where
  "is_target U dimen \<longleftrightarrow> normalize_str U dimen \<in> set (map (normalize_str U) target_dimensions)"

text \<open>The second loop: \<^verbatim>\<open>avg = sum(scores) / len(scores)\<close> in float arithmetic, then
  \<^verbatim>\<open>avg <= 3.0\<close>.\<close>

fun select_triggers :: "pylib \<Rightarrow> (pystr \<times> pyfloat list) list \<Rightarrow> pystr list" where
  "select_triggers U [] = []"
| "select_triggers U ((dimen, scores) # rest) =
     (if scores \<noteq> [] \<and> is_target U dimen \<and>
         float_le (float_div_len (float_sum scores) (length scores)) 3.0
      then dimen # select_triggers U rest
      else select_triggers U rest)"

definition get_completion_message :: "machine \<Rightarrow> machine \<times> message" where
  "get_completion_message m = (reset m, [Fixed ''Questionario concluido!'']) "

definition save_to_s3 :: "bool \<Rightarrow> machine \<Rightarrow> machine" where
  "save_to_s3 phase1 m =
     m\<lparr>archive := archive m @
          [if phase1 then Phase1Doc (phase1_data m)
           else FollowupsDoc (aprofundamento m) (origem_riscos m)]\<rparr>"

definition do_assessment :: "pylib \<Rightarrow> machine \<Rightarrow> machine \<times> reply" where
  "do_assessment U m =
     (let m1 = m\<lparr>trigger_dimensions :=
                   select_triggers U (collect_scores U (phase1_data m) [])\<rparr>;
          m2 = save_to_s3 True m1
      in if trigger_dimensions m2 \<noteq> []
         then (save_state (m2\<lparr>state := FOLLOWUP_QUESTIONS, current_question_index := 0\<rparr>),
               Multi [[Fixed ''Percebemos alguns sinais de risco nesta etapa.''],
                      [FormatFollowup (FOLLOWUP_QUESTIONS_list ! 0) 1 6]])
         else (let (m3, text) = get_completion_message (save_state (m2\<lparr>state := COMPLETION\<rparr>))
               in (m3, Single text)))"

subsection \<open>Phase 1\<close>

text \<open>The current question as \<^verbatim>\<open>format_question\<close> shows it: position \<open>index + 1\<close> of the
  length of the questionnaire.\<close>

definition ask_again :: "machine \<Rightarrow> question \<Rightarrow> piece" where
  "ask_again m question =
     FormatQuestion question (current_question_index m + 1) (length (questionnaire m))"

definition ask_next :: "machine \<Rightarrow> piece" where
  "ask_next m =
     FormatQuestion (questionnaire m ! current_question_index m)
       (current_question_index m + 1) (length (questionnaire m))"

text \<open>Marking the current entry of \<^verbatim>\<open>phase1_data\<close>: the source writes through the
  reference \<^verbatim>\<open>question\<close> into the list.\<close>

definition set_answer :: "jval \<Rightarrow> bool \<Rightarrow> machine \<Rightarrow> machine" where
  "set_answer v disregarded m =
     m\<lparr>phase1_data :=
         (phase1_data m)[current_question_index m :=
            (phase1_data m ! current_question_index m)
              \<lparr>q_response := v, q_disregarded := disregarded\<rparr>]\<rparr>"

definition append_next_question :: "machine \<Rightarrow> machine" where
  "append_next_question m =
     m\<lparr>phase1_data := phase1_data m @ [questionnaire m ! current_question_index m]\<rparr>"

text \<open>After a skip the next question is appended only if the buffer does not hold it yet.\<close>

definition reveal_after_skip :: "machine \<Rightarrow> machine" where
  "reveal_after_skip m =
     (if current_question_index m < length (questionnaire m) \<and>
         current_question_index m \<ge> length (phase1_data m)
      then append_next_question m else m)"

definition to_assessment :: "pylib \<Rightarrow> bool \<Rightarrow> machine \<Rightarrow> machine \<times> (exc + handler_result)" where
  "to_assessment U llm_used m =
     (let (m1, r) = do_assessment U (save_state (m\<lparr>state := ASSESSMENT\<rparr>))
      in (m1, Inr (Pair r llm_used)))"

text \<open>Skipping the current question: it is marked disregarded with no response, the
  skip counter and the cursor move on, the next question is revealed and the session
  saved.\<close>

definition skip_current_question :: "machine \<Rightarrow> machine" where
  "skip_current_question m =
     (let m1 = set_answer JNull True m;
          m2 = m1\<lparr>skipped_questions := skipped_questions m1 + 1,
                  current_question_index := current_question_index m1 + 1\<rparr>
      in save_state (reveal_after_skip m2))"

text \<open>The skip request (\<^verbatim>\<open>wants_to_skip\<close>).\<close>

definition skip_requested ::
  "pylib \<Rightarrow> question \<Rightarrow> bool \<Rightarrow> machine \<Rightarrow> machine \<times> (exc + handler_result)" where
  "skip_requested U question llm_used m =
     (if q_required question
      then (m, Inr (Pair (Single [Fixed ''Esta pergunta e obrigatoria e nao pode ser pulada.'',
                                   ask_again m question]) llm_used))
      else if skipped_questions m \<ge> 5
      then (reset m,
            Inr (Pair (Single [Fixed ''Voce ja pulou o maximo de 5 perguntas permitidas.''])
                   llm_used))
      else (let remaining_skips = 5 - int (skipped_questions m) - 1;
                m3 = skip_current_question m
            in if current_question_index m3 \<ge> length (questionnaire m3)
               then to_assessment U llm_used m3
               else (m3, Inr (Pair (Single [Fixed ''Pergunta pulada.'',
                                            (if remaining_skips > 0
                                             then Count remaining_skips
                                             else Fixed ''Atencao: Voce atingiu o limite''),
                                            ask_next m3]) llm_used))))"

text \<open>The answer that could not be interpreted (\<^verbatim>\<open>could_not_interpret\<close>).\<close>

definition not_interpreted ::
  "pylib \<Rightarrow> question \<Rightarrow> nat \<Rightarrow> bool \<Rightarrow> machine \<Rightarrow> machine \<times> (exc + handler_result)" where
  "not_interpreted U question attempts llm_used m =
     (if q_required question
      then (if attempts \<ge> 5
            then (reset m,
                  Inr (Pair (Single [Fixed ''Notamos que algumas respostas parecem inconsistentes.''])
                         llm_used))
            else (m, Inr (Pair (Single [Fixed ''Nao consegui entender sua resposta.'',
                                        Count (int attempts), ask_again m question]) llm_used)))
      else if attempts \<ge> 3
      then (let m1 = set_answer JNull True m;
                m2 = m1\<lparr>skipped_questions := skipped_questions m1 + 1\<rparr>
            in if skipped_questions m2 \<ge> 5
               then (reset m2,
                     Inr (Pair (Single [Fixed ''Notamos que muitas perguntas foram puladas''])
                            llm_used))
               else (let m3 = m2\<lparr>current_question_index := current_question_index m2 + 1\<rparr>;
                         m4 = save_state (reveal_after_skip m3)
                     in if current_question_index m4 \<ge> length (questionnaire m4)
                        then to_assessment U llm_used m4
                        else (m4, Inr (Pair (Single [Fixed ''Vamos pular esta pergunta.'',
                                                     ask_next m4]) llm_used))))
      else (m, Inr (Pair (Single [Fixed ''Nao consegui entender. Tente responder de forma mais clara.'',
                                  Count (int attempts), ask_again m question]) llm_used)))"

text \<open>
  The successful parse: a multiple-choice value must be one of the options, a Likert
  value must convert with \<^verbatim>\<open>int\<close> to a number from 1 to 5; then the value as parsed is
  stored, the counters of the question are reset and the cursor moves on. The handler
  catches \<^verbatim>\<open>ValueError\<close> and \<^verbatim>\<open>TypeError\<close> of the conversion; the \<^verbatim>\<open>OverflowError\<close> of an
  infinite value leaves the handler.
\<close>

definition value_accepted :: "pylib \<Rightarrow> pystr \<Rightarrow> question \<Rightarrow> jval \<Rightarrow> exc + bool" where
  "value_accepted U qtype question v =
     (if qtype = py ''multiple choice'' then Inr (v \<in> JStr ` set (q_options question))
      else if qtype = py ''likert''
      then (case py_int U v of
              Inr likert_value \<Rightarrow> Inr (\<not> (likert_value < 1 \<or> likert_value > 5))
            | Inl ValueError \<Rightarrow> Inr False
            | Inl TypeError \<Rightarrow> Inr False
            | Inl e \<Rightarrow> Inl e)
      else Inr True)"

definition answer_parsed ::
  "pylib \<Rightarrow> question \<Rightarrow> pystr \<Rightarrow> count_key \<Rightarrow> count_key \<Rightarrow> jval \<Rightarrow> real option \<Rightarrow> bool \<Rightarrow>
     machine \<Rightarrow> machine \<times> (exc + handler_result)" where
  "answer_parsed U question qtype q_key clarification_key v confidence llm_used m =
     (case value_accepted U qtype question v of
        Inl e \<Rightarrow> (m, Inl e)
      | Inr False \<Rightarrow>
          (m, Inr (Pair (Single [Fixed ''Resposta invalida.'', ask_again m question]) llm_used))
      | Inr True \<Rightarrow>
           (let m1 = set_answer v False m;
                m2 = m1\<lparr>attempt_counts := (attempt_counts m1)(q_key \<mapsto> 0, clarification_key \<mapsto> 0),
                        current_question_index := current_question_index m1 + 1\<rparr>
            in if current_question_index m2 \<ge> length (questionnaire m2)
               then to_assessment U llm_used m2
               else (let m3 = save_state (append_next_question m2)
                     in (m3, Inr (Pair (Single [Fixed (if (case confidence of None \<Rightarrow> False
                                                            | Some conf \<Rightarrow> conf < 0.85)
                                                       then ''Resposta registrada (interpretado).''
                                                       else ''Resposta registrada.''),
                                                ask_next m3]) llm_used)))))"

definition fast_parse :: "pylib \<Rightarrow> pystr \<Rightarrow> question \<Rightarrow> pystr \<Rightarrow> exc + jval option" where
  "fast_parse U qtype question message =
     (if qtype = py ''multiple choice''
      then (case parse_multiple_choice U message (q_options question) of
              Inl e \<Rightarrow> Inl e | Inr r \<Rightarrow> Inr (map_option JStr r))
      else if qtype = py ''likert'' then Inr (map_option JInt (parse_likert U message))
      else Inr (map_option JStr (parse_text message)))"

definition handle_phase1_question ::
  "pylib \<Rightarrow> analysis_reply option \<Rightarrow> interp_reply option \<Rightarrow> pystr \<Rightarrow> machine \<Rightarrow>
     machine \<times> (exc + handler_result)" where
  "handle_phase1_question U areply ireply message m =
     (if current_question_index m \<ge> length (questionnaire m)
      then (let (m1, r) = do_assessment U (save_state (m\<lparr>state := ASSESSMENT\<rparr>))
            in (m1, Inr (Bare r)))
      else if current_question_index m \<ge> length (phase1_data m)
      then (m, Inl IndexError)
      else
        (let question = phase1_data m ! current_question_index m;
             qtype = get_default (q_type question) (py ''text'');
             ident = get_default (q_id question) (int (current_question_index m));
             q_key = QAttempts ident;
             attempts = get_default (attempt_counts m q_key) 0 + 1;
             m1 = m\<lparr>attempt_counts := (attempt_counts m)(q_key \<mapsto> attempts)\<rparr>;
             clarification_key = QClarifications ident;
             clarification_count = get_default (attempt_counts m1 clarification_key) 0
         in case fast_parse U qtype question message of
              Inl e \<Rightarrow> (m1, Inl e)
            | Inr (Some v) \<Rightarrow>
                answer_parsed U question qtype q_key clarification_key v None False m1
            | Inr None \<Rightarrow>
                (case llm_parse areply ireply message qtype clarification_count of
                   WantsToSkip \<Rightarrow> skip_requested U question True m1
                 | ClarificationLimit \<Rightarrow>
                     (let m2 = m1\<lparr>attempt_counts :=
                                    (attempt_counts m1)(clarification_key \<mapsto> clarification_count + 1)\<rparr>
                      in (m2, Inr (Pair (Single [Fixed ''Ja forneci esclarecimentos sobre esta pergunta.'',
                                                 ask_again m2 question]) True)))
                 | Clarification c \<Rightarrow>
                     (let m2 = m1\<lparr>attempt_counts :=
                                    (attempt_counts m1)(clarification_key \<mapsto> clarification_count + 1)\<rparr>
                      in (m2, Inr (Pair (Single [Quoted c, Fixed ''Agora, por favor, responda:'',
                                                 ask_again m2 question]) True)))
                 | OffTopic \<Rightarrow>
                     (m1, Inr (Pair (Single [Fixed ''Por favor, vamos focar no questionario de saude ocupacional.'',
                                             ask_again m1 question]) True))
                 | CouldNotInterpret \<Rightarrow> not_interpreted U question attempts True m1
                 | Success v confidence \<Rightarrow>
                     answer_parsed U question qtype q_key clarification_key v confidence True m1
                 | Failed \<Rightarrow>
                     (m1, Inr (Pair (Single [Fixed ''Houve um erro ao processar sua resposta.'']) True)))))"

subsection \<open>Follow-up and origin questions\<close>

definition ask_followup :: "nat \<Rightarrow> piece" where
  "ask_followup i = FormatFollowup (FOLLOWUP_QUESTIONS_list ! i) (i + 1) 6"

definition handle_followup_questions ::
  "pylib \<Rightarrow> analysis_reply option \<Rightarrow> interp_reply option \<Rightarrow> pystr \<Rightarrow> machine \<Rightarrow>
     machine \<times> (exc + handler_result)" where
  "handle_followup_questions U areply ireply message m =
     (if current_question_index m < length FOLLOWUP_QUESTIONS_list
      then
        (let question = FOLLOWUP_QUESTIONS_list ! current_question_index m;
             clarification_key = FollowupClarifications (f_id question);
             clarification_count = get_default (attempt_counts m clarification_key) 0;
             insist = Inr (Pair (Single [Fixed ''Por favor, responda com uma das opcoes.'']) True);
             accept = (\<lambda>v llm_used.
               if v \<notin> JStr ` set (f_options question)
               then (m, Inr (Pair (Single [Fixed ''Resposta invalida.'',
                                           ask_followup (current_question_index m)]) llm_used))
               else (let m1 = m\<lparr>aprofundamento := aprofundamento m @ [(question, v)],
                                 attempt_counts := (attempt_counts m)(clarification_key \<mapsto> 0),
                                 current_question_index := current_question_index m + 1\<rparr>;
                         m2 = save_state m1
                     in if current_question_index m2 \<ge> length FOLLOWUP_QUESTIONS_list
                        then (let m3 = save_state (m2\<lparr>state := ORIGIN_QUESTIONS,
                                                       current_question_index := 0\<rparr>)
                              in (m3, Inr (Pair (Multi
                                    [[Fixed ''Vamos fazer algumas outras perguntas''],
                                     [OriginHeader
                                        (if trigger_dimensions m3 \<noteq> [] then trigger_dimensions m3 ! 0
                                         else py ''Risco identificado'')
                                        (length (trigger_dimensions m3) * 2)
                                        (ORIGIN_QUESTIONS_list ! 0)]]) llm_used)))
                        else (m2, Inr (Pair (Single [Fixed ''Registrado.'',
                                                     ask_followup (current_question_index m2)])
                                         llm_used))))
         in case parse_multiple_choice U message (f_options question) of
              Inl e \<Rightarrow> (m, Inl e)
            | Inr (Some v) \<Rightarrow> accept (JStr v) False
            | Inr None \<Rightarrow>
                (case llm_parse areply ireply message (py ''multiple choice'') clarification_count of
                   ClarificationLimit \<Rightarrow>
                     (let m1 = m\<lparr>attempt_counts :=
                                   (attempt_counts m)(clarification_key \<mapsto> clarification_count + 1)\<rparr>
                      in (m1, Inr (Pair (Single [Fixed ''Ja forneci esclarecimentos sobre esta pergunta.'',
                                                 ask_followup (current_question_index m1)]) True)))
                 | Clarification c \<Rightarrow>
                     (let m1 = m\<lparr>attempt_counts :=
                                   (attempt_counts m)(clarification_key \<mapsto> clarification_count + 1)\<rparr>
                      in (m1, Inr (Pair (Single [Quoted c, Fixed ''Por favor, responda:'',
                                                 ask_followup (current_question_index m1)]) True)))
                 | OffTopic \<Rightarrow>
                     (m, Inr (Pair (Single [Fixed ''Por favor, vamos focar no questionario de saude ocupacional.'',
                                            ask_followup (current_question_index m)]) True))
                 | Success v confidence \<Rightarrow> accept v True
                 | WantsToSkip \<Rightarrow> (m, insist)
                 | CouldNotInterpret \<Rightarrow> (m, insist)
                 | Failed \<Rightarrow> (m, insist)))
      else (m, Inr (Pair (Single []) False)))"

text \<open>\<^verbatim>\<open>origem_riscos\<close> is a dictionary from dimension to the list of its answers: a new
  dimension is added at the end with an empty list, then the answer is appended.\<close>

fun append_origin ::
  "pystr \<Rightarrow> fixed_question \<times> jval \<Rightarrow> (pystr \<times> (fixed_question \<times> jval) list) list \<Rightarrow>
     (pystr \<times> (fixed_question \<times> jval) list) list" where
  "append_origin current_dim a [] = [(current_dim, [a])]"
| "append_origin current_dim a ((k, v) # d) =
     (if k = current_dim then (k, v @ [a]) # d else (k, v) # append_origin current_dim a d)"

definition finish_origin :: "bool \<Rightarrow> machine \<Rightarrow> machine \<times> (exc + handler_result)" where
  "finish_origin llm_used m =
     (let (m1, text) = get_completion_message (save_state ((save_to_s3 False m)\<lparr>state := COMPLETION\<rparr>))
      in (m1, Inr (Pair (Single text) llm_used)))"

text \<open>Recording an origin answer and moving on (the part of \<^verbatim>\<open>handle_origin_questions\<close>
  after the parse).\<close>

definition record_origin :: "jval \<Rightarrow> bool \<Rightarrow> machine \<Rightarrow> machine \<times> (exc + handler_result)" where
  "record_origin response_value llm_used m =
     (let current_dim = trigger_dimensions m ! (current_question_index m div 2);
          question = ORIGIN_QUESTIONS_list ! (current_question_index m mod 2);
          m1 = save_state
                 (m\<lparr>origem_riscos := append_origin current_dim (question, response_value) (origem_riscos m),
                    current_question_index := current_question_index m + 1\<rparr>);
          new_dim_index = current_question_index m1 div 2;
          new_q_index = current_question_index m1 mod 2
      in if new_dim_index \<ge> length (trigger_dimensions m1)
         then finish_origin llm_used m1
         else (m1, Inr (Pair (Single [Fixed ''Registrado.'',
                                      FormatOrigin (ORIGIN_QUESTIONS_list ! new_q_index)
                                        (current_question_index m1 + 1)
                                        (length (trigger_dimensions m1) * 2)
                                        (if new_q_index = 0
                                         then Some (trigger_dimensions m1 ! new_dim_index)
                                         else None)]) llm_used)))"

definition handle_origin_questions ::
  "pylib \<Rightarrow> analysis_reply option \<Rightarrow> interp_reply option \<Rightarrow> pystr \<Rightarrow> machine \<Rightarrow>
     machine \<times> (exc + handler_result)" where
  "handle_origin_questions U areply ireply message m =
     (let dim_index = current_question_index m div 2;
          q_index = current_question_index m mod 2
      in if dim_index \<ge> length (trigger_dimensions m)
         then finish_origin False m
         else if q_index = 0
         then (let question = ORIGIN_QUESTIONS_list ! q_index
               in case parse_multiple_choice U message (f_options question) of
                    Inl e \<Rightarrow> (m, Inl e)
                  | Inr (Some v) \<Rightarrow> record_origin (JStr v) False m
                  | Inr None \<Rightarrow>
                      (case llm_parse areply ireply message (py ''multiple choice'') 0 of
                         ClarificationLimit \<Rightarrow>
                           (m, Inr (Pair (Single [Quoted (JStr []), Fixed ''Por favor, responda:'',
                                                  FormatOrigin question (current_question_index m + 1)
                                                    (length (trigger_dimensions m) * 2) None]) True))
                       | Clarification c \<Rightarrow>
                           (m, Inr (Pair (Single [Quoted c, Fixed ''Por favor, responda:'',
                                                  FormatOrigin question (current_question_index m + 1)
                                                    (length (trigger_dimensions m) * 2) None]) True))
                       | Success v confidence \<Rightarrow> record_origin v True m
                       | _ \<Rightarrow> (m, Inr (Pair (Single [Fixed ''Por favor, escolha uma das opcoes:'']) True))))
         else record_origin (JStr (take 500 message)) False m)"

subsection \<open>Consent and resumption\<close>

definition any_word_in :: "pystr list \<Rightarrow> pystr \<Rightarrow> bool" where
  "any_word_in words normalized \<longleftrightarrow> (\<exists>word \<in> set words. str_contains word normalized)"

definition handle_consent :: "pylib \<Rightarrow> pystr \<Rightarrow> machine \<Rightarrow> machine \<times> (exc + reply)" where
  "handle_consent U message m =
     (let normalized = normalize_str U message
      in if any_word_in [py ''sim'', py ''yes'', py ''ok'', py ''vamos'', py ''pode'', py ''aceito'',
                         py ''concordo''] normalized
         then (let m1 = save_state (m\<lparr>state := PHASE1_QUESTIONS\<rparr>)
               in case questionnaire m1 of
                    [] \<Rightarrow> (m1, Inl IndexError)
                  | question # _ \<Rightarrow>
                      (m1\<lparr>phase1_data := [question]\<rparr>,
                       Inr (Single [Fixed ''Otimo! Vamos comecar.'',
                                    FormatQuestion question 1 (length (questionnaire m1))])))
         else if any_word_in [py ''nao'', py ''n'' @ [0xE3] @ py ''o'', py ''no'', py ''depois'',
                              py ''pare''] normalized
         then (reset m, Inr (Single [Fixed ''Sem problemas! Quando quiser participar, e so enviar uma mensagem.'']))
         else (m, Inr (Single [Fixed ''Por favor, responda sim para comecar ou nao para cancelar.''])))"

text \<open>\<^verbatim>\<open>get_resume_questionnaire_message\<close> presents the question of the restored position
  again. In a state other than the three question phases and consent it sends the
  session back to the start.\<close>

definition get_resume_questionnaire_message :: "machine \<Rightarrow> machine \<times> message" where
  "get_resume_questionnaire_message m =
     (let base_msg = Fixed ''Que bom que voce esta melhor!'';
          state_msg = Fixed ''Vamos continuar de onde paramos.''
      in if state m = PHASE1_QUESTIONS
         then (if current_question_index m < length (questionnaire m)
               then (m, [base_msg, state_msg, ask_next m])
               else (m, [base_msg, state_msg]))
         else if state m = FOLLOWUP_QUESTIONS
         then (if current_question_index m < length FOLLOWUP_QUESTIONS_list
               then (m, [base_msg, state_msg, ask_followup (current_question_index m)])
               else (m, [base_msg, state_msg]))
         else if state m = ORIGIN_QUESTIONS
         then (if current_question_index m div 2 < length (trigger_dimensions m)
               then (m, [base_msg, state_msg,
                         OriginHeader (trigger_dimensions m ! (current_question_index m div 2))
                           (length (trigger_dimensions m) * 2)
                           (ORIGIN_QUESTIONS_list ! (current_question_index m mod 2))])
               else (m, [base_msg, state_msg]))
         else if state m = CONSENT
         then (m, [base_msg, Fixed ''Vamos retomar onde paramos.'', Fixed ''Ola! Somos da Vocal Silence''])
         else (save_state (m\<lparr>state := WELCOME, current_question_index := 0\<rparr>),
               [base_msg, Fixed ''Vamos reiniciar o questionario.'', Fixed ''Ola! Somos da Vocal Silence'']))"

section \<open>Safety screening and the processing of one message\<close>

text \<open>
  The result of \<^verbatim>\<open>SafetyProtocol.llm_screening\<close> (from the screening service or from the
  keyword fallback) is an input. The detailed check is an input too, \<open>None\<close> when the call
  raises; \<^verbatim>\<open>llm_detailed_check\<close> then answers with its fixed fallback. Confidences are
  numbers from 0 to 1 as the service is asked to produce them.
\<close>

record screening_result =
  has_risk :: bool
  risk_type :: pystr
  confidence :: real

record detailed_result =
  is_emergency :: bool
  detailed_type :: "pystr option"
  detailed_confidence :: real
  initial_safety_score :: "real option"

definition llm_detailed_check :: "detailed_result option \<Rightarrow> screening_result \<Rightarrow> detailed_result" where
  "llm_detailed_check reply initial_assessment =
     (case reply of
        Some result \<Rightarrow> result
      | None \<Rightarrow>
          \<lparr>is_emergency = True, detailed_type = Some (risk_type initial_assessment),
           detailed_confidence = 0.7, initial_safety_score = Some 3\<rparr>)"

text \<open>The default of \<^verbatim>\<open>SAFETY_CONFIDENCE_THRESHOLD\<close> in settings.py.\<close>

definition SAFETY_CONFIDENCE_THRESHOLD :: real where
  "SAFETY_CONFIDENCE_THRESHOLD = 0.4"

text \<open>Everything the external services answer during one message.\<close>

record services =
  screening :: screening_result
  detailed :: "detailed_result option"
  crisis_reply :: "pystr option"
  analysis :: "analysis_reply option"
  interp :: "interp_reply option"

text \<open>
  \<^verbatim>\<open>load_state\<close>, run by the constructor for every message: the fields come from the
  participant's row; without a row the session starts at \<open>WELCOME\<close> and is saved. In
  state \<open>EMERGENCY\<close> the crisis manager is loaded from the active crisis row.
\<close>

definition load_state :: "machine \<Rightarrow> machine" where
  "load_state m =
     (case state_row m of
        None \<Rightarrow> save_state (m\<lparr>state := WELCOME\<rparr>)
      | Some row \<Rightarrow>
          (let m1 = m\<lparr>state := state row,
                      current_question_index := current_question_index row,
                      phase1_data := phase1_data row,
                      aprofundamento := aprofundamento row,
                      origem_riscos := origem_riscos row,
                      trigger_dimensions := trigger_dimensions row,
                      attempt_counts := attempt_counts row,
                      skipped_questions := skipped_questions row,
                      pre_crisis_state := pre_crisis_state row,
                      pre_crisis_question_index := pre_crisis_question_index row\<rparr>
           in if state m1 = EMERGENCY
              then (let (cm, rows) = load_crisis_state (crisis_rows m1)
                    in m1\<lparr>crisis_manager :=
                             Some (if crisis_type cm = None \<or> crisis_type cm = Some []
                                   then cm\<lparr>crisis_type := Some (py ''unknown'')\<rparr> else cm),
                           crisis_rows := rows\<rparr>)
              else m1))"

text \<open>A crisis turn of the state machine: the crisis manager is loaded if the object
  has none, the message goes to it, and when it signals resumption the questionnaire is
  restored and the question shown again.\<close>

definition ensure_crisis_manager :: "machine \<Rightarrow> CrisisManager \<times> crisis_row list" where
  "ensure_crisis_manager m =
     (case crisis_manager m of
        Some cm \<Rightarrow> (cm, crisis_rows m)
      | None \<Rightarrow>
          (let (cm, rows) = load_crisis_state (crisis_rows m)
           in if crisis_type cm = None \<or> crisis_type cm = Some []
              then (let cm' = cm\<lparr>crisis_type := Some (py ''unknown'')\<rparr>
                    in (cm', save_crisis_state cm' rows))
              else (cm, rows)))"

definition crisis_turn :: "services \<Rightarrow> pystr \<Rightarrow> machine \<Rightarrow> machine \<times> reply" where
  "crisis_turn svc message m =
     (let (cm0, rows0) = ensure_crisis_manager m;
          ((response, can_resume), cm1, rows1) =
            handle_crisis_conversation (crisis_reply svc) message cm0 rows0;
          m1 = m\<lparr>crisis_manager := Some cm1, crisis_rows := rows1\<rparr>
      in if can_resume
         then (let (m2, resume_message) = get_resume_questionnaire_message (exit_crisis_mode m1)
               in (m2, Single (if response \<noteq> [] then CrisisText response # resume_message
                               else resume_message)))
         else (m1, Single [CrisisText response]))"

text \<open>The dispatch on the state (step 3 of \<^verbatim>\<open>process_message\<close>, inside its \<^verbatim>\<open>try\<close>).
  Unpacking \<^verbatim>\<open>response, llm_used = ...\<close> succeeds on a pair and on a list of two
  messages, and raises on the completion text.\<close>

definition unpack :: "machine \<times> (exc + handler_result) \<Rightarrow> machine \<times> (exc + reply)" where
  "unpack r =
     (case r of
        (m, Inl e) \<Rightarrow> (m, Inl e)
      | (m, Inr (Pair response llm_used)) \<Rightarrow> (m, Inr response)
      | (m, Inr (Bare (Multi [a, b]))) \<Rightarrow> (m, Inr (Single a))
      | (m, Inr (Bare _)) \<Rightarrow> (m, Inl ValueError))"

definition dispatch :: "pylib \<Rightarrow> services \<Rightarrow> pystr \<Rightarrow> machine \<Rightarrow> machine \<times> (exc + reply)" where
  "dispatch U svc message m =
     (case state m of
        WELCOME \<Rightarrow> (m\<lparr>state := CONSENT\<rparr>, Inr (Single [Fixed ''Ola! Somos da Vocal Silence'']))
      | CONSENT \<Rightarrow> handle_consent U message m
      | PHASE1_QUESTIONS \<Rightarrow> unpack (handle_phase1_question U (analysis svc) (interp svc) message m)
      | ASSESSMENT \<Rightarrow> (let (m1, r) = do_assessment U m in (m1, Inr r))
      | FOLLOWUP_INTRO \<Rightarrow>
          (m\<lparr>state := FOLLOWUP_QUESTIONS, current_question_index := 0\<rparr>,
           Inr (Multi [[Fixed ''Percebemos alguns sinais de risco nesta etapa.''], [ask_followup 0]]))
      | FOLLOWUP_QUESTIONS \<Rightarrow> unpack (handle_followup_questions U (analysis svc) (interp svc) message m)
      | ORIGIN_INTRO \<Rightarrow>
          (let m1 = m\<lparr>state := ORIGIN_QUESTIONS, current_question_index := 0\<rparr>
           in (m1, Inr (Multi [[Fixed ''Vamos fazer algumas outras perguntas''],
                               [OriginHeader
                                  (if trigger_dimensions m1 \<noteq> [] then trigger_dimensions m1 ! 0
                                   else py ''Risco identificado'')
                                  (length (trigger_dimensions m1) * 2)
                                  (ORIGIN_QUESTIONS_list ! 0)]])))
      | ORIGIN_QUESTIONS \<Rightarrow> unpack (handle_origin_questions U (analysis svc) (interp svc) message m)
      | COMPLETION \<Rightarrow> (let (m1, text) = get_completion_message m in (m1, Inr (Single text)))
      | _ \<Rightarrow> (m, Inr (Single [])))"

text \<open>Step 3 of \<^verbatim>\<open>process_message\<close>: the dispatch, then \<^verbatim>\<open>save_state\<close>; an exception is
  answered with a fixed text and nothing more is saved.\<close>

definition normal_flow :: "pylib \<Rightarrow> services \<Rightarrow> pystr \<Rightarrow> machine \<Rightarrow> machine \<times> reply" where
  "normal_flow U svc message m =
     (case dispatch U svc message m of
        (m1, Inr response) \<Rightarrow> (save_state m1, response)
      | (m1, Inl e) \<Rightarrow> (m1, Single [Fixed ''Desculpe, houve um erro temporario.'']))"

text \<open>The detailed check confirmed an emergency: the session enters crisis mode and the
  crisis manager answers the message that opened the episode.\<close>

definition open_crisis :: "services \<Rightarrow> pystr \<Rightarrow> detailed_result \<Rightarrow> machine \<Rightarrow> machine \<times> reply" where
  "open_crisis svc message detailed_result m =
     (let m1 = enter_crisis_mode (detailed_type detailed_result)
                 (get_default (initial_safety_score detailed_result) 3) m;
          ((response, can_resume), cm1, rows1) =
            handle_crisis_conversation (crisis_reply svc) message
              (the (crisis_manager m1)) (crisis_rows m1)
      in (m1\<lparr>crisis_manager := Some cm1, crisis_rows := rows1\<rparr>,
          Single [CrisisText response]))"

text \<open>
  \<^verbatim>\<open>process_message\<close> on a text message (an audio message is transcribed first and then
  handled as its text): the restart command, the crisis overlay, the two-tier screening,
  and the dispatch.
\<close>

definition restart_requested :: "pylib \<Rightarrow> pystr \<Rightarrow> bool" where
  "restart_requested U message \<longleftrightarrow>
     any_word_in [py ''reiniciar'', py ''recomecar'', py ''reset'', py ''restart'']
       (normalize_str U message)"

definition process_message :: "pylib \<Rightarrow> services \<Rightarrow> pystr \<Rightarrow> machine \<Rightarrow> machine \<times> reply" where
  "process_message U svc message m =
     (if restart_requested U message
      then (reset m, Single [Fixed ''Questionario reiniciado.''])
      else if state m = EMERGENCY
      then crisis_turn svc message m
      else
        (let screening_result = screening svc
         in if has_risk screening_result \<and>
               confidence screening_result \<ge> SAFETY_CONFIDENCE_THRESHOLD
            then (let detailed_result = llm_detailed_check (detailed svc) screening_result
                  in if is_emergency detailed_result \<and> detailed_confidence detailed_result > 0.6
                     then open_crisis svc message detailed_result m
                     else normal_flow U svc message m)
            else normal_flow U svc message m))"

text \<open>
  Every message is handled by a new \<^verbatim>\<open>QuestionnaireStateMachine\<close> object (main.py): the
  constructor sets its defaults and loads the participant's row, \<^verbatim>\<open>process_message\<close> runs,
  and the object is dropped. Only the stores connect one message to the next.
\<close>

definition init_machine :: "machine \<Rightarrow> machine" where
  "init_machine stores =
     load_state
       (stores\<lparr>state := WELCOME,
               current_question_index := 0,
               phase1_data := [],
               aprofundamento := [],
               origem_riscos := [],
               trigger_dimensions := [],
               attempt_counts := Map.empty,
               skipped_questions := 0,
               crisis_manager := None,
               pre_crisis_state := None,
               pre_crisis_question_index := None\<rparr>)"

definition handle_message :: "pylib \<Rightarrow> services \<Rightarrow> pystr \<Rightarrow> machine \<Rightarrow> machine \<times> reply" where
  "handle_message U svc message stores = process_message U svc message (init_machine stores)"

fun handle_messages :: "pylib \<Rightarrow> (services \<times> pystr) list \<Rightarrow> machine \<Rightarrow> machine" where
  "handle_messages U [] stores = stores"
| "handle_messages U ((svc, message) # rest) stores =
     handle_messages U rest (fst (handle_message U svc message stores))"

text \<open>Whether the dialogue service's reply for a turn signals resumption.\<close>

definition signals_resumption :: "pystr option \<Rightarrow> bool" where
  "signals_resumption llm \<longleftrightarrow>
     (case llm of None \<Rightarrow> False | Some reply \<Rightarrow> fst (scan_resume_signals resume_signals reply))"

text \<open>Names for the situations the properties speak about: the question under the
  cursor, a message the fast path does not parse, and an intent analysis that
  \<^verbatim>\<open>llm_parse\<close> reads as a request to skip.\<close>

definition current_question :: "machine \<Rightarrow> question" where
  "current_question m = phase1_data m ! current_question_index m"

definition fast_path_fails :: "pylib \<Rightarrow> machine \<Rightarrow> pystr \<Rightarrow> bool" where
  "fast_path_fails U m message \<longleftrightarrow>
     fast_parse U (get_default (q_type (current_question m)) (py ''text'')) (current_question m)
       message = Inr None"

definition skip_intent :: "analysis_reply option \<Rightarrow> bool" where
  "skip_intent areply \<longleftrightarrow>
     (case areply of
        None \<Rightarrow> False
      | Some a \<Rightarrow> a_intent a = JStr (py ''skip_request'') \<or> truthy (a_wants_to_skip a))"

text \<open>
  What \<^verbatim>\<open>llm_parse\<close> tells the classifier about the question it is asked about:
  \<^verbatim>\<open>is_required = question_id in required_question_ids or required\<close>, with the ids 4, 5
  and 7 and \<^verbatim>\<open>question.get('id', 0)\<close>; the prompt then reads that the question is
  mandatory and cannot be skipped.
\<close>

definition is_required :: "question \<Rightarrow> bool" where
  "is_required question \<longleftrightarrow> get_default (q_id question) 0 \<in> {4, 5, 7} \<or> q_required question"

text \<open>The session a reset leaves behind.\<close>

definition fresh_session :: session where
  "fresh_session =
     \<lparr>state = WELCOME, current_question_index = 0, phase1_data = [], aprofundamento = [],
      origem_riscos = [], trigger_dimensions = [], attempt_counts = Map.empty,
      skipped_questions = 0, pre_crisis_state = None, pre_crisis_question_index = None\<rparr>"

text \<open>
  The assessment as the specification words it, to be compared with the loops of
  \<^verbatim>\<open>do_assessment\<close>: the Likert items that count, their dimensions in the order in which
  they are first seen, the scores of one dimension, and the dimensions selected.
\<close>

definition scored_items :: "pylib \<Rightarrow> question list \<Rightarrow> question list" where
  "scored_items U data = filter (is_scored U) data"

primrec first_seen :: "'a list \<Rightarrow> 'a list" where
  "first_seen [] = []"
| "first_seen (x # xs) = x # filter (\<lambda>y. y \<noteq> x) (first_seen xs)"

definition score_of :: "pylib \<Rightarrow> pystr \<Rightarrow> question \<Rightarrow> pyfloat list" where
  "score_of U d item =
     (if is_scored U item \<and> q_dimension item = d
      then (case py_float U (q_response item) of None \<Rightarrow> [] | Some x \<Rightarrow> [x])
      else [])"

definition scores_of :: "pylib \<Rightarrow> question list \<Rightarrow> pystr \<Rightarrow> pyfloat list" where
  "scores_of U data d = concat (map (score_of U d) data)"

text \<open>The average of a non-empty list of scores as Python computes it, and the average of
  integer scores as a fraction.\<close>

definition average :: "pyfloat list \<Rightarrow> pyfloat" where
  "average xs = float_div_len (float_sum xs) (length xs)"

definition exact_average :: "int list \<Rightarrow> real" where
  "exact_average ks = real_of_int (sum_list ks) / real (length ks)"

definition at_risk :: "pylib \<Rightarrow> question list \<Rightarrow> pystr \<Rightarrow> bool" where
  "at_risk U data d \<longleftrightarrow>
     scores_of U data d \<noteq> [] \<and> is_target U d \<and> float_le (average (scores_of U data d)) 3"

definition assessed_triggers :: "pylib \<Rightarrow> question list \<Rightarrow> pystr list" where
  "assessed_triggers U data =
     filter (at_risk U data) (first_seen (map q_dimension (scored_items U data)))"

text \<open>The dictionary of scores in these words: one entry for each dimension seen, in
  first-seen order.\<close>

definition score_table :: "pylib \<Rightarrow> question list \<Rightarrow> (pystr \<times> pyfloat list) list" where
  "score_table U data =
     map (\<lambda>d. (d, scores_of U data d)) (first_seen (map q_dimension (scored_items U data)))"

text \<open>The stored session is in crisis and holds the snapshot \<open>(st, i)\<close>.\<close>

definition snapshot_held :: "state \<Rightarrow> nat \<Rightarrow> machine \<Rightarrow> bool" where
  "snapshot_held st i stores \<longleftrightarrow>
     (\<exists>row. state_row stores = Some row \<and> state row = EMERGENCY \<and>
            pre_crisis_state row = Some st \<and> pre_crisis_question_index row = Some i)"

section \<open>An excerpt of Python's tables for the concrete examples\<close>

text \<open>
  The general results below hold for every \<open>pylib\<close>. The concrete examples need values,
  and take them from this excerpt of the Unicode tables of Python 3: it is exact on the
  code points below \<open>0x100\<close> (ASCII and Latin-1, which cover Portuguese), on the
  combining marks their decompositions use, and on the emoji of the source, which are
  uncased, not decomposable and of combining class 0. The number parsers are given for
  plain strings of ASCII digits only, and raise on every other string.
\<close>

definition latin1_lower :: "codepoint \<Rightarrow> codepoint" where
  "latin1_lower c =
     (if (0x41 \<le> c \<and> c \<le> 0x5A) \<or> (0xC0 \<le> c \<and> c \<le> 0xDE \<and> c \<noteq> 0xD7) then c + 32 else c)"

text \<open>The compatibility decompositions of U+00A0 to U+00FF, in order.\<close>

definition latin1_rows :: "pystr list" where
  "latin1_rows =
     [
      [0x20], [0xA1], [0xA2], [0xA3], [0xA4], [0xA5], [0xA6], [0xA7], [0x20, 0x308],
      [0xA9], [0x61], [0xAB], [0xAC], [0xAD], [0xAE], [0x20, 0x304], [0xB0], [0xB1],
      [0x32], [0x33], [0x20, 0x301], [0x3BC], [0xB6], [0xB7], [0x20, 0x327], [0x31],
      [0x6F], [0xBB], [0x31, 0x2044, 0x34], [0x31, 0x2044, 0x32], [0x33, 0x2044, 0x34],
      [0xBF], [0x41, 0x300], [0x41, 0x301], [0x41, 0x302], [0x41, 0x303], [0x41, 0x308],
      [0x41, 0x30A], [0xC6], [0x43, 0x327], [0x45, 0x300], [0x45, 0x301], [0x45, 0x302],
      [0x45, 0x308], [0x49, 0x300], [0x49, 0x301], [0x49, 0x302], [0x49, 0x308], [0xD0],
      [0x4E, 0x303], [0x4F, 0x300], [0x4F, 0x301], [0x4F, 0x302], [0x4F, 0x303],
      [0x4F, 0x308], [0xD7], [0xD8], [0x55, 0x300], [0x55, 0x301], [0x55, 0x302],
      [0x55, 0x308], [0x59, 0x301], [0xDE], [0xDF], [0x61, 0x300], [0x61, 0x301],
      [0x61, 0x302], [0x61, 0x303], [0x61, 0x308], [0x61, 0x30A], [0xE6], [0x63, 0x327],
      [0x65, 0x300], [0x65, 0x301], [0x65, 0x302], [0x65, 0x308], [0x69, 0x300],
      [0x69, 0x301], [0x69, 0x302], [0x69, 0x308], [0xF0], [0x6E, 0x303], [0x6F, 0x300],
      [0x6F, 0x301], [0x6F, 0x302], [0x6F, 0x303], [0x6F, 0x308], [0xF7], [0xF8],
      [0x75, 0x300], [0x75, 0x301], [0x75, 0x302], [0x75, 0x308], [0x79, 0x301], [0xFE],
      [0x79, 0x308]]"

definition latin1_decomposition :: "codepoint \<Rightarrow> pystr" where
  "latin1_decomposition c = (if 0xA0 \<le> c \<and> c < 0x100 then latin1_rows ! (c - 0xA0) else [c])"

definition latin1_combining :: "codepoint \<Rightarrow> nat" where
  "latin1_combining c =
     (if c = 0x327 then 202
      else if c \<in> {0x300, 0x301, 0x302, 0x303, 0x304, 0x308, 0x30A} then 230
      else 0)"

definition latin1_is_digit :: "codepoint \<Rightarrow> bool" where
  "latin1_is_digit c \<longleftrightarrow> (0x30 \<le> c \<and> c \<le> 0x39) \<or> c = 0xB2 \<or> c = 0xB3 \<or> c = 0xB9"

definition ascii_digits_value :: "pystr \<Rightarrow> int option" where
  "ascii_digits_value s =
     (if s \<noteq> [] \<and> list_all (\<lambda>c. 0x30 \<le> c \<and> c \<le> 0x39) s
      then Some (foldl (\<lambda>n c. 10 * n + int (c - 0x30)) 0 s)
      else None)"

text \<open>\<^verbatim>\<open>int\<close> refuses a string of more than 4300 digits.\<close>

definition latin1_int :: "pystr \<Rightarrow> int option" where
  "latin1_int s = (if length s \<le> 4300 then ascii_digits_value s else None)"

definition latin1 :: pylib where
  "latin1 =
     \<lparr>lower_at = (\<lambda>s i. [latin1_lower (s ! i)]),
      decomposition = latin1_decomposition,
      combining = latin1_combining,
      is_digit = latin1_is_digit,
      int_of_str = latin1_int,
      float_of_str = (\<lambda>s. map_option (\<lambda>n. to_float (real_of_int n)) (ascii_digits_value s))\<rparr>"

section \<open>Concrete sessions for the examples\<close>

text \<open>The questionnaire file is not part of the repository; the examples use small
  questionnaires built from these two shapes of question.\<close>

definition likert_question :: "int \<Rightarrow> pystr \<Rightarrow> question" where
  "likert_question ident dimension_tag =
     \<lparr>q_id = Some ident, q_text = [], q_type = Some (py ''likert''), q_options = [],
      q_required = False, q_dimension = dimension_tag, q_response = JNull,
      q_disregarded = False\<rparr>"

definition choice_question :: "int \<Rightarrow> pystr list \<Rightarrow> bool \<Rightarrow> question" where
  "choice_question ident options required =
     \<lparr>q_id = Some ident, q_text = [], q_type = Some (py ''multiple choice''),
      q_options = options, q_required = required, q_dimension = [], q_response = JNull,
      q_disregarded = False\<rparr>"

definition answered :: "jval \<Rightarrow> question \<Rightarrow> question" where
  "answered v question = question\<lparr>q_response := v, q_disregarded := False\<rparr>"

text \<open>A new object over empty stores, and the same object in the middle of phase 1.\<close>

definition blank_machine :: "question list \<Rightarrow> machine" where
  "blank_machine qs =
     \<lparr>state = WELCOME, current_question_index = 0, phase1_data = [], aprofundamento = [],
      origem_riscos = [], trigger_dimensions = [], attempt_counts = Map.empty,
      skipped_questions = 0, pre_crisis_state = None, pre_crisis_question_index = None,
      questionnaire = qs, crisis_manager = None, state_row = None, crisis_rows = [],
      archive = []\<rparr>"

definition in_phase1 :: "question list \<Rightarrow> question list \<Rightarrow> nat \<Rightarrow> machine" where
  "in_phase1 qs buffer skipped =
     save_state
       ((blank_machine qs)\<lparr>state := PHASE1_QUESTIONS,
                             current_question_index := length buffer - 1,
                             phase1_data := buffer, skipped_questions := skipped\<rparr>)"

definition at_first_question :: "question list \<Rightarrow> nat \<Rightarrow> machine" where
  "at_first_question qs skipped = in_phase1 qs (take 1 qs) skipped"

definition two_likert :: "question list" where
  "two_likert =
     [likert_question 1 (py ''Estresse e ansiedade''),
      likert_question 2 (py ''Estresse e ansiedade'')]"

text \<open>A questionnaire that opens with the question of id 4 (the unit of work), with and
  without the \<^verbatim>\<open>required\<close> flag.\<close>

definition unit_first :: "bool \<Rightarrow> question list" where
  "unit_first required =
     [choice_question 4 [py ''Matriz'', py ''Filial''] required,
      likert_question 2 (py ''Estresse e ansiedade'')]"

text \<open>Four answered Likert questions, two for each of two dimensions, with the scores
  2, 3 and 4, 5, at the point where the assessment runs.\<close>

definition two_dimensions :: "pystr \<Rightarrow> pystr \<Rightarrow> question list" where
  "two_dimensions d1 d2 =
     [answered (JInt 2) (likert_question 1 d1), answered (JInt 3) (likert_question 2 d1),
      answered (JInt 4) (likert_question 3 d2), answered (JInt 5) (likert_question 4 d2)]"

text \<open>Four Likert answers of one dimension that are fractions, as the interpretation
  service can have them recorded.\<close>

definition fractional_answers :: "pystr \<Rightarrow> question list" where
  "fractional_answers d =
     [answered (JNum 3.6) (likert_question 1 d), answered (JNum 3.3) (likert_question 2 d),
      answered (JNum 2.2) (likert_question 3 d), answered (JNum 2.9) (likert_question 4 d)]"

text \<open>Two answers of one dimension: the double next above 3, and 3.\<close>

definition answers_near_three :: "pystr \<Rightarrow> question list" where
  "answers_near_three d =
     [answered (JNum 3.0000000000000004) (likert_question 1 d),
      answered (JNum 3) (likert_question 2 d)]"

definition before_assessment :: "question list \<Rightarrow> machine" where
  "before_assessment data =
     save_state
       ((blank_machine data)\<lparr>state := ASSESSMENT, current_question_index := length data,
                               phase1_data := data\<rparr>)"

text \<open>A session in the origin phase with two trigger dimensions, at a given cursor.\<close>

definition in_origin :: "nat \<Rightarrow> machine" where
  "in_origin i =
     save_state
       ((blank_machine [])\<lparr>state := ORIGIN_QUESTIONS, current_question_index := i,
                             trigger_dimensions :=
                               [py ''Estresse e ansiedade'',
                                py ''Equil'' @ [0xED] @ py ''brio vida-trabalho'']\<rparr>)"

text \<open>Replies of the external services used in the examples.\<close>

definition quiet_services :: services where
  "quiet_services =
     \<lparr>screening = \<lparr>has_risk = False, risk_type = py ''none'', confidence = 0\<rparr>,
      detailed = None, crisis_reply = Some (py ''Estou aqui para te ouvir.''),
      analysis = None, interp = None\<rparr>"

definition resuming_services :: services where
  "resuming_services =
     quiet_services\<lparr>crisis_reply := Some (py ''Que bom! Vamos retomar. [RETOMAR_QUESTIONARIO]'')\<rparr>"

definition risky_services :: services where
  "risky_services =
     quiet_services\<lparr>screening := \<lparr>has_risk = True, risk_type = py ''suicide'', confidence = 0.55\<rparr>\<rparr>"

definition intent_reply :: "string \<Rightarrow> analysis_reply" where
  "intent_reply intent =
     \<lparr>a_intent = JStr (py intent), a_confidence = Some (JNum 0.9), a_wants_to_skip = JBool False,
      a_should_insist = JBool False, a_clarification_response = None\<rparr>"

section \<open>Properties of the floats\<close>

text \<open>The search finds the binade of every number within its reach, which gives the
  rounding in closed form.\<close>

lemma binade_eq:
  assumes "2 powi e \<le> x" "x < 2 powi (e + 1)" "\<bar>e\<bar> \<le> int n"
  shows "binade n x = e"
  using assms
proof (induction n arbitrary: x e)
  case 0
  then show ?case by simp
next
  case (Suc n)
  have "0 < (2::real) powi e" by simp
  with Suc.prems(1) have pos: "0 < x" by linarith
  consider "2 \<le> x" | "x < 1" | "1 \<le> x" "x < 2" by linarith
  then show ?case
  proof cases
    case 1
    have "1 \<le> e"
    proof (rule ccontr)
      assume "\<not> 1 \<le> e"
      then have "e + 1 \<le> 1" by simp
      then have "(2::real) powi (e + 1) \<le> 2 powi 1" by (intro power_int_increasing) simp_all
      with Suc.prems(2) 1 show False by simp
    qed
    have "binade n (x / 2) = e - 1"
    proof (rule Suc.IH)
      show "2 powi (e - 1) \<le> x / 2" using Suc.prems(1) by (simp add: power_int_diff)
      show "x / 2 < 2 powi (e - 1 + 1)" using Suc.prems(2) by (simp add: power_int_add)
      show "\<bar>e - 1\<bar> \<le> int n" using Suc.prems(3) \<open>1 \<le> e\<close> by simp
    qed
    with 1 show ?thesis by simp
  next
    case 2
    have "e \<le> - 1"
    proof (rule ccontr)
      assume "\<not> e \<le> - 1"
      then have "0 \<le> e" by simp
      then have "(2::real) powi 0 \<le> 2 powi e" by (intro power_int_increasing) simp_all
      with Suc.prems(1) 2 show False by simp
    qed
    have "binade n (x * 2) = e + 1"
    proof (rule Suc.IH)
      show "2 powi (e + 1) \<le> x * 2" using Suc.prems(1) by (simp add: power_int_add)
      show "x * 2 < 2 powi (e + 1 + 1)" using Suc.prems(2) by (simp add: power_int_add)
      show "\<bar>e + 1\<bar> \<le> int n" using Suc.prems(3) \<open>e \<le> - 1\<close> by simp
    qed
    with 2 show ?thesis by simp
  next
    case 3
    have "e \<le> 0"
    proof (rule ccontr)
      assume "\<not> e \<le> 0"
      then have "1 \<le> e" by simp
      then have "(2::real) powi 1 \<le> 2 powi e" by (intro power_int_increasing) simp_all
      with Suc.prems(1) 3 show False by simp
    qed
    moreover have "0 \<le> e"
    proof (rule ccontr)
      assume "\<not> 0 \<le> e"
      then have "e + 1 \<le> 0" by simp
      then have "(2::real) powi (e + 1) \<le> 2 powi 0" by (intro power_int_increasing) simp_all
      with Suc.prems(2) 3 show False by simp
    qed
    ultimately show ?thesis using 3 by simp
  qed
qed

lemma round_double_binade:
  assumes "2 powi e \<le> \<bar>x\<bar>" "\<bar>x\<bar> < 2 powi (e + 1)" "- 1022 \<le> e" "e \<le> 1100"
  shows "round_double x = of_int (round_half_even (x / 2 powi (e - 52))) * 2 powi (e - 52)"
proof -
  have "binade 1100 \<bar>x\<bar> = e"
    using assms by (intro binade_eq) simp_all
  moreover have "x \<noteq> 0"
  proof -
    have "0 < (2::real) powi e" by simp
    with assms(1) have "0 < \<bar>x\<bar>" by linarith
    then show ?thesis by simp
  qed
  ultimately show ?thesis
    using assms(3) by (simp add: round_double_def Let_def max_def)
qed

text \<open>Every number from 1 on lies in a binade.\<close>

lemma ex_binade:
  fixes x :: real
  assumes "1 \<le> x"
  shows "\<exists>n::nat. 2 ^ n \<le> x \<and> x < 2 ^ (n + 1)"
proof -
  define k where "k = nat \<lfloor>x\<rfloor>"
  have k: "int k = \<lfloor>x\<rfloor>" "1 \<le> k"
    using assms by (simp_all add: k_def le_floor_iff le_nat_iff)
  obtain n where n: "2 ^ n \<le> k" "k < 2 ^ (n + 1)"
    using ex_power_ivl1 [of 2 k] k(2) by auto
  have "(2::int) ^ n \<le> \<lfloor>x\<rfloor>"
    using n(1) k(1) by (metis of_nat_le_iff of_nat_numeral of_nat_power)
  then have "2 ^ n \<le> x"
    by (simp add: le_floor_iff)
  moreover have "\<lfloor>x\<rfloor> < (2::int) ^ (n + 1)"
    using n(2) k(1) by (metis of_nat_less_iff of_nat_numeral of_nat_power)
  then have "x < 2 ^ (n + 1)"
    by (simp add: floor_less_iff)
  ultimately show ?thesis by blast
qed

text \<open>Rounding to an integer leaves an integer alone and respects integer bounds.\<close>

lemma round_half_even_int: "round_half_even (of_int z) = z"
  by (simp add: round_half_even_def)

lemma round_half_even_le:
  assumes "y \<le> of_int z"
  shows "round_half_even y \<le> z"
proof -
  have fl: "\<lfloor>y\<rfloor> \<le> z"
    using assms by (simp add: floor_le_iff)
  show ?thesis
  proof (cases "\<lfloor>y\<rfloor> = z")
    case True
    then have "y - of_int \<lfloor>y\<rfloor> \<le> 0" using assms by simp
    then show ?thesis using True by (simp add: round_half_even_def Let_def)
  next
    case False
    with fl have "\<lfloor>y\<rfloor> + 1 \<le> z" by simp
    then show ?thesis by (simp add: round_half_even_def Let_def)
  qed
qed

lemma round_half_even_ge:
  assumes "of_int z \<le> y"
  shows "z \<le> round_half_even y"
proof -
  have "z \<le> \<lfloor>y\<rfloor>" using assms by (simp add: le_floor_iff)
  then show ?thesis by (simp add: round_half_even_def Let_def)
qed

text \<open>The spacing of the doubles in the binade \<open>n\<close>.\<close>

lemma ulp_below: "(2::real) powi (int n - 52) = 2 ^ n / 2 ^ 52"
  by (simp add: power_int_diff)

lemma ulp_small:
  assumes "n \<le> 52"
  shows "(2::real) powi (int n - 52) = 1 / 2 ^ (52 - n)"
proof -
  have "int n - 52 = - int (52 - n)" using assms by simp
  then have "(2::real) powi (int n - 52) = 2 powi (- int (52 - n))" by (simp only:)
  then show ?thesis
    by (simp only: power_int_minus power_int_of_nat inverse_eq_divide)
qed

text \<open>The integers of magnitude below \<open>2 ^ 53\<close> are doubles.\<close>

lemma round_double_int:
  assumes "\<bar>k\<bar> < 2 ^ 53"
  shows "round_double (of_int k) = of_int k"
proof (cases "k = 0")
  case True
  then show ?thesis by (simp add: round_double_def)
next
  case False
  then have "1 \<le> \<bar>k\<bar>" by simp
  then have "(1::real) \<le> of_int \<bar>k\<bar>" by (simp only: of_int_1_le_iff)
  then have "1 \<le> \<bar>real_of_int k\<bar>" by simp
  then obtain n where n: "2 ^ n \<le> \<bar>real_of_int k\<bar>" "\<bar>real_of_int k\<bar> < 2 ^ (n + 1)"
    using ex_binade by blast
  have "real_of_int \<bar>k\<bar> < of_int (2 ^ 53)"
    using assms by (simp only: of_int_less_iff)
  then have "\<bar>real_of_int k\<bar> < 2 ^ 53" by simp
  with n(1) have "(2::real) ^ n < 2 ^ 53" by linarith
  from power_less_imp_less_exp [OF _ this] have n52: "n \<le> 52" by simp
  have rd: "round_double (of_int k) =
          of_int (round_half_even (of_int k / 2 powi (int n - 52))) * 2 powi (int n - 52)"
    using n n52 by (intro round_double_binade) (simp_all add: power_int_add)
  have "real_of_int k / 2 powi (int n - 52) = of_int (k * 2 ^ (52 - n))"
    by (simp add: ulp_small [OF n52])
  then have "round_half_even (of_int k / 2 powi (int n - 52)) = k * 2 ^ (52 - n)"
    by (simp only: round_half_even_int)
  then show ?thesis
    by (simp add: rd ulp_small [OF n52])
qed

lemma to_float_int:
  assumes "\<bar>k\<bar> < 2 ^ 53"
  shows "to_float (of_int k) = Finite (of_int k)"
proof -
  have "real_of_int \<bar>k\<bar> < of_int (2 ^ 53)"
    using assms by (simp only: of_int_less_iff)
  then have "\<bar>real_of_int k\<bar> < 2 ^ 53" by simp
  moreover have "(2::real) ^ 53 \<le> 2 ^ 1024" by simp
  ultimately have "\<bar>real_of_int k\<bar> < 2 ^ 1024" by linarith
  then show ?thesis
    by (simp add: to_float_def round_double_int [OF assms] Let_def abs_if split: if_splits)
qed

text \<open>The scores 1 to 5 as floats.\<close>

lemma to_float_likert:
  "to_float 1 = Finite 1" "to_float 2 = Finite 2" "to_float 3 = Finite 3"
  "to_float 4 = Finite 4" "to_float 5 = Finite 5"
  using to_float_int [of 1] to_float_int [of 2] to_float_int [of 3] to_float_int [of 4]
    to_float_int [of 5]
  by simp_all

text \<open>The test \<^verbatim>\<open>x <= 3.0\<close> on a rounded result: 3 is a double, so nothing at or below 3
  rounds above it, and the next double is \<open>3 + 2 ^ - 51\<close>, so everything from
  \<open>3 + 2 ^ - 50\<close> on stays above 3.\<close>

lemma float_le_to_float:
  assumes "- (2 ^ 1024) < c" "c < 2 ^ 1024"
  shows "float_le (to_float x) c \<longleftrightarrow> round_double x \<le> c"
  using assms by (auto simp: to_float_def Let_def)

lemma binade_small: "x < 2 \<Longrightarrow> binade n x \<le> 0"
proof (induction n arbitrary: x)
  case 0
  show ?case by simp
next
  case (Suc n)
  show ?case
  proof (cases "x < 1")
    case True
    then have "binade n (x * 2) \<le> 0" by (intro Suc.IH) simp
    with True Suc.prems show ?thesis by simp
  next
    case False
    with Suc.prems show ?thesis by simp
  qed
qed

lemma round_double_le_3:
  assumes "x \<le> 3"
  shows "round_double x \<le> 3"
proof -
  define e where "e = max (binade 1100 \<bar>x\<bar>) (- 1022)"
  have rd: "x \<noteq> 0 \<Longrightarrow>
      round_double x = of_int (round_half_even (x / 2 powi (e - 52))) * 2 powi (e - 52)"
    by (simp add: round_double_def Let_def e_def)
  have ulp_pos: "0 < (2::real) powi (e - 52)" by simp
  consider "x = 0" | "x < 0" | "0 < x" by linarith
  then show ?thesis
  proof cases
    case 1
    then show ?thesis by (simp add: round_double_def)
  next
    case 2
    then have "x / 2 powi (e - 52) \<le> of_int 0"
      using ulp_pos by (simp add: divide_le_0_iff)
    then have "round_half_even (x / 2 powi (e - 52)) \<le> 0"
      by (rule round_half_even_le)
    then have "real_of_int (round_half_even (x / 2 powi (e - 52))) \<le> 0" by simp
    then have "real_of_int (round_half_even (x / 2 powi (e - 52))) * 2 powi (e - 52) \<le> 0"
      using ulp_pos by (simp add: mult_le_0_iff)
    with 2 show ?thesis by (simp add: rd)
  next
    case 3
    define m where "m = nat (52 - e)"
    have "binade 1100 \<bar>x\<bar> \<le> 1"
    proof (cases "x < 2")
      case True
      then show ?thesis using binade_small [of "\<bar>x\<bar>" 1100] 3 by simp
    next
      case False
      then have "binade 1100 \<bar>x\<bar> = 1"
        using assms 3 by (intro binade_eq) simp_all
      then show ?thesis by simp
    qed
    then have e: "e \<le> 1" "- 1022 \<le> e" by (simp_all add: e_def)
    then have "e - 52 = - int m" by (simp add: m_def)
    then have "(2::real) powi (e - 52) = 2 powi (- int m)" by (simp only:)
    then have ulp: "(2::real) powi (e - 52) = 1 / 2 ^ m"
      by (simp only: power_int_minus power_int_of_nat inverse_eq_divide)
    have "x / 2 powi (e - 52) \<le> of_int (3 * 2 ^ m)"
      using assms by (simp add: ulp)
    then have "round_half_even (x / 2 powi (e - 52)) \<le> 3 * 2 ^ m"
      by (rule round_half_even_le)
    then have "real_of_int (round_half_even (x / 2 powi (e - 52))) \<le> of_int (3 * 2 ^ m)"
      by (simp only: of_int_le_iff)
    with 3 show ?thesis
      by (simp add: rd ulp field_simps)
  qed
qed

lemma round_double_gt_3:
  assumes "3 + 1 / 2 ^ 50 \<le> x" "x < 2 ^ 1100"
  shows "3 < round_double x"
proof -
  have "(0::real) < 1 / 2 ^ 50" by simp
  with assms(1) have "3 < x" by linarith
  then have "1 \<le> x" by simp
  then obtain n where n: "2 ^ n \<le> x" "x < 2 ^ (n + 1)"
    using ex_binade by blast
  have x: "\<bar>x\<bar> = x" using \<open>1 \<le> x\<close> by simp
  have "(2::real) ^ n < 2 ^ 1100" using n(1) assms(2) by linarith
  from power_less_imp_less_exp [OF _ this] have n1100: "n < 1100" by simp
  have n1: "1 \<le> n"
  proof (rule ccontr)
    assume "\<not> 1 \<le> n"
    then have "n = 0" by simp
    with n(2) \<open>3 < x\<close> show False by simp
  qed
  have rd: "round_double x = of_int (round_half_even (x / 2 powi (int n - 52))) * 2 powi (int n - 52)"
    using n n1100 x by (intro round_double_binade) (simp_all add: power_int_add)
  consider "n = 1" | "n = 2" | "3 \<le> n" using n1 by linarith
  then show ?thesis
  proof cases
    case 1
    have "of_int (3 * 2 ^ 51 + 2) \<le> x / 2 powi (int n - 52)"
      using assms(1) 1 by (simp add: ulp_below field_simps)
    then have "3 * 2 ^ 51 + 2 \<le> round_half_even (x / 2 powi (int n - 52))"
      by (rule round_half_even_ge)
    then have "real_of_int (3 * 2 ^ 51 + 2) \<le> real_of_int (round_half_even (x / 2 powi (int n - 52)))"
      by (simp only: of_int_le_iff)
    then show ?thesis using 1 by (simp add: rd ulp_below field_simps)
  next
    case 2
    have "of_int (3 * 2 ^ 50 + 1) \<le> x / 2 powi (int n - 52)"
      using assms(1) 2 by (simp add: ulp_below field_simps)
    then have "3 * 2 ^ 50 + 1 \<le> round_half_even (x / 2 powi (int n - 52))"
      by (rule round_half_even_ge)
    then have "real_of_int (3 * 2 ^ 50 + 1) \<le> real_of_int (round_half_even (x / 2 powi (int n - 52)))"
      by (simp only: of_int_le_iff)
    then show ?thesis using 2 by (simp add: rd ulp_below field_simps)
  next
    case 3
    have "of_int (2 ^ 52) \<le> x / 2 powi (int n - 52)"
      using n(1) by (simp add: ulp_below field_simps)
    then have "2 ^ 52 \<le> round_half_even (x / 2 powi (int n - 52))"
      by (rule round_half_even_ge)
    then have "real_of_int (2 ^ 52) \<le> real_of_int (round_half_even (x / 2 powi (int n - 52)))"
      by (simp only: of_int_le_iff)
    then have "2 ^ n \<le> round_double x"
      by (simp add: rd ulp_below field_simps)
    moreover have "(2::real) ^ 3 \<le> 2 ^ n"
      using 3 by (intro power_increasing) simp_all
    ultimately show ?thesis by simp
  qed
qed

text \<open>Sums of small integers are exact, so for integer scores the test on the float
  average is the test on the exact average.\<close>

lemma foldl_float_add_ints:
  assumes "\<forall>k \<in> set ks. \<bar>k\<bar> \<le> B" "\<bar>a\<bar> + int (length ks) * B < 2 ^ 53"
  shows "foldl float_add (Finite (of_int a)) (map (\<lambda>k. Finite (of_int k)) ks) =
           Finite (of_int (a + sum_list ks))"
  using assms
proof (induction ks arbitrary: a)
  case Nil
  then show ?case by simp
next
  case (Cons k ks)
  have k: "\<bar>k\<bar> \<le> B" and rest: "\<forall>k \<in> set ks. \<bar>k\<bar> \<le> B"
    using Cons.prems(1) by simp_all
  have B: "0 \<le> B" using k by linarith
  have bound: "\<bar>a + k\<bar> + int (length ks) * B < 2 ^ 53"
    using Cons.prems(2) k by (simp add: algebra_simps)
  have "0 \<le> int (length ks) * B" using B by simp
  with bound have "\<bar>a + k\<bar> < 2 ^ 53" by linarith
  then have "to_float (of_int (a + k)) = Finite (of_int (a + k))"
    by (rule to_float_int)
  then have "float_add (Finite (of_int a)) (Finite (of_int k)) = Finite (of_int (a + k))"
    by simp
  then show ?case
    using Cons.IH [OF rest bound] by (simp add: add.assoc)
qed

lemma sum_list_bound:
  assumes "\<forall>k \<in> set ks. \<bar>k\<bar> \<le> B"
  shows "\<bar>sum_list ks\<bar> \<le> int (length ks) * B"
  using assms
proof (induction ks)
  case Nil
  show ?case by simp
next
  case (Cons k ks)
  then have "\<bar>k\<bar> \<le> B" "\<bar>sum_list ks\<bar> \<le> int (length ks) * B" by simp_all
  then show ?case by (simp add: algebra_simps)
qed

lemma average_of_integers:
  assumes "ks \<noteq> []" "\<forall>k \<in> set ks. \<bar>k\<bar> \<le> 2 ^ 20" "length ks \<le> 2 ^ 30"
  shows "float_le (average (map (\<lambda>k. Finite (of_int k)) ks)) 3 \<longleftrightarrow> exact_average ks \<le> 3"
proof -
  define s where "s = sum_list ks"
  define n where "n = length ks"
  have n: "0 < n" "n \<le> 2 ^ 30" using assms(1,3) by (simp_all add: n_def)
  have "int n \<le> 2 ^ 30" using n(2) by (metis of_nat_le_iff of_nat_numeral of_nat_power)
  then have "int n * 2 ^ 20 \<le> 2 ^ 30 * 2 ^ 20" by (intro mult_right_mono) simp_all
  then have nB: "int n * 2 ^ 20 \<le> 2 ^ 50" by simp
  have s: "\<bar>s\<bar> \<le> 2 ^ 50"
    using sum_list_bound [OF assms(2)] nB by (simp add: s_def n_def)
  have "foldl float_add (Finite (of_int 0)) (map (\<lambda>k. Finite (of_int k)) ks) =
          Finite (of_int (0 + sum_list ks))"
    using nB by (intro foldl_float_add_ints [OF assms(2)]) (simp add: n_def)
  then have sum: "float_sum (map (\<lambda>k. Finite (of_int k)) ks) = Finite (of_int s)"
    by (simp add: float_sum_def s_def)
  define x where "x = real_of_int s / real n"
  have avg: "average (map (\<lambda>k. Finite (of_int k)) ks) = to_float x"
    by (simp add: average_def sum x_def n_def)
  have exact: "exact_average ks = x"
    by (simp add: exact_average_def x_def s_def n_def)
  have test: "float_le (to_float x) 3 \<longleftrightarrow> round_double x \<le> 3"
    by (rule float_le_to_float) simp_all
  have "round_double x \<le> 3 \<longleftrightarrow> x \<le> 3"
  proof
    assume "x \<le> 3"
    then show "round_double x \<le> 3" by (rule round_double_le_3)
  next
    assume rounded: "round_double x \<le> 3"
    show "x \<le> 3"
    proof (rule ccontr)
      assume "\<not> x \<le> 3"
      then have "3 * real n < real_of_int s"
        using n(1) by (simp add: x_def field_simps)
      then have "real_of_int (3 * int n) < real_of_int s" by simp
      then have "3 * int n < s" by (simp only: of_int_less_iff)
      then have "3 * int n + 1 \<le> s" by simp
      then have "real_of_int (3 * int n + 1) \<le> real_of_int s" by (simp only: of_int_le_iff)
      then have "3 * real n + 1 \<le> real_of_int s" by simp
      then have "(3 * real n + 1) / real n \<le> real_of_int s / real n"
        by (intro divide_right_mono) simp_all
      moreover have "(3 * real n + 1) / real n = 3 + 1 / real n"
        using n(1) by (simp add: add_divide_distrib)
      ultimately have low: "3 + 1 / real n \<le> x"
        by (simp add: x_def)
      have "real n \<le> 2 ^ 30" using n(2) by (metis of_nat_le_iff of_nat_numeral of_nat_power)
      moreover have "(2::real) ^ 30 \<le> 2 ^ 50" by simp
      ultimately have "real n \<le> 2 ^ 50" by linarith
      then have "1 / 2 ^ 50 \<le> 1 / real n"
        using n(1) by (intro divide_left_mono) simp_all
      with low have lower: "3 + 1 / 2 ^ 50 \<le> x" by linarith
      have "real_of_int \<bar>s\<bar> \<le> real_of_int (2 ^ 50)" using s by (simp only: of_int_le_iff)
      then have "\<bar>real_of_int s\<bar> \<le> 2 ^ 50" by simp
      moreover have "1 \<le> real n" using n(1) by simp
      moreover have "x \<le> \<bar>real_of_int s\<bar> / real n"
        unfolding x_def by (intro divide_right_mono) simp_all
      moreover have "\<bar>real_of_int s\<bar> / real n \<le> \<bar>real_of_int s\<bar> / 1"
        using \<open>1 \<le> real n\<close> by (intro divide_left_mono) simp_all
      ultimately have "x \<le> 2 ^ 50" by simp
      moreover have "(2::real) ^ 50 < 2 ^ 1100" by simp
      ultimately have "x < 2 ^ 1100" by linarith
      with lower have "3 < round_double x" by (rule round_double_gt_3)
      with rounded show False by simp
    qed
  qed
  with test avg exact show ?thesis by simp
qed

text \<open>With fractions the roundings show: 3.6, 3.3, 2.2 and 2.9 have the exact average 3,
  and Python's average of the four doubles is the next double above 3.\<close>

lemma doubles_of_the_fractions:
  "to_float 3.6 = Finite (8106479329266893 / 2 ^ 51)"
  "to_float 3.3 = Finite (3715469692580659 / 2 ^ 50)"
  "to_float 2.2 = Finite (2476979795053773 / 2 ^ 50)"
  "to_float 2.9 = Finite (6530219459687219 / 2 ^ 51)"
proof -
  have "round_double 3.6 = 8106479329266893 / 2 ^ 51"
    using round_double_binade [of 1 "3.6"] by (simp add: round_half_even_def Let_def)
  then show "to_float 3.6 = Finite (8106479329266893 / 2 ^ 51)"
    by (simp add: to_float_def Let_def)
  have "round_double 3.3 = 3715469692580659 / 2 ^ 50"
    using round_double_binade [of 1 "3.3"] by (simp add: round_half_even_def Let_def)
  then show "to_float 3.3 = Finite (3715469692580659 / 2 ^ 50)"
    by (simp add: to_float_def Let_def)
  have "round_double 2.2 = 2476979795053773 / 2 ^ 50"
    using round_double_binade [of 1 "2.2"] by (simp add: round_half_even_def Let_def)
  then show "to_float 2.2 = Finite (2476979795053773 / 2 ^ 50)"
    by (simp add: to_float_def Let_def)
  have "round_double 2.9 = 6530219459687219 / 2 ^ 51"
    using round_double_binade [of 1 "2.9"] by (simp add: round_half_even_def Let_def)
  then show "to_float 2.9 = Finite (6530219459687219 / 2 ^ 51)"
    by (simp add: to_float_def Let_def)
qed

lemma average_of_the_fractions:
  "average [to_float 3.6, to_float 3.3, to_float 2.2, to_float 2.9] =
     Finite (6755399441055745 / 2 ^ 51)"
proof -
  have a1: "to_float (8106479329266893 / 2 ^ 51) = Finite (8106479329266893 / 2 ^ 51)"
  proof -
    have "round_double (8106479329266893 / 2 ^ 51) = 8106479329266893 / 2 ^ 51"
      using round_double_binade [of 1 "8106479329266893 / 2 ^ 51"]
      by (simp add: round_half_even_def Let_def)
    then show ?thesis by (simp add: to_float_def Let_def)
  qed
  have a2: "to_float (8106479329266893 / 2 ^ 51 + 3715469692580659 / 2 ^ 50) =
              Finite (3884354678607053 / 2 ^ 49)"
  proof -
    have "round_double (8106479329266893 / 2 ^ 51 + 3715469692580659 / 2 ^ 50) =
            3884354678607053 / 2 ^ 49"
      using round_double_binade [of 2 "8106479329266893 / 2 ^ 51 + 3715469692580659 / 2 ^ 50"]
      by (simp add: round_half_even_def Let_def)
    then show ?thesis by (simp add: to_float_def Let_def)
  qed
  have a3: "to_float (3884354678607053 / 2 ^ 49 + 2476979795053773 / 2 ^ 50) =
              Finite (1280711144033485 / 2 ^ 47)"
  proof -
    have "round_double (3884354678607053 / 2 ^ 49 + 2476979795053773 / 2 ^ 50) =
            1280711144033485 / 2 ^ 47"
      using round_double_binade [of 3 "3884354678607053 / 2 ^ 49 + 2476979795053773 / 2 ^ 50"]
      by (simp add: round_half_even_def Let_def)
    then show ?thesis by (simp add: to_float_def Let_def)
  qed
  have a4: "to_float (1280711144033485 / 2 ^ 47 + 6530219459687219 / 2 ^ 51) =
              Finite (6755399441055745 / 2 ^ 49)"
  proof -
    have "round_double (1280711144033485 / 2 ^ 47 + 6530219459687219 / 2 ^ 51) =
            6755399441055745 / 2 ^ 49"
      using round_double_binade [of 3 "1280711144033485 / 2 ^ 47 + 6530219459687219 / 2 ^ 51"]
      by (simp add: round_half_even_def Let_def)
    then show ?thesis by (simp add: to_float_def Let_def)
  qed
  have a5: "to_float (6755399441055745 / 2 ^ 49 / 4) = Finite (6755399441055745 / 2 ^ 51)"
  proof -
    have "round_double (6755399441055745 / 2 ^ 49 / 4) = 6755399441055745 / 2 ^ 51"
      using round_double_binade [of 1 "6755399441055745 / 2 ^ 49 / 4"]
      by (simp add: round_half_even_def Let_def)
    then show ?thesis by (simp add: to_float_def Let_def)
  qed
  have "float_sum [to_float 3.6, to_float 3.3, to_float 2.2, to_float 2.9] =
          Finite (6755399441055745 / 2 ^ 49)"
    unfolding doubles_of_the_fractions float_sum_def
    using a1 a2 a3 a4 by simp
  then show ?thesis
    using a5 by (simp add: average_def)
qed

text \<open>The double next above 3 and 3 itself: the sum is a tie between two doubles and goes
  to the even one, 6, so that the average is 3.\<close>

lemma float_next_above_three:
  "to_float 3.0000000000000004 = Finite (6755399441055745 / 2 ^ 51)"
proof -
  have "round_double 3.0000000000000004 = 6755399441055745 / 2 ^ 51"
    using round_double_binade [of 1 "3.0000000000000004"]
    by (simp add: round_half_even_def Let_def)
  then show ?thesis by (simp add: to_float_def Let_def)
qed

lemma average_near_three:
  "average [to_float 3.0000000000000004, to_float 3] = Finite 3"
proof -
  have a1: "to_float (6755399441055745 / 2 ^ 51) = Finite (6755399441055745 / 2 ^ 51)"
  proof -
    have "round_double (6755399441055745 / 2 ^ 51) = 6755399441055745 / 2 ^ 51"
      using round_double_binade [of 1 "6755399441055745 / 2 ^ 51"]
      by (simp add: round_half_even_def Let_def)
    then show ?thesis by (simp add: to_float_def Let_def)
  qed
  have a2: "to_float (6755399441055745 / 2 ^ 51 + 3) = Finite 6"
  proof -
    have "round_double (6755399441055745 / 2 ^ 51 + 3) = 6"
      using round_double_binade [of 2 "6755399441055745 / 2 ^ 51 + 3"]
      by (simp add: round_half_even_def Let_def)
    then show ?thesis by (simp add: to_float_def Let_def)
  qed
  have a3: "to_float (6 / 2) = Finite 3"
    using to_float_likert(3) by simp
  have "float_sum [to_float 3.0000000000000004, to_float 3] = Finite 6"
    unfolding float_next_above_three to_float_likert float_sum_def
    using a1 a2 by simp
  then show ?thesis
    using a3 by (simp add: average_def)
qed

text \<open>A literal beyond the doubles is an infinity, on which \<^verbatim>\<open>int\<close> raises
  \<^verbatim>\<open>OverflowError\<close>.\<close>

lemma to_float_beyond_the_doubles: "to_float (10 ^ 309) = PosInf"
proof -
  have "round_double (10 ^ 309) =
          of_int (round_half_even (10 ^ 309 / 2 powi (1026 - 52))) * 2 powi (1026 - 52)"
    by (rule round_double_binade) simp_all
  moreover have "of_int ((2::int) ^ 52) \<le> (10::real) ^ 309 / 2 powi (1026 - 52)"
    by simp
  then have "2 ^ 52 \<le> round_half_even (10 ^ 309 / 2 powi (1026 - 52))"
    by (rule round_half_even_ge)
  then have "real_of_int (2 ^ 52) \<le> real_of_int (round_half_even (10 ^ 309 / 2 powi (1026 - 52)))"
    by (simp only: of_int_le_iff)
  then have "real_of_int (2 ^ 52) * 2 powi (1026 - 52) \<le>
      real_of_int (round_half_even (10 ^ 309 / 2 powi (1026 - 52))) * 2 powi (1026 - 52)"
    by (intro mult_right_mono) simp_all
  moreover have "real_of_int (2 ^ 52) * 2 powi (1026 - 52) = 2 ^ 1026"
    by simp
  moreover have "(2::real) ^ 1024 \<le> 2 ^ 1026" by simp
  ultimately have "2 ^ 1024 \<le> round_double (10 ^ 309)" by linarith
  then show ?thesis by (simp add: to_float_def Let_def)
qed

lemma int_of_infinity_raises: "py_int U (JNum (10 ^ 309)) = Inl OverflowError"
  using to_float_beyond_the_doubles by simp

text \<open>The double nearest to 5.9.\<close>

lemma to_float_5_9: "to_float 5.9 = Finite (3321404725185741 / 2 ^ 49)"
proof -
  have "round_double 5.9 = 3321404725185741 / 2 ^ 49"
    using round_double_binade [of 2 "5.9"] by (simp add: round_half_even_def Let_def)
  then show ?thesis by (simp add: to_float_def Let_def)
qed

section \<open>Properties of the strings and of the parser\<close>

lemma str_contains_Nil: "str_contains [] s"
  by (induction s) auto

lemma str_strip_spaces:
  assumes "\<forall>c \<in> set s. py_isspace c"
  shows "str_strip s = []"
proof -
  from assms have leading: "dropWhile py_isspace s = []" by simp
  show ?thesis unfolding str_strip_def leading by simp
qed

lemma normalize_str_Nil: "normalize_str U [] = []"
  by (simp add: normalize_str_def str_lower_def str_strip_def)

text \<open>With the excerpt of the tables, lower-casing is a map over the characters.\<close>

lemma str_lower_latin1: "str_lower latin1 s = map latin1_lower s"
proof -
  have "map (\<lambda>i. [latin1_lower (s ! i)]) [0..<length s] =
          map (\<lambda>c. [latin1_lower c]) (map (\<lambda>i. s ! i) [0..<length s])"
    by simp
  also have "\<dots> = map (\<lambda>c. [latin1_lower c]) s"
    by (simp only: map_nth)
  finally have "str_lower latin1 s = concat (map (\<lambda>c. [latin1_lower c]) s)"
    by (simp add: str_lower_def latin1_def)
  also have "\<dots> = map latin1_lower s"
    by (induction s) simp_all
  finally show ?thesis .
qed

lemma normalize_str_latin1:
  "normalize_str latin1 text =
     filter (\<lambda>c. latin1_combining c = 0)
       (concat (map latin1_decomposition (str_strip (map latin1_lower text))))"
  by (simp add: normalize_str_def str_lower_latin1) (simp add: latin1_def)

lemma pylib_latin1:
  "is_digit latin1 = latin1_is_digit" "int_of_str latin1 = latin1_int"
  "float_of_str latin1 = (\<lambda>s. map_option (\<lambda>n. to_float (real_of_int n)) (ascii_digits_value s))"
  by (simp_all add: latin1_def)

lemmas latin1_simps =
  normalize_str_latin1 str_lower_latin1 pylib_latin1 str_strip_def py_isspace_def
  latin1_lower_def latin1_decomposition_def latin1_rows_def latin1_combining_def
  latin1_is_digit_def latin1_int_def ascii_digits_value_def

text \<open>
  C8. For every non-empty list of options, the fast-path multiple-choice parser applied
  to an empty or whitespace-only message succeeds and returns the first option: the
  message is no keycap emoji and no digit string, it normalizes to the empty string, and
  the empty string is contained in every normalized option.
\<close>

theorem parse_multiple_choice_blank:
  assumes "options \<noteq> []" and "\<forall>c \<in> set message. py_isspace c"
  shows "parse_multiple_choice U message options = Inr (Some (hd options))"
proof -
  from assms(1) obtain first rest where options: "options = first # rest"
    by (cases options) auto
  have stripped: "str_strip message = []"
    using assms(2) by (rule str_strip_spaces)
  have no_emoji: "number_emoji_map [] = None"
    by (simp add: number_emoji_map_def keycap_def)
  have no_digits: "\<not> str_isdigit U []"
    by (simp add: str_isdigit_def)
  have "option_matches U (normalize_str U []) first"
    by (simp add: option_matches_def normalize_str_Nil str_contains_Nil)
  then have "match_options U [] options = Inr (Some first)"
    by (simp add: match_options_def options)
  then show ?thesis
    by (simp add: parse_multiple_choice_def stripped no_emoji try_plain_number_def no_digits
        options)
qed

theorem parse_multiple_choice_blank_witness:
  "parse_multiple_choice latin1 (py ''  '') [py ''Sim'', py ''N'' @ [0xE3] @ py ''o'']
     = Inr (Some (py ''Sim'')) \<and>
   parse_multiple_choice latin1 [] [py ''Sim'', py ''N'' @ [0xE3] @ py ''o'']
     = Inr (Some (py ''Sim''))"
  using parse_multiple_choice_blank [of "[py ''Sim'', py ''N'' @ [0xE3] @ py ''o'']" "py ''  ''" latin1]
    parse_multiple_choice_blank [of "[py ''Sim'', py ''N'' @ [0xE3] @ py ''o'']" "[]" latin1]
  by (simp add: py_isspace_def)

section \<open>Properties of the crisis overlay\<close>

lemma scan_resume_signals_found:
  "\<exists>signal \<in> set signals. str_contains signal reply \<Longrightarrow> fst (scan_resume_signals signals reply)"
  by (induction signals) (auto simp: Let_def)

lemma default_ack_nonempty: "default_ack \<noteq> []"
  by (simp add: default_ack_def)

lemma scan_resume_signals_nonempty:
  "fst (scan_resume_signals signals reply) \<Longrightarrow> snd (scan_resume_signals signals reply) \<noteq> []"
  by (induction signals) (auto simp: Let_def default_ack_nonempty)

text \<open>What does hold of the sentinel scan: a reply that contains a sentinel signals
  resumption, and the visible reply is then never empty.\<close>

lemma resumption_signalled_and_reply_nonempty:
  assumes "\<exists>signal \<in> set resume_signals. str_contains signal reply"
  shows "snd (fst (handle_crisis_conversation (Some reply) message cm rows)) \<and>
         fst (fst (handle_crisis_conversation (Some reply) message cm rows)) \<noteq> []"
proof -
  obtain can_resume response where scan:
    "scan_resume_signals resume_signals reply = (can_resume, response)"
    by (cases "scan_resume_signals resume_signals reply")
  from scan_resume_signals_found [OF assms] scan have can_resume by simp
  with scan_resume_signals_nonempty [of resume_signals reply] scan have "response \<noteq> []"
    by simp
  with \<open>can_resume\<close> scan show ?thesis
    by (simp add: handle_crisis_conversation_def Let_def)
qed

text \<open>
  C7. A reply that contains an accepted sentinel should reach the participant with the
  sentinel removed. The loop over the variants stops at the first variant it finds, so
  a reply that holds two different variants keeps the other one: here the reply ends
  with the second and the first variant, resumption is signalled, and the visible reply
  still ends with the second variant.
\<close>

theorem second_sentinel_variant_stays_visible:
  "fst (handle_crisis_conversation
          (Some (py ''Vamos retomar. [RETOMAR QUESTIONARIO] [RETOMAR_QUESTIONARIO]''))
          (py ''estou melhor'') new_crisis_manager [])
     = (py ''Vamos retomar. [RETOMAR QUESTIONARIO]'', True)"
  by (simp add: handle_crisis_conversation_def resume_signals_def str_strip_def py_isspace_def
      new_crisis_manager_def Let_def)

theorem second_sentinel_variant_stays_visible_witness:
  "str_contains (py ''[RETOMAR QUESTIONARIO]'')
     (fst (fst (handle_crisis_conversation
          (Some (py ''Vamos retomar. [RETOMAR QUESTIONARIO] [RETOMAR_QUESTIONARIO]''))
          (py ''estou melhor'') new_crisis_manager [])))"
  using second_sentinel_variant_stays_visible by simp

text \<open>The score after one turn, as a function of the score before it.\<close>

lemma safety_score_after_turn:
  "safety_score (fst (snd (handle_crisis_conversation (Some reply) message cm rows))) =
     (if fst (scan_resume_signals resume_signals reply) then 8 else min (safety_score cm + 0.5) 6)"
  by (cases "scan_resume_signals resume_signals reply")
     (simp add: handle_crisis_conversation_def Let_def)

text \<open>What does hold of the score: a turn keeps it between 0 and 10, and it does not
  decrease as long as it is at most 6 before the turn.\<close>

lemma safety_score_bounds:
  assumes "0 \<le> safety_score cm" and "safety_score cm \<le> 10"
  shows "0 \<le> safety_score (fst (snd (handle_crisis_conversation llm message cm rows))) \<and>
         safety_score (fst (snd (handle_crisis_conversation llm message cm rows))) \<le> 10"
proof (cases llm)
  case None
  with assms show ?thesis by (simp add: handle_crisis_conversation_def Let_def)
next
  case (Some reply)
  with assms show ?thesis by (simp add: safety_score_after_turn min_def)
qed

lemma safety_score_not_decreasing_up_to_cap:
  assumes "safety_score cm \<le> 6"
  shows "safety_score cm \<le> safety_score (fst (snd (handle_crisis_conversation llm message cm rows)))"
proof (cases llm)
  case None
  then show ?thesis by (simp add: handle_crisis_conversation_def Let_def)
next
  case (Some reply)
  with assms show ?thesis by (simp add: safety_score_after_turn)
qed

text \<open>
  C4. The safety score should never decrease from one turn to the next. An episode
  that opens with an initial score of 7 (a value from 0 to 10, as the detailed check is
  asked to give) holds 7 when it is entered and 6 after the first turn without
  resumption, which the same message already runs: the ceiling of 6 is applied to a
  score that is above it.
\<close>

theorem safety_score_drops_from_seven:
  "safety_score (new_crisis_manager\<lparr>crisis_type := Some (py ''suicide''), safety_score := 7\<rparr>) = 7 \<and>
   safety_score (fst (snd (handle_crisis_conversation (Some (py ''Estou aqui para te ouvir.''))
       (py ''nao aguento mais'')
       (new_crisis_manager\<lparr>crisis_type := Some (py ''suicide''), safety_score := 7\<rparr>) []))) = 6"
  by (simp add: safety_score_after_turn resume_signals_def new_crisis_manager_def)

theorem safety_score_drops_from_seven_witness:
  "safety_score (fst (snd (handle_crisis_conversation (Some (py ''Estou aqui para te ouvir.''))
       (py ''nao aguento mais'')
       (new_crisis_manager\<lparr>crisis_type := Some (py ''suicide''), safety_score := 7\<rparr>) [])))
   < safety_score (new_crisis_manager\<lparr>crisis_type := Some (py ''suicide''), safety_score := 7\<rparr>)"
  using safety_score_drops_from_seven by simp

section \<open>The crisis snapshot\<close>

lemma can_resume_signals:
  "snd (fst (handle_crisis_conversation llm message cm rows)) = signals_resumption llm"
  by (cases llm; cases "scan_resume_signals resume_signals (the llm)")
     (simp_all add: handle_crisis_conversation_def signals_resumption_def Let_def)

lemma snapshot_held_enter:
  "snapshot_held (state m) (current_question_index m) (enter_crisis_mode ctype score m)"
  by (simp add: snapshot_held_def enter_crisis_mode_def save_state_def Let_def session.defs)

lemma init_machine_in_crisis:
  assumes "snapshot_held st i stores"
  shows "state (init_machine stores) = EMERGENCY \<and>
         pre_crisis_state (init_machine stores) = Some st \<and>
         pre_crisis_question_index (init_machine stores) = Some i \<and>
         state_row (init_machine stores) = state_row stores"
  using assms
  by (auto simp: snapshot_held_def init_machine_def load_state_def Let_def split: prod.splits)

lemma crisis_turn_cases:
  obtains response cm1 rows1 where
    "handle_crisis_conversation (crisis_reply svc) message
       (fst (ensure_crisis_manager m)) (snd (ensure_crisis_manager m))
     = ((response, signals_resumption (crisis_reply svc)), cm1, rows1)"
proof -
  obtain response can_resume cm1 rows1 where h:
    "handle_crisis_conversation (crisis_reply svc) message
       (fst (ensure_crisis_manager m)) (snd (ensure_crisis_manager m))
     = ((response, can_resume), cm1, rows1)"
    by (metis prod.collapse)
  from can_resume_signals [of "crisis_reply svc" message "fst (ensure_crisis_manager m)"
      "snd (ensure_crisis_manager m)"] h
  have "can_resume = signals_resumption (crisis_reply svc)" by simp
  with h that show thesis by blast
qed

lemma crisis_turn_quiet:
  assumes "\<not> signals_resumption (crisis_reply svc)"
  shows "state_row (fst (crisis_turn svc message m)) = state_row m"
proof -
  obtain response cm1 rows1 where
    "handle_crisis_conversation (crisis_reply svc) message
       (fst (ensure_crisis_manager m)) (snd (ensure_crisis_manager m))
     = ((response, signals_resumption (crisis_reply svc)), cm1, rows1)"
    by (rule crisis_turn_cases)
  with assms show ?thesis
    by (simp add: crisis_turn_def Let_def split_beta)
qed

lemma resume_message_keeps_position:
  assumes "state m \<in> {CONSENT, PHASE1_QUESTIONS, FOLLOWUP_QUESTIONS, ORIGIN_QUESTIONS}"
  shows "fst (get_resume_questionnaire_message m) = m"
  using assms by (auto simp: get_resume_questionnaire_message_def Let_def)

lemma exit_crisis_mode_restores:
  assumes "pre_crisis_state m = Some st" and "pre_crisis_question_index m = Some i"
  shows "state (exit_crisis_mode m) = st \<and> current_question_index (exit_crisis_mode m) = i \<and>
     pre_crisis_state (exit_crisis_mode m) = None \<and> pre_crisis_question_index (exit_crisis_mode m) = None"
  using assms by (simp add: exit_crisis_mode_def save_state_def session.defs)

lemma exit_crisis_mode_default:
  assumes "pre_crisis_state m = None"
  shows "state (exit_crisis_mode m) = WELCOME \<and> current_question_index (exit_crisis_mode m) = 0"
  using assms by (simp add: exit_crisis_mode_def save_state_def)

lemma crisis_turn_resumes:
  assumes "signals_resumption (crisis_reply svc)"
    and "pre_crisis_state m = Some st" and "pre_crisis_question_index m = Some i"
    and "st \<in> {CONSENT, PHASE1_QUESTIONS, FOLLOWUP_QUESTIONS, ORIGIN_QUESTIONS}"
  shows "state (fst (crisis_turn svc message m)) = st \<and>
         current_question_index (fst (crisis_turn svc message m)) = i \<and>
         pre_crisis_state (fst (crisis_turn svc message m)) = None \<and>
         pre_crisis_question_index (fst (crisis_turn svc message m)) = None"
proof -
  obtain response cm1 rows1 where h:
    "handle_crisis_conversation (crisis_reply svc) message
       (fst (ensure_crisis_manager m)) (snd (ensure_crisis_manager m))
     = ((response, signals_resumption (crisis_reply svc)), cm1, rows1)"
    by (rule crisis_turn_cases)
  define m1 where "m1 = m\<lparr>crisis_manager := Some cm1, crisis_rows := rows1\<rparr>"
  have pre: "pre_crisis_state m1 = Some st" "pre_crisis_question_index m1 = Some i"
    using assms by (simp_all add: m1_def)
  note restored = exit_crisis_mode_restores [OF pre]
  with assms(4) have "state (exit_crisis_mode m1) \<in> {CONSENT, PHASE1_QUESTIONS, FOLLOWUP_QUESTIONS, ORIGIN_QUESTIONS}"
    by simp
  then have keep: "fst (get_resume_questionnaire_message (exit_crisis_mode m1)) = exit_crisis_mode m1"
    by (rule resume_message_keeps_position)
  have "fst (crisis_turn svc message m) = fst (get_resume_questionnaire_message (exit_crisis_mode m1))"
    using assms(1) h by (simp add: crisis_turn_def Let_def split_beta m1_def)
  with keep restored show ?thesis by simp
qed

lemma handle_message_in_crisis:
  assumes "snapshot_held st i stores" and "\<not> restart_requested U message"
  shows "handle_message U svc message stores = crisis_turn svc message (init_machine stores)"
  using assms init_machine_in_crisis [OF assms(1)]
  by (simp add: handle_message_def process_message_def)

lemma quiet_turn_keeps_snapshot:
  assumes "snapshot_held st i stores" and "\<not> restart_requested U message"
    and "\<not> signals_resumption (crisis_reply svc)"
  shows "snapshot_held st i (fst (handle_message U svc message stores))"
proof -
  have "state_row (fst (handle_message U svc message stores)) = state_row stores"
    using handle_message_in_crisis [OF assms(1,2)] crisis_turn_quiet [OF assms(3)]
      init_machine_in_crisis [OF assms(1)] by simp
  with assms(1) show ?thesis by (simp add: snapshot_held_def)
qed

lemma quiet_turns_keep_snapshot:
  assumes "snapshot_held st i stores"
    and "\<forall>(svc, message) \<in> set turns.
           \<not> restart_requested U message \<and> \<not> signals_resumption (crisis_reply svc)"
  shows "snapshot_held st i (handle_messages U turns stores)"
  using assms
proof (induction turns arbitrary: stores)
  case Nil
  then show ?case by simp
next
  case (Cons turn turns)
  obtain svc message where turn: "turn = (svc, message)" by (cases turn)
  with Cons.prems have "snapshot_held st i (fst (handle_message U svc message stores))"
    by (intro quiet_turn_keeps_snapshot) auto
  with Cons turn show ?case by simp
qed

text \<open>
  C2. Entering crisis mode from a position in the questionnaire snapshots the state and
  the cursor; \<^verbatim>\<open>exit_crisis_mode\<close> restores exactly that pair and clears the snapshot. The
  same holds over whole messages: after the episode opens, any number of crisis turns
  that neither ask for a restart nor signal resumption leave the snapshot in the stored
  session, and the message whose crisis reply signals resumption ends in the state and
  at the cursor the episode was opened from, with both snapshot fields empty. Without
  a snapshot \<^verbatim>\<open>exit_crisis_mode\<close> goes to \<open>WELCOME\<close> with cursor 0.
\<close>

theorem crisis_snapshot_round_trip:
  assumes "state m \<in> {CONSENT, PHASE1_QUESTIONS, FOLLOWUP_QUESTIONS, ORIGIN_QUESTIONS}"
    and "\<forall>(svc, message) \<in> set turns.
           \<not> restart_requested U message \<and> \<not> signals_resumption (crisis_reply svc)"
    and "\<not> restart_requested U last_message"
    and "signals_resumption (crisis_reply last_svc)"
  shows "(let entered = enter_crisis_mode ctype score m;
              resumed = fst (handle_message U last_svc last_message
                               (handle_messages U turns entered))
          in state entered = EMERGENCY \<and>
             pre_crisis_state entered = Some (state m) \<and>
             pre_crisis_question_index entered = Some (current_question_index m) \<and>
             state (exit_crisis_mode entered) = state m \<and>
             current_question_index (exit_crisis_mode entered) = current_question_index m \<and>
             pre_crisis_state (exit_crisis_mode entered) = None \<and>
             pre_crisis_question_index (exit_crisis_mode entered) = None \<and>
             state resumed = state m \<and>
             current_question_index resumed = current_question_index m \<and>
             pre_crisis_state resumed = None \<and>
             pre_crisis_question_index resumed = None) \<and>
         (\<forall>m0. pre_crisis_state m0 = None \<longrightarrow>
               state (exit_crisis_mode m0) = WELCOME \<and>
               current_question_index (exit_crisis_mode m0) = 0)"
proof -
  define entered where "entered = enter_crisis_mode ctype score m"
  define stores where "stores = handle_messages U turns entered"
  have fields: "state entered = EMERGENCY"
    "pre_crisis_state entered = Some (state m)"
    "pre_crisis_question_index entered = Some (current_question_index m)"
    by (simp_all add: entered_def enter_crisis_mode_def save_state_def Let_def)
  note direct = exit_crisis_mode_restores [OF fields(2,3)]
  have "snapshot_held (state m) (current_question_index m) entered"
    unfolding entered_def by (rule snapshot_held_enter)
  then have held: "snapshot_held (state m) (current_question_index m) stores"
    unfolding stores_def using assms(2) by (rule quiet_turns_keep_snapshot)
  note loaded = init_machine_in_crisis [OF held]
  have "handle_message U last_svc last_message stores =
          crisis_turn last_svc last_message (init_machine stores)"
    using held assms(3) by (rule handle_message_in_crisis)
  moreover note crisis_turn_resumes [OF assms(4) _ _ assms(1), of "init_machine stores"
      "current_question_index m" last_message]
  ultimately have resumed:
    "state (fst (handle_message U last_svc last_message stores)) = state m \<and>
     current_question_index (fst (handle_message U last_svc last_message stores)) =
       current_question_index m \<and>
     pre_crisis_state (fst (handle_message U last_svc last_message stores)) = None \<and>
     pre_crisis_question_index (fst (handle_message U last_svc last_message stores)) = None"
    using loaded by simp
  show ?thesis
    using fields direct resumed exit_crisis_mode_default
    by (simp add: Let_def entered_def [symmetric] stores_def [symmetric])
qed

theorem crisis_snapshot_round_trip_witness:
  "(let entered = enter_crisis_mode (Some (py ''suicide'')) 3
                    ((blank_machine [])\<lparr>state := PHASE1_QUESTIONS, current_question_index := 7\<rparr>);
        resumed = fst (handle_message latin1 resuming_services (py ''estou melhor'')
                         (handle_messages latin1 [(quiet_services, py ''oi'')] entered))
    in state entered = EMERGENCY \<and>
       pre_crisis_state entered = Some PHASE1_QUESTIONS \<and>
       pre_crisis_question_index entered = Some 7 \<and>
       state resumed = PHASE1_QUESTIONS \<and>
       current_question_index resumed = 7 \<and>
       pre_crisis_state resumed = None \<and>
       pre_crisis_question_index resumed = None) \<and>
   state (exit_crisis_mode (blank_machine [])) = WELCOME \<and>
   current_question_index (exit_crisis_mode (blank_machine [])) = 0"
proof -
  have quiet: "\<not> restart_requested latin1 (py ''oi'')"
    "\<not> restart_requested latin1 (py ''estou melhor'')"
    by (simp_all add: restart_requested_def any_word_in_def latin1_simps)
  have signals: "\<not> signals_resumption (crisis_reply quiet_services)"
    "signals_resumption (crisis_reply resuming_services)"
    by (simp_all add: signals_resumption_def quiet_services_def resuming_services_def
        resume_signals_def Let_def)
  have none: "pre_crisis_state (blank_machine []) = None"
    by (simp add: blank_machine_def)
  show ?thesis
    using crisis_snapshot_round_trip
      [of "(blank_machine [])\<lparr>state := PHASE1_QUESTIONS, current_question_index := 7\<rparr>"
          "[(quiet_services, py ''oi'')]" latin1 "py ''estou melhor''" resuming_services
          "Some (py ''suicide'')" 3]
      quiet signals none
    by (simp add: Let_def)
qed

section \<open>Escalation when the detailed check fails\<close>

lemma save_crisis_state_active:
  assumes "crisis_type cm = t"
  shows "\<exists>r \<in> set (save_crisis_state cm rows). row_active r \<and> row_type r = t"
proof (cases "\<exists>r \<in> set rows. row_active r")
  case True
  then obtain r where r: "r \<in> set rows" "row_active r" by blast
  define r' where "r' = r\<lparr>row_history := crisis_history cm, row_type := crisis_type cm,
      row_score := safety_score cm, row_count := interaction_count cm\<rparr>"
  from r True have "r' \<in> set (save_crisis_state cm rows)"
    by (force simp: save_crisis_state_def r'_def)
  moreover from r assms have "row_active r' \<and> row_type r' = t"
    by (simp add: r'_def)
  ultimately show ?thesis by blast
next
  case False
  then have "row_of cm \<in> set (save_crisis_state cm rows)"
    by (simp add: save_crisis_state_def)
  moreover from assms have "row_active (row_of cm) \<and> row_type (row_of cm) = t"
    by (simp add: row_of_def)
  ultimately show ?thesis by blast
qed

lemma handle_crisis_conversation_type:
  "crisis_type (fst (snd (handle_crisis_conversation llm message cm rows))) = crisis_type cm"
  by (cases llm; cases "scan_resume_signals resume_signals (the llm)")
     (simp_all add: handle_crisis_conversation_def Let_def)

lemma handle_crisis_conversation_active:
  assumes "\<exists>r \<in> set rows. row_active r \<and> row_type r = crisis_type cm"
  shows "\<exists>r \<in> set (snd (snd (handle_crisis_conversation llm message cm rows))).
           row_active r \<and> row_type r = crisis_type cm"
proof (cases llm)
  case None
  with assms show ?thesis by (simp add: handle_crisis_conversation_def Let_def)
next
  case (Some reply)
  obtain can_resume response where "scan_resume_signals resume_signals reply = (can_resume, response)"
    by (cases "scan_resume_signals resume_signals reply")
  with Some show ?thesis
    by (auto simp: handle_crisis_conversation_def Let_def intro!: save_crisis_state_active)
qed

lemma fallback_is_emergency:
  "is_emergency (llm_detailed_check None initial_assessment) \<and>
   detailed_confidence (llm_detailed_check None initial_assessment) > 0.6 \<and>
   detailed_type (llm_detailed_check None initial_assessment) = Some (risk_type initial_assessment) \<and>
   initial_safety_score (llm_detailed_check None initial_assessment) = Some 3"
  by (simp add: llm_detailed_check_def)

lemma open_crisis_state:
  "let m' = fst (open_crisis svc message d m)
   in state m' = EMERGENCY \<and>
      pre_crisis_state m' = Some (state m) \<and>
      pre_crisis_question_index m' = Some (current_question_index m) \<and>
      current_question_index m' = current_question_index m \<and>
      phase1_data m' = phase1_data m \<and>
      aprofundamento m' = aprofundamento m \<and>
      origem_riscos m' = origem_riscos m \<and>
      (\<exists>cm. crisis_manager m' = Some cm \<and> crisis_type cm = detailed_type d) \<and>
      (\<exists>row. state_row m' = Some row \<and> state row = EMERGENCY \<and>
             pre_crisis_state row = Some (state m) \<and>
             pre_crisis_question_index row = Some (current_question_index m)) \<and>
      (\<exists>r \<in> set (crisis_rows m'). row_active r \<and> row_type r = detailed_type d)"
proof -
  define cm where "cm = new_crisis_manager\<lparr>crisis_type := detailed_type d,
      safety_score := get_default (initial_safety_score d) 3\<rparr>"
  define rows where "rows = save_crisis_state cm (crisis_rows m)"
  have entered: "crisis_manager (enter_crisis_mode (detailed_type d) (get_default (initial_safety_score d) 3) m) = Some cm"
     "crisis_rows (enter_crisis_mode (detailed_type d) (get_default (initial_safety_score d) 3) m) = rows"
    by (simp_all add: enter_crisis_mode_def save_state_def Let_def cm_def rows_def)
  obtain out cm1 rows1 where h:
    "handle_crisis_conversation (crisis_reply svc) message cm rows = (out, cm1, rows1)"
    by (metis prod.collapse)
  have type: "crisis_type cm = detailed_type d" by (simp add: cm_def)
  have "crisis_type cm1 = crisis_type cm"
    using handle_crisis_conversation_type [of "crisis_reply svc" message cm rows] h by simp
  moreover have "\<exists>r \<in> set rows. row_active r \<and> row_type r = crisis_type cm"
    unfolding rows_def by (rule save_crisis_state_active) simp
  then have "\<exists>r \<in> set rows1. row_active r \<and> row_type r = crisis_type cm"
    using handle_crisis_conversation_active [of rows cm "crisis_reply svc" message] h by simp
  ultimately show ?thesis
    using h type entered
    by (simp add: open_crisis_def Let_def split_beta)
       (simp add: enter_crisis_mode_def save_state_def Let_def session.defs)
qed

text \<open>
  C3. When the screening reports a risk with confidence at or above the threshold and
  the detailed check fails, the fallback result is an emergency with confidence above
  the 0.6 cutoff. A message that reaches the screening (it is no restart command and
  no crisis is open) therefore opens a crisis episode: the session is in \<open>EMERGENCY\<close>,
  in the object and in its stored row, the position is snapshotted, an active crisis row
  of the screened type exists, and the questionnaire is not continued.
\<close>

theorem detailed_check_failure_opens_crisis:
  assumes "\<not> restart_requested U message" and "state m \<noteq> EMERGENCY"
    and "has_risk (screening svc)"
    and "confidence (screening svc) \<ge> SAFETY_CONFIDENCE_THRESHOLD"
    and "detailed svc = None"
  shows "is_emergency (llm_detailed_check (detailed svc) (screening svc)) \<and>
         detailed_confidence (llm_detailed_check (detailed svc) (screening svc)) > 0.6 \<and>
         (let m' = fst (process_message U svc message m)
          in state m' = EMERGENCY \<and>
             pre_crisis_state m' = Some (state m) \<and>
             pre_crisis_question_index m' = Some (current_question_index m) \<and>
             current_question_index m' = current_question_index m \<and>
             phase1_data m' = phase1_data m \<and>
             aprofundamento m' = aprofundamento m \<and>
             origem_riscos m' = origem_riscos m \<and>
             (\<exists>cm. crisis_manager m' = Some cm \<and> crisis_type cm = Some (risk_type (screening svc))) \<and>
             (\<exists>row. state_row m' = Some row \<and> state row = EMERGENCY \<and>
                    pre_crisis_state row = Some (state m) \<and>
                    pre_crisis_question_index row = Some (current_question_index m)) \<and>
             (\<exists>r \<in> set (crisis_rows m').
                row_active r \<and> row_type r = Some (risk_type (screening svc))))"
proof -
  define d where "d = llm_detailed_check (detailed svc) (screening svc)"
  have d: "is_emergency d" "detailed_confidence d > 0.6"
    "detailed_type d = Some (risk_type (screening svc))"
    using fallback_is_emergency [of "screening svc"] assms(5) by (simp_all add: d_def)
  have "process_message U svc message m = open_crisis svc message d m"
    using assms(1-4) d(1,2) by (simp add: process_message_def Let_def d_def)
  with open_crisis_state [of svc message d m] d show ?thesis
    by (simp add: Let_def d_def)
qed

theorem detailed_check_failure_opens_crisis_witness:
  "SAFETY_CONFIDENCE_THRESHOLD \<le> confidence (screening risky_services) \<and>
   state (fst (process_message latin1 risky_services (py ''nao aguento mais'')
                 (in_phase1 [likert_question 1 (py ''Estresse e ansiedade'')]
                    [likert_question 1 (py ''Estresse e ansiedade'')] 0))) = EMERGENCY \<and>
   pre_crisis_state (fst (process_message latin1 risky_services (py ''nao aguento mais'')
                 (in_phase1 [likert_question 1 (py ''Estresse e ansiedade'')]
                    [likert_question 1 (py ''Estresse e ansiedade'')] 0))) = Some PHASE1_QUESTIONS"
proof -
  have "\<not> restart_requested latin1 (py ''nao aguento mais'')"
    by (simp add: restart_requested_def any_word_in_def latin1_simps)
  moreover have "state (in_phase1 [likert_question 1 (py ''Estresse e ansiedade'')]
                    [likert_question 1 (py ''Estresse e ansiedade'')] 0) = PHASE1_QUESTIONS"
    by (simp add: in_phase1_def save_state_def blank_machine_def)
  moreover have "has_risk (screening risky_services)"
    "SAFETY_CONFIDENCE_THRESHOLD \<le> confidence (screening risky_services)"
    "detailed risky_services = None"
    by (simp_all add: risky_services_def quiet_services_def SAFETY_CONFIDENCE_THRESHOLD_def)
  ultimately show ?thesis
    using detailed_check_failure_opens_crisis
      [of latin1 "py ''nao aguento mais''"
          "in_phase1 [likert_question 1 (py ''Estresse e ansiedade'')]
             [likert_question 1 (py ''Estresse e ansiedade'')] 0" risky_services]
    by (simp add: Let_def)
qed

section \<open>Skip requests in phase 1\<close>

lemma reset_fresh:
  "session.truncate (reset m) = fresh_session"
  "state_row (reset m) = Some fresh_session"
  "crisis_manager (reset m) = None"
  "questionnaire (reset m) = questionnaire m"
  by (simp_all add: reset_def save_state_def session.defs fresh_session_def)

lemma skip_intent_llm_parse:
  assumes "skip_intent areply"
  shows "llm_parse areply ireply message qtype clarification_count = WantsToSkip"
  using assms by (auto simp: skip_intent_def llm_parse_def Let_def split: option.splits)

lemma handle_phase1_question_skip:
  assumes "current_question_index m < length (questionnaire m)"
    and "current_question_index m < length (phase1_data m)"
    and "fast_path_fails U m message"
    and "skip_intent areply"
  shows "\<exists>counts. handle_phase1_question U areply ireply message m =
           skip_requested U (current_question m) True (m\<lparr>attempt_counts := counts\<rparr>)"
  using assms skip_intent_llm_parse [OF assms(4)]
  by (auto simp: handle_phase1_question_def Let_def fast_path_fails_def current_question_def)

lemma skip_requested_required:
  assumes "q_required question"
  shows "skip_requested U question llm_used m =
           (m, Inr (Pair (Single [Fixed ''Esta pergunta e obrigatoria e nao pode ser pulada.'',
                                   ask_again m question]) llm_used))"
  using assms by (simp add: skip_requested_def)

lemma skip_requested_exhausted:
  assumes "\<not> q_required question" and "skipped_questions m \<ge> 5"
  shows "fst (skip_requested U question llm_used m) = reset m"
  using assms by (simp add: skip_requested_def)

lemma skip_current_question_fields:
  assumes "current_question_index m < length (phase1_data m)"
  shows "skipped_questions (skip_current_question m) = skipped_questions m + 1"
    and "current_question_index (skip_current_question m) = current_question_index m + 1"
    and "q_disregarded (phase1_data (skip_current_question m) ! current_question_index m)"
    and "q_response (phase1_data (skip_current_question m) ! current_question_index m) = JNull"
    and "state (skip_current_question m) = state m"
    and "questionnaire (skip_current_question m) = questionnaire m"
    and "state_row (skip_current_question m) = Some (session.truncate (skip_current_question m))"
  using assms
  by (simp_all add: skip_current_question_def save_state_def reveal_after_skip_def set_answer_def
      append_next_question_def session.defs nth_append Let_def)

lemma skip_current_question_reveals:
  assumes "current_question_index m < length (phase1_data m)"
    and "current_question_index m + 1 < length (questionnaire m)"
  shows "current_question_index m + 1 < length (phase1_data (skip_current_question m))"
  using assms
  by (simp add: skip_current_question_def save_state_def reveal_after_skip_def set_answer_def
      append_next_question_def Let_def)

lemma skip_requested_granted:
  assumes "\<not> q_required question" and "skipped_questions m < 5"
  shows "fst (skip_requested U question llm_used m) =
           (if current_question_index m + 1 < length (questionnaire m)
            then skip_current_question m
            else fst (do_assessment U (save_state ((skip_current_question m)\<lparr>state := ASSESSMENT\<rparr>))))"
  using assms
  by (simp add: skip_requested_def Let_def skip_current_question_def save_state_def
      reveal_after_skip_def set_answer_def append_next_question_def to_assessment_def split_beta)

text \<open>
  C5 (amended). A skip request on an optional phase-1 question, while fewer than 5
  questions have been skipped, marks the question disregarded with no response, adds
  one to the skip counter and moves the cursor on; the session goes on, also when the
  counter thereby reaches 5 (after the last question the assessment runs on the session
  so advanced). A skip request made when the counter is already at 5 or more resets the
  whole session: the object and the stored row hold a new \<open>WELCOME\<close> session and nothing of
  the old one.
\<close>

theorem skip_request_on_optional_question:
  assumes "current_question_index m < length (questionnaire m)"
    and "current_question_index m < length (phase1_data m)"
    and "fast_path_fails U m message"
    and "skip_intent areply"
    and "\<not> q_required (current_question m)"
  shows "let m' = fst (handle_phase1_question U areply ireply message m);
             i = current_question_index m
         in (skipped_questions m < 5 \<and> i + 1 < length (questionnaire m) \<longrightarrow>
               skipped_questions m' = skipped_questions m + 1 \<and>
               q_disregarded (phase1_data m' ! i) \<and>
               q_response (phase1_data m' ! i) = JNull \<and>
               current_question_index m' = i + 1 \<and>
               i + 1 < length (phase1_data m') \<and>
               state m' = state m \<and>
               state_row m' = Some (session.truncate m')) \<and>
            (skipped_questions m < 5 \<and> \<not> i + 1 < length (questionnaire m) \<longrightarrow>
               (\<exists>skipped. skipped_questions skipped = skipped_questions m + 1 \<and>
                    q_disregarded (phase1_data skipped ! i) \<and>
                    q_response (phase1_data skipped ! i) = JNull \<and>
                    current_question_index skipped = i + 1 \<and>
                    m' = fst (do_assessment U (save_state (skipped\<lparr>state := ASSESSMENT\<rparr>))))) \<and>
            (skipped_questions m \<ge> 5 \<longrightarrow>
               session.truncate m' = fresh_session \<and>
               state_row m' = Some fresh_session \<and>
               crisis_manager m' = None)"
proof -
  obtain counts where step:
    "handle_phase1_question U areply ireply message m =
       skip_requested U (current_question m) True (m\<lparr>attempt_counts := counts\<rparr>)"
    using handle_phase1_question_skip [OF assms(1-4)] by blast
  define m1 where "m1 = m\<lparr>attempt_counts := counts\<rparr>"
  have m1: "current_question_index m1 = current_question_index m"
    "skipped_questions m1 = skipped_questions m" "state m1 = state m"
    "questionnaire m1 = questionnaire m" "length (phase1_data m1) = length (phase1_data m)"
    by (simp_all add: m1_def)
  have in_buffer: "current_question_index m1 < length (phase1_data m1)"
    using assms(2) m1 by simp
  note fields = skip_current_question_fields [OF in_buffer]
  show ?thesis
  proof (cases "skipped_questions m < 5")
    case budget: True
    then have granted: "fst (skip_requested U (current_question m) True m1) =
           (if current_question_index m1 + 1 < length (questionnaire m1)
            then skip_current_question m1
            else fst (do_assessment U (save_state ((skip_current_question m1)\<lparr>state := ASSESSMENT\<rparr>))))"
      using assms(5) m1 by (intro skip_requested_granted) simp_all
    show ?thesis
    proof (cases "current_question_index m + 1 < length (questionnaire m)")
      case True
      with granted m1 have "fst (handle_phase1_question U areply ireply message m) = skip_current_question m1"
        by (simp add: step m1_def)
      with True budget fields m1 skip_current_question_reveals [OF in_buffer] show ?thesis
        by (simp add: Let_def)
    next
      case False
      with granted m1 have "fst (handle_phase1_question U areply ireply message m) =
          fst (do_assessment U (save_state ((skip_current_question m1)\<lparr>state := ASSESSMENT\<rparr>)))"
        by (simp add: step m1_def)
      with False budget fields m1 show ?thesis
        by (auto simp: Let_def intro!: exI [of _ "skip_current_question m1"])
    qed
  next
    case False
    then have "fst (handle_phase1_question U areply ireply message m) = reset m1"
      using assms(5) m1 by (simp add: step m1_def [symmetric] skip_requested_exhausted)
    with False reset_fresh [of m1] show ?thesis
      by (simp add: Let_def)
  qed
qed

subsection \<open>The skip budget and the required questions on concrete sessions\<close>

lemma at_first_question_fields:
  "current_question_index (at_first_question (q # qs) k) = 0"
  "phase1_data (at_first_question (q # qs) k) = [q]"
  "questionnaire (at_first_question (q # qs) k) = q # qs"
  "skipped_questions (at_first_question (q # qs) k) = k"
  "state (at_first_question (q # qs) k) = PHASE1_QUESTIONS"
  "current_question (at_first_question (q # qs) k) = q"
  by (simp_all add: at_first_question_def in_phase1_def blank_machine_def save_state_def
      current_question_def)

lemma pular_not_a_likert_answer: "parse_likert latin1 (py ''pular'') = None"
  by (simp add: parse_likert_def likert_emoji_map_def keycap_def likert_keywords_def
      keyword_matches_def latin1_simps)

lemma pular_not_a_unit:
  "parse_multiple_choice latin1 (py ''pular'') [py ''Matriz'', py ''Filial''] = Inr None"
  by (simp add: parse_multiple_choice_def number_emoji_map_def keycap_def
      try_plain_number_def str_isdigit_def match_options_def option_matches_def latin1_simps)

lemma pular_fails_likert:
  "fast_path_fails latin1 (at_first_question two_likert k) (py ''pular'')"
  using pular_not_a_likert_answer
  by (simp add: fast_path_fails_def two_likert_def at_first_question_fields fast_parse_def
      get_default_def likert_question_def)

lemma pular_fails_unit:
  "fast_path_fails latin1 (at_first_question (unit_first required) k) (py ''pular'')"
  using pular_not_a_unit
  by (simp add: fast_path_fails_def unit_first_def at_first_question_fields fast_parse_def
      get_default_def choice_question_def)

lemma skip_intent_example: "skip_intent (Some (intent_reply ''skip_request''))"
  by (simp add: skip_intent_def intent_reply_def)

lemma two_likert_bounds:
  "current_question_index (at_first_question two_likert k) = 0"
  "length (phase1_data (at_first_question two_likert k)) = 1"
  "length (questionnaire (at_first_question two_likert k)) = 2"
  "skipped_questions (at_first_question two_likert k) = k"
  "state (at_first_question two_likert k) = PHASE1_QUESTIONS"
  "\<not> q_required (current_question (at_first_question two_likert k))"
  by (simp_all add: two_likert_def at_first_question_fields likert_question_def)

lemma unit_first_bounds:
  "current_question_index (at_first_question (unit_first required) k) = 0"
  "length (phase1_data (at_first_question (unit_first required) k)) = 1"
  "length (questionnaire (at_first_question (unit_first required) k)) = 2"
  "skipped_questions (at_first_question (unit_first required) k) = k"
  "state (at_first_question (unit_first required) k) = PHASE1_QUESTIONS"
  "q_required (current_question (at_first_question (unit_first required) k)) = required"
  "q_id (current_question (at_first_question (unit_first required) k)) = Some 4"
  "phase1_data (at_first_question (unit_first required) k) =
     [choice_question 4 [py ''Matriz'', py ''Filial''] required]"
  by (simp_all add: unit_first_def at_first_question_fields choice_question_def)

text \<open>A granted skip at the first of two questions, for any model of the tables.\<close>

lemma granted_skip_at_first_question:
  assumes "current_question_index m = 0" and "length (phase1_data m) = 1"
    and "length (questionnaire m) = 2" and "skipped_questions m < 5"
    and "\<not> q_required (current_question m)"
    and "fast_path_fails U m message" and "skip_intent areply"
  shows "\<exists>m1. fst (handle_phase1_question U areply ireply message m) = skip_current_question m1 \<and>
              current_question_index m1 = 0 \<and> length (phase1_data m1) = 1 \<and>
              skipped_questions m1 = skipped_questions m \<and> state m1 = state m"
proof -
  have bounds: "current_question_index m < length (questionnaire m)"
    "current_question_index m < length (phase1_data m)"
    using assms(1-3) by simp_all
  obtain counts where step:
    "handle_phase1_question U areply ireply message m =
       skip_requested U (current_question m) True (m\<lparr>attempt_counts := counts\<rparr>)"
    using handle_phase1_question_skip [OF bounds assms(6,7)] by blast
  define m1 where "m1 = m\<lparr>attempt_counts := counts\<rparr>"
  have m1: "current_question_index m1 = 0" "length (phase1_data m1) = 1"
    "length (questionnaire m1) = 2" "skipped_questions m1 = skipped_questions m"
    "state m1 = state m"
    using assms(1-3) by (simp_all add: m1_def)
  have "fst (skip_requested U (current_question m) True m1) = skip_current_question m1"
    using skip_requested_granted [of "current_question m" m1 U True] assms(4,5) m1 by simp
  with step m1 show ?thesis
    by (auto simp: m1_def)
qed

text \<open>The skip that makes the counter reach 5 does not destroy the session.\<close>

theorem fifth_skip_keeps_the_session:
  "(let m' = fst (handle_phase1_question latin1 (Some (intent_reply ''skip_request'')) None
                    (py ''pular'') (at_first_question two_likert 4))
    in skipped_questions m' = 5 \<and> state m' = PHASE1_QUESTIONS \<and>
       current_question_index m' = 1 \<and> state_row m' \<noteq> Some fresh_session \<and>
       state_row m' \<noteq> None)"
proof -
  obtain m1 where result:
    "fst (handle_phase1_question latin1 (Some (intent_reply ''skip_request'')) None
            (py ''pular'') (at_first_question two_likert 4)) = skip_current_question m1"
    and m1: "current_question_index m1 = 0" "length (phase1_data m1) = 1"
      "skipped_questions m1 = 4" "state m1 = PHASE1_QUESTIONS"
    using granted_skip_at_first_question
      [of "at_first_question two_likert 4" latin1 "py ''pular''"
          "Some (intent_reply ''skip_request'')" None]
      two_likert_bounds [of 4] pular_fails_likert [of 4] skip_intent_example
    by auto
  have in_buffer: "current_question_index m1 < length (phase1_data m1)"
    using m1 by simp
  note fields = skip_current_question_fields [OF in_buffer]
  have "state_row (skip_current_question m1) \<noteq> Some fresh_session"
    using fields(1,7) m1 by (auto simp: fresh_session_def session.defs)
  with fields m1 show ?thesis
    unfolding Let_def result by simp
qed

theorem skip_request_on_optional_question_witness:
  "skipped_questions (fst (handle_phase1_question latin1 (Some (intent_reply ''skip_request''))
       None (py ''pular'') (at_first_question two_likert 2))) = 3 \<and>
   current_question_index (fst (handle_phase1_question latin1
       (Some (intent_reply ''skip_request'')) None (py ''pular'')
       (at_first_question two_likert 2))) = 1 \<and>
   state_row (fst (handle_phase1_question latin1 (Some (intent_reply ''skip_request''))
       None (py ''pular'') (at_first_question two_likert 5))) = Some fresh_session"
  using skip_request_on_optional_question
      [of "at_first_question two_likert 2" latin1 "py ''pular''"
          "Some (intent_reply ''skip_request'')" None]
    skip_request_on_optional_question
      [of "at_first_question two_likert 5" latin1 "py ''pular''"
          "Some (intent_reply ''skip_request'')" None]
    two_likert_bounds [of 2] two_likert_bounds [of 5]
    pular_fails_likert [of 2] pular_fails_likert [of 5] skip_intent_example
  unfolding Let_def by simp


subsection \<open>Required questions\<close>

text \<open>
  What the handler does guarantee: for a phase-1 question whose \<^verbatim>\<open>required\<close> flag is
  set, a message that the fast path does not parse and that is classified as a request
  to skip never moves the cursor, never marks the question disregarded and never counts
  a skip; the reply presents the same question again at the same position.
\<close>

theorem skip_refused_on_required_question:
  assumes "current_question_index m < length (questionnaire m)"
    and "current_question_index m < length (phase1_data m)"
    and "fast_path_fails U m message"
    and "skip_intent areply"
    and "q_required (current_question m)"
  shows "let (m', r) = handle_phase1_question U areply ireply message m
         in current_question_index m' = current_question_index m \<and>
            phase1_data m' = phase1_data m \<and>
            skipped_questions m' = skipped_questions m \<and>
            state m' = state m \<and>
            r = Inr (Pair (Single [Fixed ''Esta pergunta e obrigatoria e nao pode ser pulada.'',
                                   FormatQuestion (current_question m)
                                     (current_question_index m + 1)
                                     (length (questionnaire m))]) True)"
proof -
  obtain counts where step:
    "handle_phase1_question U areply ireply message m =
       skip_requested U (current_question m) True (m\<lparr>attempt_counts := counts\<rparr>)"
    using handle_phase1_question_skip [OF assms(1-4)] by blast
  show ?thesis
    unfolding step skip_requested_required [OF assms(5)]
    by (simp add: ask_again_def)
qed

text \<open>
  C6. A required question (id 4, 5 or 7) is never skipped: a request to skip it leaves
  the cursor, the answers and the skip counter as they are. The handler does not keep
  to this. \<^verbatim>\<open>llm_parse\<close> counts a question as required when its id is 4, 5 or 7 or its
  \<^verbatim>\<open>required\<close> flag is set, and words the prompt so; the refusal in
  \<^verbatim>\<open>handle_phase1_question\<close> reads the flag alone. For the question of id 4 without the
  flag, \<^verbatim>\<open>pular\<close> classified as a request to skip marks the question disregarded, counts
  one skip and moves the cursor to the next question.
\<close>

theorem skip_granted_on_unflagged_unit_question:
  "q_id (current_question (at_first_question (unit_first False) 0)) = Some 4 \<and>
   is_required (current_question (at_first_question (unit_first False) 0)) \<and>
   current_question_index (at_first_question (unit_first False) 0) = 0 \<and>
   (let m' = fst (handle_phase1_question latin1 (Some (intent_reply ''skip_request'')) None
                    (py ''pular'') (at_first_question (unit_first False) 0))
    in current_question_index m' = 1 \<and> q_disregarded (phase1_data m' ! 0) \<and>
       skipped_questions m' = 1)"
proof -
  obtain m1 where result:
    "fst (handle_phase1_question latin1 (Some (intent_reply ''skip_request'')) None
            (py ''pular'') (at_first_question (unit_first False) 0)) = skip_current_question m1"
    and m1: "current_question_index m1 = 0" "length (phase1_data m1) = 1"
      "skipped_questions m1 = 0"
    using granted_skip_at_first_question
      [of "at_first_question (unit_first False) 0" latin1 "py ''pular''"
          "Some (intent_reply ''skip_request'')" None]
      unit_first_bounds [of False 0] pular_fails_unit [of False 0] skip_intent_example
    by auto
  have in_buffer: "current_question_index m1 < length (phase1_data m1)"
    using m1 by simp
  note fields = skip_current_question_fields [OF in_buffer]
  with m1 unit_first_bounds [of False 0] show ?thesis
    unfolding Let_def result by (simp add: is_required_def get_default_def)
qed

theorem skip_granted_on_unflagged_unit_question_witness:
  "is_required (current_question (at_first_question (unit_first False) 0)) \<and>
   current_question_index
     (fst (handle_phase1_question latin1 (Some (intent_reply ''skip_request'')) None
             (py ''pular'') (at_first_question (unit_first False) 0))) = 1 \<and>
   skipped_questions
     (fst (handle_phase1_question latin1 (Some (intent_reply ''skip_request'')) None
             (py ''pular'') (at_first_question (unit_first False) 0))) = 1"
  using skip_granted_on_unflagged_unit_question unfolding Let_def by simp

text \<open>With the flag set on the same question the request is refused.\<close>

theorem skip_refused_on_required_question_witness:
  "current_question_index (fst (handle_phase1_question latin1
       (Some (intent_reply ''skip_request'')) None (py ''pular'')
       (at_first_question (unit_first True) 0))) = 0 \<and>
   skipped_questions (fst (handle_phase1_question latin1
       (Some (intent_reply ''skip_request'')) None (py ''pular'')
       (at_first_question (unit_first True) 0))) = 0 \<and>
   phase1_data (fst (handle_phase1_question latin1
       (Some (intent_reply ''skip_request'')) None (py ''pular'')
       (at_first_question (unit_first True) 0))) =
     [choice_question 4 [py ''Matriz'', py ''Filial''] True]"
  using skip_refused_on_required_question
      [of "at_first_question (unit_first True) 0" latin1 "py ''pular''"
          "Some (intent_reply ''skip_request'')" None]
    unit_first_bounds [of True 0] pular_fails_unit [of True 0] skip_intent_example
  by (simp add: split_beta)

subsection \<open>What is recorded as an answer\<close>

lemma handle_phase1_question_interpreted:
  assumes "current_question_index m < length (questionnaire m)"
    and "current_question_index m < length (phase1_data m)"
    and "fast_path_fails U m message"
    and "\<And>count. llm_parse areply ireply message
            (get_default (q_type (current_question m)) (py ''text'')) count = Success v c"
  shows "\<exists>counts k1 k2.
           handle_phase1_question U areply ireply message m =
             answer_parsed U (current_question m)
               (get_default (q_type (current_question m)) (py ''text'')) k1 k2 v c True
               (m\<lparr>attempt_counts := counts\<rparr>)"
  using assms
  by (auto simp: handle_phase1_question_def Let_def fast_path_fails_def current_question_def)

lemma answer_parsed_rejected:
  assumes "value_accepted U qtype question v = Inr False"
  shows "fst (answer_parsed U question qtype k1 k2 v c llm_used m) = m"
  using assms by (simp add: answer_parsed_def)

lemma answer_parsed_accepted:
  assumes "value_accepted U qtype question v = Inr True"
    and "current_question_index m < length (phase1_data m)"
    and "current_question_index m + 1 < length (questionnaire m)"
  shows "q_response (phase1_data (fst (answer_parsed U question qtype k1 k2 v c llm_used m))
            ! current_question_index m) = v"
    and "\<not> q_disregarded (phase1_data (fst (answer_parsed U question qtype k1 k2 v c llm_used m))
            ! current_question_index m)"
    and "current_question_index (fst (answer_parsed U question qtype k1 k2 v c llm_used m)) =
           current_question_index m + 1"
  using assms
  by (simp_all add: answer_parsed_def Let_def set_answer_def save_state_def
      append_next_question_def nth_append)

text \<open>What the validation does guarantee: a multiple-choice value is accepted only if
  it is one of the options, and a Likert value only if \<^verbatim>\<open>int\<close> maps it into 1 to 5.\<close>

lemma accepted_choice_is_option:
  "value_accepted U (py ''multiple choice'') question v = Inr True \<longleftrightarrow>
     v \<in> JStr ` set (q_options question)"
  by (simp add: value_accepted_def)

lemma accepted_likert_converts:
  "value_accepted U (py ''likert'') question v = Inr True \<longleftrightarrow>
     (\<exists>n. py_int U v = Inr n \<and> 1 \<le> n \<and> n \<le> 5)"
  by (auto simp: value_accepted_def split: sum.splits exc.splits)

lemma quase_seis_not_parsed: "parse_likert latin1 (py ''quase seis'') = None"
  by (simp add: parse_likert_def likert_emoji_map_def keycap_def likert_keywords_def
      keyword_matches_def latin1_simps)

lemma quase_seis_fails:
  "fast_path_fails latin1 (at_first_question two_likert k) (py ''quase seis'')"
  using quase_seis_not_parsed
  by (simp add: fast_path_fails_def two_likert_def at_first_question_fields fast_parse_def
      get_default_def likert_question_def)

lemma interpreted_as_fraction:
  "llm_parse (Some (intent_reply ''answer''))
     (Some \<lparr>i_value = JNum 5.9, i_confidence = Some (JNum 0.9)\<rparr>) message (py ''likert'') count
   = Success (JNum 5.9) (Some 0.9)"
  by (simp add: llm_parse_def intent_reply_def interpret_as_answer_def interpret_answer_def
      py_gt_def get_default_def Let_def)

text \<open>
  C9. Every recorded Likert response should be an integer from 1 to 5. The validation
  converts the interpreted value with \<^verbatim>\<open>int\<close> and checks the range of the result, but the
  value stored is the unconverted one: when the interpretation service answers 5.9 with
  confidence 0.9, \<^verbatim>\<open>int(5.9)\<close> is 5, the check passes, and 5.9 is recorded as the response
  of the question and the cursor moves on.
\<close>

theorem likert_fraction_is_recorded:
  "(let m' = fst (handle_phase1_question latin1 (Some (intent_reply ''answer''))
                    (Some \<lparr>i_value = JNum 5.9, i_confidence = Some (JNum 0.9)\<rparr>)
                    (py ''quase seis'') (at_first_question two_likert 0))
    in q_response (phase1_data m' ! 0) = JNum 5.9 \<and> \<not> q_disregarded (phase1_data m' ! 0) \<and>
       current_question_index m' = 1)"
proof -
  define m where "m = at_first_question two_likert 0"
  have bounds: "current_question_index m < length (questionnaire m)"
    "current_question_index m < length (phase1_data m)"
    by (simp_all add: m_def two_likert_bounds)
  have qtype: "get_default (q_type (current_question m)) (py ''text'') = py ''likert''"
    by (simp add: m_def two_likert_def at_first_question_fields likert_question_def get_default_def)
  have fails: "fast_path_fails latin1 m (py ''quase seis'')"
    unfolding m_def by (rule quase_seis_fails)
  obtain counts k1 k2 where step:
    "handle_phase1_question latin1 (Some (intent_reply ''answer''))
       (Some \<lparr>i_value = JNum 5.9, i_confidence = Some (JNum 0.9)\<rparr>) (py ''quase seis'') m =
     answer_parsed latin1 (current_question m) (py ''likert'') k1 k2 (JNum 5.9) (Some 0.9) True
       (m\<lparr>attempt_counts := counts\<rparr>)"
    using handle_phase1_question_interpreted [OF bounds fails, of "Some (intent_reply ''answer'')"
        "Some \<lparr>i_value = JNum 5.9, i_confidence = Some (JNum 0.9)\<rparr>" "JNum 5.9" "Some 0.9"]
      interpreted_as_fraction
    unfolding qtype by blast
  define m1 where "m1 = m\<lparr>attempt_counts := counts\<rparr>"
  have m1: "current_question_index m1 = 0" "current_question_index m1 < length (phase1_data m1)"
    "current_question_index m1 + 1 < length (questionnaire m1)"
    by (simp_all add: m1_def m_def two_likert_bounds)
  have accepted: "value_accepted latin1 (py ''likert'') (current_question m) (JNum 5.9) = Inr True"
    by (simp add: value_accepted_def to_float_5_9)
  note stored = answer_parsed_accepted [OF accepted m1(2,3), of k1 k2 "Some 0.9" True]
  with m1(1) show ?thesis
    unfolding Let_def m_def [symmetric] step m1_def [symmetric] by simp
qed

theorem likert_fraction_is_recorded_witness:
  "\<forall>n. q_response (phase1_data (fst (handle_phase1_question latin1 (Some (intent_reply ''answer''))
                    (Some \<lparr>i_value = JNum 5.9, i_confidence = Some (JNum 0.9)\<rparr>)
                    (py ''quase seis'') (at_first_question two_likert 0))) ! 0) \<noteq> JInt n"
  using likert_fraction_is_recorded unfolding Let_def by simp

text \<open>An infinite value passes the interpretation like any number; the conversion then
  raises \<^verbatim>\<open>OverflowError\<close>, which the handler does not catch.\<close>

lemma interpreted_as_infinity:
  "llm_parse (Some (intent_reply ''answer''))
     (Some \<lparr>i_value = JNum (10 ^ 309), i_confidence = Some (JNum 0.9)\<rparr>) message
     (py ''likert'') count
   = Success (JNum (10 ^ 309)) (Some 0.9)"
  by (simp add: llm_parse_def intent_reply_def interpret_as_answer_def interpret_answer_def
      py_gt_def get_default_def Let_def)

lemma likert_infinity_leaves_the_handler:
  "snd (handle_phase1_question latin1 (Some (intent_reply ''answer''))
          (Some \<lparr>i_value = JNum (10 ^ 309), i_confidence = Some (JNum 0.9)\<rparr>)
          (py ''quase seis'') (at_first_question two_likert 0)) = Inl OverflowError"
proof -
  define m where "m = at_first_question two_likert 0"
  have bounds: "current_question_index m < length (questionnaire m)"
    "current_question_index m < length (phase1_data m)"
    by (simp_all add: m_def two_likert_bounds)
  have qtype: "get_default (q_type (current_question m)) (py ''text'') = py ''likert''"
    by (simp add: m_def two_likert_def at_first_question_fields likert_question_def get_default_def)
  have fails: "fast_path_fails latin1 m (py ''quase seis'')"
    unfolding m_def by (rule quase_seis_fails)
  obtain counts k1 k2 where step:
    "handle_phase1_question latin1 (Some (intent_reply ''answer''))
       (Some \<lparr>i_value = JNum (10 ^ 309), i_confidence = Some (JNum 0.9)\<rparr>) (py ''quase seis'') m =
     answer_parsed latin1 (current_question m) (py ''likert'') k1 k2 (JNum (10 ^ 309)) (Some 0.9)
       True (m\<lparr>attempt_counts := counts\<rparr>)"
    using handle_phase1_question_interpreted [OF bounds fails, of "Some (intent_reply ''answer'')"
        "Some \<lparr>i_value = JNum (10 ^ 309), i_confidence = Some (JNum 0.9)\<rparr>" "JNum (10 ^ 309)"
        "Some 0.9"]
      interpreted_as_infinity
    unfolding qtype by blast
  have "value_accepted latin1 (py ''likert'') (current_question m) (JNum (10 ^ 309)) =
          Inl OverflowError"
    unfolding value_accepted_def int_of_infinity_raises by simp
  then show ?thesis
    unfolding m_def [symmetric] step by (simp add: answer_parsed_def)
qed

section \<open>The assessment\<close>

text \<open>First-seen order: a dimension appended at the end is new or already listed.\<close>

lemma first_seen_set: "set (first_seen xs) = set xs"
  by (induction xs) auto

lemma first_seen_distinct: "distinct (first_seen xs)"
  by (induction xs) (auto simp: first_seen_set)

lemma first_seen_snoc:
  "first_seen (xs @ [y]) = (if y \<in> set xs then first_seen xs else first_seen xs @ [y])"
  by (induction xs) auto

lemma add_score_map:
  assumes "distinct ks"
  shows "add_score d x (map (\<lambda>k. (k, f k)) ks) =
           map (\<lambda>k. (k, if k = d then f k @ [x] else f k)) ks"
  using assms by (induction ks) auto

lemma scores_of_snoc:
  "scores_of U (data @ [item]) d = scores_of U data d @ score_of U d item"
  by (simp add: scores_of_def)

lemma scored_items_snoc:
  "scored_items U (data @ [item]) =
     (if is_scored U item then scored_items U data @ [item] else scored_items U data)"
  by (simp add: scored_items_def)

lemma collect_scores_append:
  "collect_scores U (xs @ ys) acc = collect_scores U ys (collect_scores U xs acc)"
  by (induction xs arbitrary: acc) simp_all

lemma scores_of_unseen:
  assumes "d \<notin> q_dimension ` set (scored_items U data)"
  shows "scores_of U data d = []"
  using assms
  by (induction data) (auto simp: scores_of_def scored_items_def score_of_def)

lemma score_table_step:
  "collect_scores U [item] (score_table U data) = score_table U (data @ [item])"
proof (cases "is_scored U item")
  case False
  then have "scores_of U (data @ [item]) = scores_of U data"
    by (auto simp: scores_of_snoc score_of_def)
  with False show ?thesis
    by (simp add: score_table_def scored_items_snoc)
next
  case True
  define d where "d = q_dimension item"
  define ks where "ks = first_seen (map q_dimension (scored_items U data))"
  have ks: "distinct ks" "set ks = q_dimension ` set (scored_items U data)"
    by (simp_all add: ks_def first_seen_distinct first_seen_set)
  define ks' where "ks' = (if d \<in> set ks then ks else ks @ [d])"
  have ks': "distinct ks'" using ks by (simp add: ks'_def)
  have keys: "first_seen (map q_dimension (scored_items U (data @ [item]))) = ks'"
    using True ks by (simp add: scored_items_snoc first_seen_snoc ks'_def ks_def d_def)
  have new_key: "d \<notin> set ks \<Longrightarrow> scores_of U data d = []"
    using ks(2) by (intro scores_of_unseen) simp
  have scores1: "(if d \<notin> fst ` set (score_table U data)
                  then score_table U data @ [(d, [])] else score_table U data) =
                 map (\<lambda>k. (k, scores_of U data k)) ks'"
    using new_key by (auto simp: score_table_def ks_def [symmetric] ks'_def image_image)
  have after: "scores_of U (data @ [item]) k =
                 (if k = d then scores_of U data k @ score_of U d item else scores_of U data k)" for k
    using True by (auto simp: scores_of_snoc score_of_def d_def)
  show ?thesis
  proof (cases "py_float U (q_response item)")
    case None
    then have "score_of U d item = []" by (simp add: score_of_def)
    with after have "scores_of U (data @ [item]) = scores_of U data" by auto
    with True None scores1 show ?thesis
      by (simp add: d_def [symmetric] score_table_def [of U "data @ [item]"] keys)
  next
    case (Some x)
    with True have "score_of U d item = [x]" by (simp add: score_of_def d_def)
    with after have "scores_of U (data @ [item]) =
        (\<lambda>k. if k = d then scores_of U data k @ [x] else scores_of U data k)" by auto
    with True Some scores1 add_score_map [OF ks', of d x "scores_of U data"] show ?thesis
      by (simp add: d_def [symmetric] score_table_def [of U "data @ [item]"] keys)
  qed
qed

lemma collect_scores_table: "collect_scores U data [] = score_table U data"
proof (induction data rule: rev_induct)
  case Nil
  show ?case by (simp add: score_table_def scored_items_def)
next
  case (snoc item data)
  show ?case
    unfolding collect_scores_append snoc.IH by (rule score_table_step)
qed

lemma select_triggers_map:
  "select_triggers U (map (\<lambda>d. (d, f d)) ks) =
     filter (\<lambda>d. f d \<noteq> [] \<and> is_target U d \<and> float_le (average (f d)) 3) ks"
  by (induction ks) (simp_all add: average_def)

text \<open>Where the scores of a dimension are integers (of magnitude up to \<open>2 ^ 20\<close>, fewer
  than \<open>2 ^ 30\<close> of them), the test is on their exact average.\<close>

lemma at_risk_integer_scores:
  assumes "scores_of U data d = map (\<lambda>k. Finite (of_int k)) ks"
    and "\<forall>k \<in> set ks. \<bar>k\<bar> \<le> 2 ^ 20" and "length ks \<le> 2 ^ 30"
  shows "at_risk U data d \<longleftrightarrow> ks \<noteq> [] \<and> is_target U d \<and> exact_average ks \<le> 3"
proof (cases "ks = []")
  case True
  then show ?thesis by (simp add: at_risk_def assms(1))
next
  case False
  then show ?thesis
    using average_of_integers [OF False assms(2,3)] by (simp add: at_risk_def assms(1))
qed

lemma select_triggers_assessed:
  "select_triggers U (collect_scores U data []) = assessed_triggers U data"
  unfolding collect_scores_table score_table_def select_triggers_map assessed_triggers_def
  by (rule filter_cong) (simp_all add: at_risk_def)

lemma do_assessment_triggers:
  "trigger_dimensions (fst (do_assessment U m)) =
     select_triggers U (collect_scores U (phase1_data m) [])"
  by (simp add: do_assessment_def Let_def save_to_s3_def save_state_def get_completion_message_def
      reset_def split_beta)

text \<open>
  C1 (amended). The assessment is a function of the collected phase-1 answers (and of
  Python's Unicode tables, through \<^verbatim>\<open>lower\<close> and \<^verbatim>\<open>normalize\<close>) only: it groups the
  Likert responses that are not disregarded and not \<^verbatim>\<open>None\<close> by their dimension tag,
  averages the scores of each dimension, and \<^verbatim>\<open>trigger_dimensions\<close> becomes exactly the
  dimensions that have a score, whose normalised tag is one of the five fixed target
  dimensions, and whose average is at most 3.0, in the order in which the dimensions were
  first observed. A low average in a dimension outside the five does not trigger. The
  average is the one Python computes, \<^verbatim>\<open>sum(scores) / len(scores)\<close> on floats: the exact
  average when the scores are integers (\<open>at_risk_integer_scores\<close>), a rounded one when
  they are fractions.
\<close>

theorem assessment_selects_target_dimensions_at_risk:
  "trigger_dimensions (fst (do_assessment U m)) = assessed_triggers U (phase1_data m)"
  by (simp add: do_assessment_triggers select_triggers_assessed)

text \<open>The averages of the example.\<close>

lemma averages_of_the_example:
  "float_le (average [Finite 2, Finite 3]) 3" "\<not> float_le (average [Finite 4, Finite 5]) 3"
  "\<not> float_le (average [Finite 2, Finite 3, Finite 4, Finite 5]) 3"
  using average_of_integers [of "[2, 3]"] average_of_integers [of "[4, 5]"]
    average_of_integers [of "[2, 3, 4, 5]"]
  by (simp_all add: exact_average_def)

text \<open>The answers \<open>{d1: [2, 3], d2: [4, 5]}\<close>: the dictionary of the first loop, and the
  tags \<^verbatim>\<open>d1\<close> and \<^verbatim>\<open>d2\<close> against the five target dimensions.\<close>

lemma two_dimensions_table:
  "collect_scores latin1 (two_dimensions d1 d2) [] =
     (if d2 = d1 then [(d1, [Finite 2, Finite 3, Finite 4, Finite 5])]
      else [(d1, [Finite 2, Finite 3]), (d2, [Finite 4, Finite 5])])"
  by (simp add: two_dimensions_def is_scored_def answered_def likert_question_def get_default_def
      str_lower_latin1 latin1_lower_def to_float_likert)

lemma other_tags_not_targets:
  "\<not> is_target latin1 (py ''d1'')" "\<not> is_target latin1 (py ''d2'')"
  by (simp_all add: is_target_def target_dimensions_def latin1_simps)

lemma before_assessment_data: "phase1_data (before_assessment data) = data"
  by (simp add: before_assessment_def save_state_def blank_machine_def)

text \<open>With the tags \<^verbatim>\<open>d1\<close> and \<^verbatim>\<open>d2\<close> themselves the average of \<^verbatim>\<open>d1\<close> is 2.5, and no
  dimension is selected: the session completes without follow-up questions.\<close>

theorem low_average_outside_the_targets_not_selected:
  "scores_of latin1 (two_dimensions (py ''d1'') (py ''d2'')) (py ''d1'') = [Finite 2, Finite 3] \<and>
   exact_average [2, 3] = 5 / 2 \<and>
   float_le (average [Finite 2, Finite 3]) 3 \<and>
   trigger_dimensions
     (fst (do_assessment latin1 (before_assessment (two_dimensions (py ''d1'') (py ''d2''))))) = []"
proof -
  have "scores_of latin1 (two_dimensions (py ''d1'') (py ''d2'')) (py ''d1'') =
          [Finite 2, Finite 3]"
    by (simp add: scores_of_def score_of_def two_dimensions_def is_scored_def answered_def
        likert_question_def get_default_def str_lower_latin1 latin1_lower_def to_float_likert)
  moreover have "exact_average [2, 3] = 5 / 2"
    by (simp add: exact_average_def)
  moreover note averages_of_the_example(1)
  moreover have "trigger_dimensions
     (fst (do_assessment latin1 (before_assessment (two_dimensions (py ''d1'') (py ''d2''))))) = []"
    using other_tags_not_targets
    by (simp add: do_assessment_triggers before_assessment_data two_dimensions_table)
  ultimately show ?thesis by simp
qed

text \<open>With two of the target dimensions in place of \<^verbatim>\<open>d1\<close> and \<^verbatim>\<open>d2\<close>, exactly the first
  is selected.\<close>

lemma stress_is_target: "is_target latin1 (py ''Estresse e ansiedade'')"
  by (simp add: is_target_def target_dimensions_def latin1_simps)

lemma assessed_two_dimensions:
  assumes "d1 \<noteq> d2" "is_target latin1 d1"
  shows "assessed_triggers latin1 (two_dimensions d1 d2) = [d1]"
  using assms averages_of_the_example
  by (simp add: assessed_triggers_def scored_items_def at_risk_def scores_of_def score_of_def
      two_dimensions_def is_scored_def answered_def likert_question_def
      get_default_def str_lower_latin1 latin1_lower_def to_float_likert)

theorem assessment_selects_target_dimensions_at_risk_witness:
  "trigger_dimensions
     (fst (do_assessment latin1
        (before_assessment
           (two_dimensions (py ''Estresse e ansiedade'')
              (py ''Equil'' @ [0xED] @ py ''brio vida-trabalho''))))) =
   [py ''Estresse e ansiedade'']"
  using assessment_selects_target_dimensions_at_risk
    [of latin1 "before_assessment
           (two_dimensions (py ''Estresse e ansiedade'')
              (py ''Equil'' @ [0xED] @ py ''brio vida-trabalho''))"]
    assessed_two_dimensions [OF _ stress_is_target,
      of "py ''Equil'' @ [0xED] @ py ''brio vida-trabalho''"]
  by (simp add: before_assessment_data)

text \<open>The fractions 3.6, 3.3, 2.2 and 2.9 in a target dimension: their exact average is
  3, the average of the floats is above 3, and the dimension is not selected.\<close>

lemma fractional_scores_not_selected:
  "(3.6 + 3.3 + 2.2 + 2.9) / 4 = (3::real) \<and>
   trigger_dimensions
     (fst (do_assessment latin1
        (before_assessment (fractional_answers (py ''Estresse e ansiedade''))))) = []"
proof -
  have "collect_scores latin1 (fractional_answers (py ''Estresse e ansiedade'')) [] =
          [(py ''Estresse e ansiedade'', [to_float 3.6, to_float 3.3, to_float 2.2, to_float 2.9])]"
    by (simp add: fractional_answers_def is_scored_def answered_def likert_question_def
        get_default_def str_lower_latin1 latin1_lower_def)
  moreover have "\<not> float_le (average [to_float 3.6, to_float 3.3, to_float 2.2, to_float 2.9]) 3"
    using average_of_the_fractions by simp
  ultimately have "select_triggers latin1
      (collect_scores latin1 (fractional_answers (py ''Estresse e ansiedade'')) []) = []"
    by (simp add: average_def)
  then show ?thesis
    by (simp add: do_assessment_triggers before_assessment_data)
qed

text \<open>The other way round: the double next above 3 and 3 have an exact average above 3,
  the sum of the floats rounds to 6, and the dimension is selected.\<close>

lemma rounded_sum_selected:
  "3 < (3.0000000000000004 + 3) / (2::real) \<and>
   trigger_dimensions
     (fst (do_assessment latin1
        (before_assessment (answers_near_three (py ''Estresse e ansiedade''))))) =
   [py ''Estresse e ansiedade'']"
proof -
  have "collect_scores latin1 (answers_near_three (py ''Estresse e ansiedade'')) [] =
          [(py ''Estresse e ansiedade'', [to_float 3.0000000000000004, to_float 3])]"
    by (simp add: answers_near_three_def is_scored_def answered_def likert_question_def
        get_default_def str_lower_latin1 latin1_lower_def)
  moreover have "float_le (average [to_float 3.0000000000000004, to_float 3]) 3"
    using average_near_three by simp
  ultimately have "select_triggers latin1
      (collect_scores latin1 (answers_near_three (py ''Estresse e ansiedade'')) []) =
      [py ''Estresse e ansiedade'']"
    using stress_is_target by (simp add: average_def)
  then show ?thesis
    by (simp add: do_assessment_triggers before_assessment_data)
qed

section \<open>The free-text origin question\<close>

lemma append_origin_lookup:
  "map_of (append_origin d a recorded) k =
     (if k = d then Some (get_default (map_of recorded d) [] @ [a]) else map_of recorded k)"
  by (induction recorded) (auto simp: get_default_def)

lemma finish_origin_fields:
  "archive (fst (finish_origin llm_used m)) =
     archive m @ [FollowupsDoc (aprofundamento m) (origem_riscos m)]"
  "session.truncate (fst (finish_origin llm_used m)) = fresh_session"
  "state_row (fst (finish_origin llm_used m)) = Some fresh_session"
  "\<exists>text. snd (finish_origin llm_used m) = Inr (Pair (Single text) llm_used)"
  by (simp_all add: finish_origin_def get_completion_message_def reset_fresh)
     (simp_all add: reset_def save_state_def save_to_s3_def)

text \<open>
  C10. At the free-text origin sub-question (odd cursor in \<^verbatim>\<open>ORIGIN_QUESTIONS\<close>, with the
  dimension of the cursor among the trigger dimensions) every message, the empty one and
  a request to skip included, is recorded as it is, cut to its first 500 characters, at
  the end of the answers of the current dimension. The handler raises nothing, does not
  consult the interpretation service (the reply is flagged as made without it, and the
  outcome is the same for all replies of that service), and leaves the attempt counters
  and the skip counter alone. When another dimension remains, the cursor moves on by one
  and the next reply shows the first sub-question of the next dimension; when it was the
  last dimension, the cursor moves past the end, the answers so recorded go to the
  archive, and the session is reset.
\<close>

theorem origin_free_text_is_recorded:
  assumes "current_question_index m mod 2 = 1"
    and "current_question_index m div 2 < length (trigger_dimensions m)"
  shows "let i = current_question_index m;
             dims = trigger_dimensions m;
             answer = (ORIGIN_QUESTIONS_list ! 1, JStr (take 500 message));
             recorded = append_origin (dims ! (i div 2)) answer (origem_riscos m);
             (m', r) = handle_origin_questions U areply ireply message m
         in map_of recorded (dims ! (i div 2)) =
              Some (get_default (map_of (origem_riscos m) (dims ! (i div 2))) [] @ [answer]) \<and>
            (if i div 2 + 1 < length dims
             then r = Inr (Pair (Single [Fixed ''Registrado.'',
                                         FormatOrigin (ORIGIN_QUESTIONS_list ! 0) (i + 2)
                                           (length dims * 2) (Some (dims ! (i div 2 + 1)))]) False) \<and>
                  origem_riscos m' = recorded \<and> current_question_index m' = i + 1 \<and>
                  state m' = state m \<and> trigger_dimensions m' = dims \<and>
                  attempt_counts m' = attempt_counts m \<and>
                  skipped_questions m' = skipped_questions m \<and>
                  state_row m' = Some (session.truncate m') \<and> archive m' = archive m
             else (\<exists>text. r = Inr (Pair (Single text) False)) \<and>
                  archive m' = archive m @ [FollowupsDoc (aprofundamento m) recorded] \<and>
                  session.truncate m' = fresh_session \<and> state_row m' = Some fresh_session)"
proof -
  define i where "i = current_question_index m"
  define m1 where "m1 = save_state
     (m\<lparr>origem_riscos := append_origin (trigger_dimensions m ! (i div 2))
                           (ORIGIN_QUESTIONS_list ! 1, JStr (take 500 message)) (origem_riscos m),
        current_question_index := i + 1\<rparr>)"
  have odd: "i mod 2 = 1" and inside: "i div 2 < length (trigger_dimensions m)"
    using assms by (simp_all add: i_def)
  have next_index: "(i + 1) div 2 = i div 2 + 1" "(i + 1) mod 2 = 0"
    using odd by presburger+
  have m1: "trigger_dimensions m1 = trigger_dimensions m" "current_question_index m1 = i + 1"
    "origem_riscos m1 = append_origin (trigger_dimensions m ! (i div 2))
                           (ORIGIN_QUESTIONS_list ! 1, JStr (take 500 message)) (origem_riscos m)"
    "state m1 = state m" "attempt_counts m1 = attempt_counts m"
    "skipped_questions m1 = skipped_questions m" "state_row m1 = Some (session.truncate m1)"
    "archive m1 = archive m" "aprofundamento m1 = aprofundamento m"
    by (simp_all add: m1_def save_state_def session.defs)
  have run: "handle_origin_questions U areply ireply message m =
               (if i div 2 + 1 < length (trigger_dimensions m)
                then (m1, Inr (Pair (Single [Fixed ''Registrado.'',
                                      FormatOrigin (ORIGIN_QUESTIONS_list ! 0) (i + 2)
                                        (length (trigger_dimensions m) * 2)
                                        (Some (trigger_dimensions m ! (i div 2 + 1)))]) False))
                else finish_origin False m1)"
    using odd inside next_index
    by (simp add: handle_origin_questions_def record_origin_def Let_def i_def [symmetric]
        m1_def save_state_def not_le)
  show ?thesis
  proof (cases "i div 2 + 1 < length (trigger_dimensions m)")
    case True
    then show ?thesis
      unfolding Let_def i_def [symmetric] run
      by (simp add: m1 append_origin_lookup)
  next
    case False
    obtain t where "snd (finish_origin False m1) = Inr (Pair (Single t) False)"
      using finish_origin_fields(4) by blast
    with False show ?thesis
      unfolding Let_def i_def [symmetric] run
      by (simp add: split_beta finish_origin_fields m1 append_origin_lookup)
  qed
qed

text \<open>An empty message at the first dimension, and \<^verbatim>\<open>pular\<close> with a detected skip intent
  at the last one.\<close>

lemma in_origin_fields:
  "current_question_index (in_origin i) = i"
  "trigger_dimensions (in_origin i) =
     [py ''Estresse e ansiedade'', py ''Equil'' @ [0xED] @ py ''brio vida-trabalho'']"
  "origem_riscos (in_origin i) = []" "aprofundamento (in_origin i) = []"
  "archive (in_origin i) = []"
  by (simp_all add: in_origin_def save_state_def blank_machine_def)

theorem origin_free_text_is_recorded_witness:
  "origem_riscos (fst (handle_origin_questions latin1 None None [] (in_origin 1))) =
     [(py ''Estresse e ansiedade'', [(ORIGIN_QUESTIONS_list ! 1, JStr [])])] \<and>
   current_question_index (fst (handle_origin_questions latin1 None None [] (in_origin 1))) = 2 \<and>
   archive (fst (handle_origin_questions latin1 (Some (intent_reply ''skip'')) None
                   (py ''pular'') (in_origin 3))) =
     [FollowupsDoc []
        [(py ''Equil'' @ [0xED] @ py ''brio vida-trabalho'',
          [(ORIGIN_QUESTIONS_list ! 1, JStr (py ''pular''))])]]"
  using origin_free_text_is_recorded [of "in_origin 1" "[]" latin1 None None]
    origin_free_text_is_recorded [of "in_origin 3" "py ''pular''" latin1
      "Some (intent_reply ''skip'')" None]
  by (simp add: in_origin_fields Let_def split_beta)

end
